theory Spec2Isabelle
  imports Complex_Main
begin

section \<open>Correlation measurement of the XYZ model (XYZMeasurementCorrelation.cpp)\<close>

text \<open>
  A shallow embedding of \<^verbatim>\<open>src/XYZ/XYZMeasurementCorrelation.cpp\<close>.
  Single-precision numbers are idealised as \<^typ>\<open>real\<close>: rounding, overflow and the
  infinities and NaNs of IEEE arithmetic are outside the model, and every statement below
  is about the shape of the computation, the comparisons that guard it and the
  effects on buffers and on the output file.

  The collaborators whose sources are not part of the file (lattice, frequency mesh,
  vertex functions, quadrature) are parameters of the model, collected in records.
\<close>

subsection \<open>Spin components and value bundles\<close>

text \<open>
  \<^verbatim>\<open>SpinComponent\<close> has the members X, Y, Z and None (the density channel); the
  constructors carry a prefix because \<open>None\<close> is taken. A
  \<^verbatim>\<open>ValueSuperbundle<float, 4>\<close> holds one \<^verbatim>\<open>ValueBundle<float>\<close> per component,
  reached by \<^verbatim>\<open>bundle(static_cast<int>(component))\<close>; the model indexes the four
  bundles by the component itself, so the cast is taken to be injective.
\<close>

datatype SpinComponent = SpinX | SpinY | SpinZ | SpinNone

type_synonym valueBundle = "real list"

type_synonym superbundle = "SpinComponent \<Rightarrow> valueBundle"

type_synonym site = nat

type_synonym vec3 = "real \<times> real \<times> real"

text \<open>
  Modelled from the spec: \<^verbatim>\<open>lib/ValueBundle.hpp\<close> is missing. The spec calls it
  the generic multi-channel numeric buffer; its operations are element-wise, as their
  names say. A bundle constructed with a size, or reset, holds zeros.
\<close>

definition sb_zero :: "nat \<Rightarrow> superbundle" where
  "sb_zero n = (\<lambda>c. replicate n 0)"

text \<open>
  Modelled from the spec: \<^verbatim>\<open>a.multSub(f, rhs)\<close> of the missing
  \<^verbatim>\<open>lib/ValueBundle.hpp\<close> subtracts \<open>f\<close> times \<open>rhs\<close> from \<open>a\<close>, entry by entry (the spec:
  the bundled vertex is subtracted with the weights -1 and -4).
\<close>

definition multSub :: "real \<Rightarrow> valueBundle \<Rightarrow> valueBundle \<Rightarrow> valueBundle" where
  "multSub f a rhs = map2 (\<lambda>x y. x - f * y) a rhs"

text \<open>
  Modelled from the spec: \<^verbatim>\<open>b[i] += v\<close> on a bundle of the missing
  \<^verbatim>\<open>lib/ValueBundle.hpp\<close> adds \<open>v\<close> to entry \<open>i\<close>. An index past the bundle is
  undefined behaviour in the source; the statements about the kernels assume a lattice
  with at least one site, where index 0 exists.
\<close>

definition addAt :: "valueBundle \<Rightarrow> nat \<Rightarrow> real \<Rightarrow> valueBundle" where
  "addAt b i v = b[i := b ! i + v]"

text \<open>
  Modelled from the spec: \<^verbatim>\<open>sb *= k\<close> and \<^verbatim>\<open>a += b\<close> on superbundles of the missing
  \<^verbatim>\<open>lib/ValueBundle.hpp\<close> scale every entry and add entry by entry.
\<close>

definition sb_scale :: "superbundle \<Rightarrow> real \<Rightarrow> superbundle" where
  "sb_scale sb k = (\<lambda>c. map (\<lambda>x. x * k) (sb c))"

definition sb_add :: "superbundle \<Rightarrow> superbundle \<Rightarrow> superbundle" where
  "sb_add a b = (\<lambda>c. map2 (+) (a c) (b c))"

subsection \<open>The collaborators\<close>

text \<open>
  \<^verbatim>\<open>FrgCommon::lattice()\<close>, \<^verbatim>\<open>FrgCommon::frequency()\<close> and \<^verbatim>\<open>ImplicitIntegrator\<close>.
  \<open>getBasis\<close> lists the sites the iterator \<^verbatim>\<open>getBasis()\<close> runs through up to
  \<^verbatim>\<open>end()\<close> (its length is \<^verbatim>\<open>_basis.size()\<close>), \<open>getRange i\<close> those of
  \<^verbatim>\<open>getRange(i)\<close>. \<open>symmetryTransform\<close> takes the component and the sign by
  reference: the model returns the representative index together with their new values.
  \<open>beginNegative\<close> and \<open>freq_last\<close> are the mesh values the iterators
  \<^verbatim>\<open>beginNegative()\<close> and \<^verbatim>\<open>last()\<close> point to. The three integrators take the two
  bounds and the integrand and return the integral (the source passes a work buffer
  and a result buffer).
\<close>

record env =
  lattice_size :: nat
  lattice_zero :: site
  getBasis :: "site list"
  getRange :: "site \<Rightarrow> site list"
  symmetryTransform :: "site \<Rightarrow> site \<Rightarrow> SpinComponent \<Rightarrow> real \<Rightarrow> nat \<times> SpinComponent \<times> real"
  bravaisLattice :: "vec3 list"
  getSitePosition :: "site \<Rightarrow> vec3"
  beginNegative :: real
  freq_last :: real
  integrateWithObscureRightBoundary :: "real \<Rightarrow> real \<Rightarrow> (real \<Rightarrow> superbundle) \<Rightarrow> superbundle"
  integrateWithObscureBoundaries :: "real \<Rightarrow> real \<Rightarrow> (real \<Rightarrow> superbundle) \<Rightarrow> superbundle"
  integrateWithObscureLeftBoundary :: "real \<Rightarrow> real \<Rightarrow> (real \<Rightarrow> superbundle) \<Rightarrow> superbundle"

text \<open>
  The flowing functional (\<^verbatim>\<open>XYZEffectiveAction\<close>): the cutoff, the single-particle
  vertex \<^verbatim>\<open>v2->getValue(w)\<close>, the two-particle vertex read in one batch
  (\<^verbatim>\<open>generateAccessBuffer(s, t, u)\<close> followed by \<^verbatim>\<open>getValueSuperbundle\<close>, which fills
  every entry of the buffer it is given) and at one pair of sites
  (\<^verbatim>\<open>v4->getValue(i1, i2, s, t, u, component, FrequencyChannel::None)\<close>).
\<close>

record effectiveAction =
  cutoff :: real
  v2_getValue :: "real \<Rightarrow> real"
  v4_getValueSuperbundle :: "real \<Rightarrow> real \<Rightarrow> real \<Rightarrow> SpinComponent \<Rightarrow> nat \<Rightarrow> real"
  v4_getValue :: "site \<Rightarrow> site \<Rightarrow> real \<Rightarrow> real \<Rightarrow> real \<Rightarrow> SpinComponent \<Rightarrow> real"

subsection \<open>The integration kernels (lines 113 to 183)\<close>

text \<open>
  \<^verbatim>\<open>innerKernel\<close> (lines 126 to 151). The lambda captures \<open>w\<close>, \<open>nu\<close> and the vertices
  by reference; they are arguments here. The buffer it fills is as long as the lattice.
\<close>

definition innerKernel :: "env \<Rightarrow> effectiveAction \<Rightarrow> real \<Rightarrow> real \<Rightarrow> real \<Rightarrow> superbundle" where
  "innerKernel E S nu w wp =
    (let ret = sb_zero (lattice_size E);
         stackBuffer = (\<lambda>c. map (v4_getValueSuperbundle S (w + wp + nu) nu (w - wp) c) [0..<lattice_size E]);
         vx = v4_getValue S (lattice_zero E) (lattice_zero E) (w + wp + nu) (w - wp) nu SpinX;
         vy = v4_getValue S (lattice_zero E) (lattice_zero E) (w + wp + nu) (w - wp) nu SpinY;
         vz = v4_getValue S (lattice_zero E) (lattice_zero E) (w + wp + nu) (w - wp) nu SpinZ;
         vd = v4_getValue S (lattice_zero E) (lattice_zero E) (w + wp + nu) (w - wp) nu SpinNone;
         ret = ret(SpinX := multSub 1 (ret SpinX) (stackBuffer SpinX));
         ret = ret(SpinY := multSub 1 (ret SpinY) (stackBuffer SpinY));
         ret = ret(SpinZ := multSub 1 (ret SpinZ) (stackBuffer SpinZ));
         ret = ret(SpinNone := multSub 4 (ret SpinNone) (stackBuffer SpinNone));
         ret = ret(SpinX := addAt (ret SpinX) 0 (0.5 * (vx - vy - vz + vd)));
         ret = ret(SpinY := addAt (ret SpinY) 0 (0.5 * (- vx + vy - vz + vd)));
         ret = ret(SpinZ := addAt (ret SpinZ) 0 (0.5 * (- vx - vy + vz + vd)));
         ret = ret(SpinNone := addAt (ret SpinNone) 0 (2 * (vx + vy + vz + vd)));
         normalization = 1 / ((w + v2_getValue S w) * (w + nu + v2_getValue S (w + nu))
                              * (wp + v2_getValue S wp) * (wp + nu + v2_getValue S (wp + nu))
                              * (4 * pi * pi))
     in sb_scale ret normalization)"

text \<open>
  \<^verbatim>\<open>integralKernel\<close> (lines 114 to 167); \<open>cut\<close> is the captured cutoff.
\<close>

definition integralKernel :: "env \<Rightarrow> effectiveAction \<Rightarrow> real \<Rightarrow> real \<Rightarrow> real \<Rightarrow> superbundle" where
  "integralKernel E S nu cut' w =
    (let returnBuffer = sb_zero (lattice_size E);
         term1 = 1 / ((w + v2_getValue S w) * (w + nu + v2_getValue S (w + nu)));
         returnBuffer = returnBuffer(SpinX := addAt (returnBuffer SpinX) 0 (term1 / (4 * pi)));
         returnBuffer = returnBuffer(SpinY := addAt (returnBuffer SpinY) 0 (term1 / (4 * pi)));
         returnBuffer = returnBuffer(SpinZ := addAt (returnBuffer SpinZ) 0 (term1 / (4 * pi)));
         returnBuffer = returnBuffer(SpinNone := addAt (returnBuffer SpinNone) 0 (term1 / pi));
         returnBuffer =
           (if - (nu + cut') > beginNegative E
            then sb_add returnBuffer
                   (integrateWithObscureRightBoundary E (beginNegative E) (- cut' - nu) (innerKernel E S nu w))
            else returnBuffer);
         returnBuffer =
           (if nu - cut' > cut'
            then sb_add returnBuffer
                   (integrateWithObscureBoundaries E (- nu + cut') (- cut') (innerKernel E S nu w))
            else returnBuffer);
         returnBuffer =
           (if cut' < freq_last E
            then sb_add returnBuffer
                   (integrateWithObscureLeftBoundary E cut' (freq_last E) (innerKernel E S nu w))
            else returnBuffer)
     in returnBuffer)"

text \<open>
  The first half of \<^verbatim>\<open>_calculateCorrelation\<close> (lines 100 to 183): the susceptibility
  superbundle. \<open>nu\<close> is the constant 0 of line 101.
\<close>

definition calculateSusceptibility :: "env \<Rightarrow> effectiveAction \<Rightarrow> superbundle" where
  "calculateSusceptibility E S =
    (let nu = 0;
         cut' = cutoff S;
         susceptibility = sb_zero (lattice_size E);
         susceptibility =
           (if - (nu + cut') > beginNegative E
            then sb_add susceptibility
                   (integrateWithObscureRightBoundary E (beginNegative E) (- cut' - nu) (integralKernel E S nu cut'))
            else susceptibility);
         susceptibility =
           (if nu - cut' > cut'
            then sb_add susceptibility
                   (integrateWithObscureBoundaries E (- nu + cut') (- cut') (integralKernel E S nu cut'))
            else susceptibility);
         susceptibility =
           (if cut' < freq_last E
            then sb_add susceptibility
                   (integrateWithObscureLeftBoundary E cut' (freq_last E) (integralKernel E S nu cut'))
            else susceptibility)
     in susceptibility)"

subsection \<open>The measurement object and its buffers\<close>

text \<open>
  The fields of \<^verbatim>\<open>XYZMeasurementCorrelation\<close>: the path of the output file, the cutoff
  at which the buffers were computed last, the memory step and the four flat buffers
  (\<^verbatim>\<open>float *\<close>, allocated with \<^verbatim>\<open>_memoryStepLattice\<close> entries each).
\<close>

record measurement =
  outfile :: string
  currentCutoff :: real
  memoryStepLattice :: nat
  correlationsXX :: "real list"
  correlationsYY :: "real list"
  correlationsZZ :: "real list"
  correlationsDD :: "real list"

text \<open>
  What a run can end with besides a result: the \<^verbatim>\<open>Exception\<close> of type
  \<^verbatim>\<open>IOError\<close> with its message, and an access past the end of a buffer, which is
  undefined behaviour in the source and ends the model's run.
\<close>

datatype failure = IOError string | UndefinedBehaviour

text \<open>
  Sequencing: \<open>orThrow h e\<close> is the idiom \<^verbatim>\<open>if (h < 0) throw e\<close> on a handle, and
  \<open>andThen\<close> runs the rest of a function after a step that did not throw.
\<close>

definition orThrow :: "'a option \<Rightarrow> failure \<Rightarrow> failure + 'a" where
  "orThrow h e = (case h of None \<Rightarrow> Inl e | Some a \<Rightarrow> Inr a)"

definition andThen :: "failure + 'a \<Rightarrow> ('a \<Rightarrow> failure + 'b) \<Rightarrow> failure + 'b" where
  "andThen x f = (case x of Inl e \<Rightarrow> Inl e | Inr a \<Rightarrow> f a)"

text \<open>\<^verbatim>\<open>getRange(b)\<close> for a basis number \<open>b\<close>: the range of the \<open>b\<close>-th basis site.\<close>

definition getRangeOfBasis :: "env \<Rightarrow> nat \<Rightarrow> site list" where
  "getRangeOfBasis E b = (if b < length (getBasis E) then getRange E (getBasis E ! b) else [])"

text \<open>
  The constructor (lines 19 to 75). \<^verbatim>\<open>new float[n]\<close> leaves the contents of the
  buffers indeterminate: \<open>gXX\<close> to \<open>gDD\<close> are whatever the memory holds. The stacks it
  registers with the load manager are described with \<open>calculate\<close> below.
\<close>

definition XYZMeasurementCorrelation ::
  "env \<Rightarrow> string \<Rightarrow> (nat \<Rightarrow> real) \<Rightarrow> (nat \<Rightarrow> real) \<Rightarrow> (nat \<Rightarrow> real) \<Rightarrow> (nat \<Rightarrow> real) \<Rightarrow> measurement" where
  "XYZMeasurementCorrelation E file gXX gYY gZZ gDD =
    (let latticeSizeExtended = length (getRangeOfBasis E 0);
         latticeSizeBasis = length (getBasis E)
     in \<lparr> outfile = file,
          currentCutoff = - 1,
          memoryStepLattice = latticeSizeBasis * latticeSizeExtended,
          correlationsXX = map gXX [0..<latticeSizeBasis * latticeSizeExtended],
          correlationsYY = map gYY [0..<latticeSizeBasis * latticeSizeExtended],
          correlationsZZ = map gZZ [0..<latticeSizeBasis * latticeSizeExtended],
          correlationsDD = map gDD [0..<latticeSizeBasis * latticeSizeExtended] \<rparr>)"

text \<open>Reading and writing one entry of a buffer; \<open>None\<close> past its end.\<close>

definition readAt :: "real list \<Rightarrow> nat \<Rightarrow> real option" where
  "readAt b i = (if i < length b then Some (b ! i) else None)"

definition storeAt :: "real list \<Rightarrow> nat \<Rightarrow> real \<Rightarrow> real list option" where
  "storeAt b i v = (if i < length b then Some (b[i := v]) else None)"

text \<open>
  The body of the two loops (lines 190 to 209) for one pair of sites: four calls of
  \<^verbatim>\<open>symmetryTransform\<close>, each followed by one store at \<open>offset\<close>. The sign starts at 1
  and is handed from call to call; no store uses it.
\<close>

definition storePair ::
  "env \<Rightarrow> superbundle \<Rightarrow> site \<Rightarrow> site \<Rightarrow> nat \<Rightarrow> measurement \<Rightarrow> measurement option" where
  "storePair E susceptibility i j offset m =
    (let (ridX, componentX, signX) = symmetryTransform E i j SpinX 1 in
     Option.bind (readAt (susceptibility componentX) ridX) (\<lambda>vX.
     Option.bind (storeAt (correlationsXX m) offset vX) (\<lambda>xx.
     let (ridY, componentY, signY) = symmetryTransform E i j SpinY signX in
     Option.bind (readAt (susceptibility componentY) ridY) (\<lambda>vY.
     Option.bind (storeAt (correlationsYY m) offset vY) (\<lambda>yy.
     let (ridZ, componentZ, signZ) = symmetryTransform E i j SpinZ signY in
     Option.bind (readAt (susceptibility componentZ) ridZ) (\<lambda>vZ.
     Option.bind (storeAt (correlationsZZ m) offset vZ) (\<lambda>zz.
     let (ridD, componentD, signD) = symmetryTransform E i j SpinNone signZ in
     Option.bind (readAt (susceptibility componentD) ridD) (\<lambda>vD.
     Option.bind (storeAt (correlationsDD m) offset vD) (\<lambda>dd.
       Some (m\<lparr>correlationsXX := xx, correlationsYY := yy,
               correlationsZZ := zz, correlationsDD := dd\<rparr>))))))))))"

text \<open>
  The pairs the two loops visit, in their order: every basis site \<open>i\<close>, and for it every
  site \<open>j\<close> of its range.
\<close>

definition latticePairs :: "env \<Rightarrow> (site \<times> site) list" where
  "latticePairs E = concat (map (\<lambda>i. map (\<lambda>j. (i, j)) (getRange E i)) (getBasis E))"

fun storeLoop ::
  "env \<Rightarrow> superbundle \<Rightarrow> (site \<times> site) list \<Rightarrow> nat \<Rightarrow> measurement \<Rightarrow> measurement option" where
  "storeLoop E susceptibility [] offset m = Some m"
| "storeLoop E susceptibility ((i, j) # ps) offset m =
     (case storePair E susceptibility i j offset m of
        None \<Rightarrow> None
      | Some m' \<Rightarrow> storeLoop E susceptibility ps (Suc offset) m')"

text \<open>\<^verbatim>\<open>_calculateCorrelation(iterator)\<close> (lines 98 to 212).\<close>

definition calculateCorrelation ::
  "env \<Rightarrow> effectiveAction \<Rightarrow> measurement \<Rightarrow> nat \<Rightarrow> measurement option" where
  "calculateCorrelation E S m iterator =
    (let susceptibility = calculateSusceptibility E S;
         offset = iterator * memoryStepLattice m
     in storeLoop E susceptibility (latticePairs E) offset m)"

subsection \<open>The load manager\<close>

text \<open>
  Modelled from the spec: \<^verbatim>\<open>LoadManager::calculate\<close> is missing. The constructor
  registers an explicit master stack of one element for the cutoff, whose callback
  returns the flow's cutoff (lines 35 to 42), an implicit master stack of size 1 with
  the callback \<^verbatim>\<open>_calculateCorrelation\<close> and memory step
  \<^verbatim>\<open>latticeSizeBasis * latticeSizeExtended\<close> (lines 44 to 52), and three slave stacks
  without callbacks. \<open>calculate\<close> computes the named stacks in their order: it stores
  the cutoff, then calls the callback for every iterator below the stack's size. The
  exchange between workers is not modelled.
\<close>

fun runCallback :: "env \<Rightarrow> effectiveAction \<Rightarrow> measurement \<Rightarrow> nat list \<Rightarrow> measurement option" where
  "runCallback E S m [] = Some m"
| "runCallback E S m (iterator # its) =
     (case calculateCorrelation E S m iterator of
        None \<Rightarrow> None
      | Some m' \<Rightarrow> runCallback E S m' its)"

definition calculate :: "env \<Rightarrow> effectiveAction \<Rightarrow> measurement \<Rightarrow> measurement option" where
  "calculate E S m = runCallback E S (m\<lparr>currentCutoff := cutoff S\<rparr>) [0..<1]"

subsection \<open>The output file\<close>

text \<open>
  The HDF5 file at the path \<^verbatim>\<open>outfile()\<close>, as far as the source looks at it. The root
  holds named objects; an observable group holds the link \<^verbatim>\<open>meta\<close> and the link
  \<^verbatim>\<open>data\<close>; the data group holds named objects, of which the groups carry the
  attribute \<^verbatim>\<open>cutoff\<close> (possibly missing in a file written by something else) and
  the data set with its shape. Names in the data group are shorter than the 32
  characters of the buffer that line 344 reads them into, as the names written here are.
\<close>

record metaGroup =
  meta_latticeVectors :: "vec3 list"
  meta_basis :: "vec3 list"
  meta_sites :: "(nat \<times> nat) \<times> vec3 list"

datatype h5entry = MeasurementGroup "real option" "(nat \<times> nat) \<times> real list" | OtherEntry

datatype dataNode = DataGroup "(string \<times> h5entry) list" | DataOther

record obsGroup =
  metaLink :: "metaGroup option"
  dataLink :: "dataNode option"

datatype rootNode = ObsGroup obsGroup | RootOther

type_synonym h5file = "string \<Rightarrow> rootNode option"

text \<open>
  What is at the path: nothing, a file that is not an HDF5 file (with its bytes), or an
  HDF5 file.
\<close>

datatype fileState = Absent | NotHdf5 "char list" | Hdf5 h5file

text \<open>
  What lies outside the measurement object: the file, whether the path can be opened
  and created for writing, the lines sent to \<^verbatim>\<open>Log::log\<close>, the value an uninitialised
  \<^verbatim>\<open>float\<close> on the stack happens to have, and a counter of the calls of the load
  manager's \<^verbatim>\<open>calculate\<close> (a ghost field, for the statements about recomputation).
\<close>

datatype logEntry = WarnDuplicate real | WarnMetaExists string string

record world =
  disk :: fileState
  accessible :: bool
  logged :: "logEntry list"
  uninitialised :: real
  calculateCalls :: nat

definition contents :: "world \<Rightarrow> h5file" where
  "contents W = (case disk W of Hdf5 f \<Rightarrow> f | _ \<Rightarrow> Map.empty)"

definition emptyGroup :: obsGroup where
  "emptyGroup = \<lparr> metaLink = None, dataLink = None \<rparr>"

definition groupOf :: "world \<Rightarrow> string \<Rightarrow> obsGroup" where
  "groupOf W g = (case contents W g of Some (ObsGroup grp) \<Rightarrow> grp | _ \<Rightarrow> emptyGroup)"

definition entriesOf :: "world \<Rightarrow> string \<Rightarrow> (string \<times> h5entry) list" where
  "entriesOf W g = (case dataLink (groupOf W g) of Some (DataGroup es) \<Rightarrow> es | _ \<Rightarrow> [])"

definition putGroup :: "world \<Rightarrow> string \<Rightarrow> obsGroup \<Rightarrow> world" where
  "putGroup W g grp = W\<lparr>disk := Hdf5 ((contents W)(g \<mapsto> ObsGroup grp))\<rparr>"

text \<open>
  The calls of the HDF5 library the source makes, with the library's documented
  behaviour. A handle is the name of what it refers to; \<open>None\<close> is a negative handle.
  \<^verbatim>\<open>H5Fis_hdf5\<close> is positive on an HDF5 file only, \<^verbatim>\<open>H5Fopen\<close> with
  \<^verbatim>\<open>H5F_ACC_RDWR\<close> opens an HDF5 file that can be written, \<^verbatim>\<open>H5Fcreate\<close> with
  \<^verbatim>\<open>H5F_ACC_TRUNC\<close> replaces whatever is at the path by an empty HDF5 file. Links
  and groups exist in an HDF5 file only: where the path holds none, nothing is found
  and no group can be opened or created.
\<close>

definition H5Fis_hdf5 :: "world \<Rightarrow> bool" where
  "H5Fis_hdf5 W = (case disk W of Hdf5 f \<Rightarrow> True | _ \<Rightarrow> False)"

definition H5Fopen :: "world \<Rightarrow> world option" where
  "H5Fopen W = (case disk W of Hdf5 f \<Rightarrow> if accessible W then Some W else None | _ \<Rightarrow> None)"

definition H5Fcreate :: "world \<Rightarrow> world option" where
  "H5Fcreate W = (if accessible W then Some (W\<lparr>disk := Hdf5 Map.empty\<rparr>) else None)"

definition H5Lexists :: "world \<Rightarrow> string \<Rightarrow> bool" where
  "H5Lexists W g = (contents W g \<noteq> None)"

definition H5Gopen :: "world \<Rightarrow> string \<Rightarrow> world option" where
  "H5Gopen W g = (case contents W g of Some (ObsGroup grp) \<Rightarrow> Some W | _ \<Rightarrow> None)"

definition H5Gcreate :: "world \<Rightarrow> string \<Rightarrow> world option" where
  "H5Gcreate W g =
     (case disk W of
        Hdf5 f \<Rightarrow> if f g = None then Some (putGroup W g emptyGroup) else None
      | _ \<Rightarrow> None)"

text \<open>The same three calls on the link \<^verbatim>\<open>data\<close> of an observable group.\<close>

definition H5Lexists_data :: "world \<Rightarrow> string \<Rightarrow> bool" where
  "H5Lexists_data W g = (dataLink (groupOf W g) \<noteq> None)"

definition H5Gopen_data :: "world \<Rightarrow> string \<Rightarrow> world option" where
  "H5Gopen_data W g = (case dataLink (groupOf W g) of Some (DataGroup es) \<Rightarrow> Some W | _ \<Rightarrow> None)"

definition H5Gcreate_data :: "world \<Rightarrow> string \<Rightarrow> world option" where
  "H5Gcreate_data W g =
     (case disk W of
        Hdf5 f \<Rightarrow>
          if dataLink (groupOf W g) = None
          then Some (putGroup W g ((groupOf W g)\<lparr>dataLink := Some (DataGroup [])\<rparr>))
          else None
      | _ \<Rightarrow> None)"

text \<open>
  Lines 364 to 384: a new group in the data group, with its attribute and its data
  set. \<^verbatim>\<open>H5Gcreate\<close> fails when the name is taken; error reporting is switched off
  (line 316) and no result is checked, so nothing is written then and nothing is raised.
\<close>

definition createMeasurement ::
  "world \<Rightarrow> string \<Rightarrow> string \<Rightarrow> real \<Rightarrow> nat \<times> nat \<Rightarrow> real list \<Rightarrow> world" where
  "createMeasurement W g datasetName c shape correlation =
     (if datasetName \<in> set (map fst (entriesOf W g)) then W
      else putGroup W g ((groupOf W g)
             \<lparr>dataLink := Some (DataGroup (entriesOf W g @
                  [(datasetName, MeasurementGroup (Some c) (shape, take (fst shape * snd shape) correlation))]))\<rparr>))"

text \<open>\<^verbatim>\<open>std::to_string\<close> of a data set number.\<close>

fun to_string :: "nat \<Rightarrow> string" where
  "to_string n =
     (if n < 10 then [''0123456789'' ! n]
      else to_string (n div 10) @ [''0123456789'' ! (n mod 10)])"

declare to_string.simps [simp del]

text \<open>
  The geometry that \<^verbatim>\<open>_writeOutfileHeader\<close> writes (lines 235 to 297): the lattice
  vectors, the positions of the basis sites, and the positions of the sites in range of
  every basis site with the shape of that data set.
\<close>

definition geometry :: "env \<Rightarrow> metaGroup" where
  "geometry E =
     \<lparr> meta_latticeVectors = bravaisLattice E,
       meta_basis = map (getSitePosition E) (getBasis E),
       meta_sites = ((length (getBasis E), length (getRangeOfBasis E 0)),
                     concat (map (\<lambda>b. map (getSitePosition E) (getRangeOfBasis E b))
                                 [0..<length (getBasis E)])) \<rparr>"

text \<open>\<^verbatim>\<open>_writeOutfileHeader\<close> (lines 214 to 312).\<close>

definition writeOutfileHeader :: "env \<Rightarrow> measurement \<Rightarrow> world \<Rightarrow> string \<Rightarrow> failure + world" where
  "writeOutfileHeader E m W observableGroup =
     andThen (orThrow (H5Fopen W)
               (IOError (''Could not open observable file ['' @ outfile m @ ''] for writing.''))) (\<lambda>W.
     andThen (orThrow (H5Gopen W observableGroup)
               (IOError (''Could not open obsfile group ['' @ observableGroup @ ''] for writing. ''))) (\<lambda>W.
       if metaLink (groupOf W observableGroup) = None
       then Inr (putGroup W observableGroup
                   ((groupOf W observableGroup)\<lparr>metaLink := Some (geometry E)\<rparr>))
       else Inr (W\<lparr>logged := logged W @ [WarnMetaExists (outfile m) observableGroup]\<rparr>)))"

text \<open>
  The loop of lines 337 to 360 over the objects of the data group: \<open>None\<close> when a group
  with the current cutoff is found (the function returns there), else the number of
  groups seen. A group without the attribute leaves \<open>c\<close> unset.
\<close>

fun scanDatasets :: "real \<Rightarrow> real \<Rightarrow> (string \<times> h5entry) list \<Rightarrow> nat \<Rightarrow> nat option" where
  "scanDatasets cur u [] datasetId = Some datasetId"
| "scanDatasets cur u ((name, OtherEntry) # es) datasetId = scanDatasets cur u es datasetId"
| "scanDatasets cur u ((name, MeasurementGroup a d) # es) datasetId =
     (let c = (case a of Some c \<Rightarrow> c | None \<Rightarrow> u)
      in if c = cur then None else scanDatasets cur u es (Suc datasetId))"

text \<open>\<^verbatim>\<open>_writeOutfileCorrelation\<close> (lines 314 to 391).\<close>

definition writeOutfileCorrelation ::
  "env \<Rightarrow> measurement \<Rightarrow> world \<Rightarrow> string \<Rightarrow> real list \<Rightarrow> failure + world" where
  "writeOutfileCorrelation E m W observableGroup correlation =
     andThen (orThrow (if H5Fis_hdf5 W then H5Fopen W else H5Fcreate W)
               (IOError (''Could not open observable file ['' @ outfile m @ ''] for writing''))) (\<lambda>W.
     andThen (orThrow (if H5Lexists W observableGroup then H5Gopen W observableGroup
                       else H5Gcreate W observableGroup)
               (IOError (''Could not open obsfile group ['' @ observableGroup @ ''] for writing''))) (\<lambda>W.
     andThen (if metaLink (groupOf W observableGroup) = None
              then writeOutfileHeader E m W observableGroup else Inr W) (\<lambda>W.
     andThen (orThrow (if H5Lexists_data W observableGroup then H5Gopen_data W observableGroup
                       else H5Gcreate_data W observableGroup)
               (IOError (''Could not open obsfile group ['' @ observableGroup @ ''/data] for writing''))) (\<lambda>W.
       case scanDatasets (currentCutoff m) (uninitialised W) (entriesOf W observableGroup) 0 of
         None \<Rightarrow> Inr (W\<lparr>logged := logged W @ [WarnDuplicate (currentCutoff m)]\<rparr>)
       | Some datasetId \<Rightarrow>
           Inr (createMeasurement W observableGroup (''measurement_'' @ to_string datasetId)
                  (currentCutoff m)
                  (length (getBasis E), length (getRangeOfBasis E 0)) correlation)))))"

text \<open>
  \<^verbatim>\<open>takeMeasurement\<close> (lines 85 to 96). The state it is given is the flowing
  functional that the callback reads.
\<close>

definition takeMeasurement ::
  "env \<Rightarrow> effectiveAction \<Rightarrow> measurement \<Rightarrow> world \<Rightarrow> bool \<Rightarrow> failure + (measurement \<times> world)" where
  "takeMeasurement E state m W isMasterTask =
     andThen (if currentCutoff m \<noteq> cutoff state
              then orThrow (map_option (\<lambda>m'. (m', W\<lparr>calculateCalls := Suc (calculateCalls W)\<rparr>))
                              (calculate E state m)) UndefinedBehaviour
              else Inr (m, W)) (\<lambda>(m, W).
       if isMasterTask
       then andThen (writeOutfileCorrelation E m W ''XYZCorXX'' (correlationsXX m)) (\<lambda>W.
            andThen (writeOutfileCorrelation E m W ''XYZCorYY'' (correlationsYY m)) (\<lambda>W.
            andThen (writeOutfileCorrelation E m W ''XYZCorZZ'' (correlationsZZ m)) (\<lambda>W.
            andThen (writeOutfileCorrelation E m W ''XYZCorDD'' (correlationsDD m)) (\<lambda>W.
              Inr (m, W)))))
       else Inr (m, W))"

subsection \<open>The integrands and the domain split as the specification words them\<close>

text \<open>
  The product of propagators that normalises the inner integrand, and the local term of
  the outer integrand.
\<close>

definition spec_normalization :: "effectiveAction \<Rightarrow> real \<Rightarrow> real \<Rightarrow> real \<Rightarrow> real" where
  "spec_normalization S nu w wp =
     1 / ((w + v2_getValue S w) * (w + nu + v2_getValue S (w + nu))
          * (wp + v2_getValue S wp) * (wp + nu + v2_getValue S (wp + nu)) * (4 * pi * pi))"

definition spec_local :: "effectiveAction \<Rightarrow> real \<Rightarrow> real \<Rightarrow> real" where
  "spec_local S nu w = 1 / ((w + v2_getValue S w) * (w + nu + v2_getValue S (w + nu)))"

text \<open>The weights (-1, -1, -1, -4) of the batched vertex and the mixing of the pointwise values.\<close>

fun spec_bundleWeight :: "SpinComponent \<Rightarrow> real" where
  "spec_bundleWeight SpinX = - 1"
| "spec_bundleWeight SpinY = - 1"
| "spec_bundleWeight SpinZ = - 1"
| "spec_bundleWeight SpinNone = - 4"

fun spec_mix :: "SpinComponent \<Rightarrow> real \<Rightarrow> real \<Rightarrow> real \<Rightarrow> real \<Rightarrow> real" where
  "spec_mix SpinX vx vy vz vd = 0.5 * (vx - vy - vz + vd)"
| "spec_mix SpinY vx vy vz vd = 0.5 * (- vx + vy - vz + vd)"
| "spec_mix SpinZ vx vy vz vd = 0.5 * (- vx - vy + vz + vd)"
| "spec_mix SpinNone vx vy vz vd = 2 * (vx + vy + vz + vd)"

fun spec_localWeight :: "SpinComponent \<Rightarrow> real" where
  "spec_localWeight SpinX = 1 / (4 * pi)"
| "spec_localWeight SpinY = 1 / (4 * pi)"
| "spec_localWeight SpinZ = 1 / (4 * pi)"
| "spec_localWeight SpinNone = 1 / pi"

text \<open>
  Entry \<open>r\<close> of channel \<open>c\<close> of the inner integrand at \<open>(w, wp)\<close>: the batched vertex at
  \<open>(w + wp + nu, nu, w - wp)\<close> with its weight in every entry, the mixed pointwise values
  in entry 0 only, all normalised.
\<close>

definition spec_innerIntegrand ::
  "env \<Rightarrow> effectiveAction \<Rightarrow> real \<Rightarrow> real \<Rightarrow> real \<Rightarrow> SpinComponent \<Rightarrow> nat \<Rightarrow> real" where
  "spec_innerIntegrand E S nu w wp c r =
     spec_normalization S nu w wp *
       (spec_bundleWeight c * v4_getValueSuperbundle S (w + wp + nu) nu (w - wp) c r
        + (if r = 0
           then spec_mix c
                  (v4_getValue S (lattice_zero E) (lattice_zero E) (w + wp + nu) (w - wp) nu SpinX)
                  (v4_getValue S (lattice_zero E) (lattice_zero E) (w + wp + nu) (w - wp) nu SpinY)
                  (v4_getValue S (lattice_zero E) (lattice_zero E) (w + wp + nu) (w - wp) nu SpinZ)
                  (v4_getValue S (lattice_zero E) (lattice_zero E) (w + wp + nu) (w - wp) nu SpinNone)
           else 0))"

text \<open>Entry \<open>r\<close> of channel \<open>c\<close> of the local term: entry 0 only.\<close>

definition spec_localTerm :: "effectiveAction \<Rightarrow> real \<Rightarrow> real \<Rightarrow> SpinComponent \<Rightarrow> nat \<Rightarrow> real" where
  "spec_localTerm S nu w c r = (if r = 0 then spec_localWeight c * spec_local S nu w else 0)"

text \<open>
  The split of the frequency axis: left of \<open>- cutoff - nu\<close> down to the lowest mesh point,
  between \<open>cutoff - nu\<close> and \<open>- cutoff\<close>, and right of \<open>cutoff\<close> up to the last mesh point,
  each kept only when it is not empty. With \<open>nu = 0\<close>, as in the source, the breakpoints
  are \<open>- cutoff\<close> and \<open>cutoff\<close>.
\<close>

datatype boundary = ObscureRight | ObscureBoth | ObscureLeft

definition spec_subIntervals :: "env \<Rightarrow> real \<Rightarrow> real \<Rightarrow> (boundary \<times> real \<times> real) list" where
  "spec_subIntervals E nu cut' =
     filter (\<lambda>(k, lo, hi). lo < hi)
       [(ObscureRight, beginNegative E, - cut' - nu),
        (ObscureBoth, cut' - nu, - cut'),
        (ObscureLeft, cut', freq_last E)]"

fun integrateOver :: "env \<Rightarrow> (real \<Rightarrow> superbundle) \<Rightarrow> boundary \<times> real \<times> real \<Rightarrow> superbundle" where
  "integrateOver E k (ObscureRight, lo, hi) = integrateWithObscureRightBoundary E lo hi k"
| "integrateOver E k (ObscureBoth, lo, hi) = integrateWithObscureBoundaries E lo hi k"
| "integrateOver E k (ObscureLeft, lo, hi) = integrateWithObscureLeftBoundary E lo hi k"

text \<open>
  The split as Claim C2 words it: a sub-interval is integrated only when it is not empty
  after clamping to the bounds of the mesh, and a breakpoint outside the bounds of the
  mesh makes its sub-interval contribute nothing.
\<close>

definition spec_insideGrid :: "env \<Rightarrow> real \<Rightarrow> bool" where
  "spec_insideGrid E x \<longleftrightarrow> beginNegative E \<le> x \<and> x \<le> freq_last E"

definition spec_clampedIntervals :: "env \<Rightarrow> real \<Rightarrow> real \<Rightarrow> (boundary \<times> real \<times> real) list" where
  "spec_clampedIntervals E nu cut' =
     filter (\<lambda>(k, lo, hi). spec_insideGrid E lo \<and> spec_insideGrid E hi
                            \<and> max (beginNegative E) lo < min (freq_last E) hi)
       [(ObscureRight, beginNegative E, - cut' - nu),
        (ObscureBoth, cut' - nu, - cut'),
        (ObscureLeft, cut', freq_last E)]"

subsection \<open>The file after the steps that open or create\<close>

text \<open>
  The world once \<^verbatim>\<open>_writeOutfileCorrelation\<close> has opened or created the file, the
  observable group, its \<^verbatim>\<open>meta\<close> group and its data group without raising: the group
  \<open>g\<close> exists, with the geometry it had or else the one written now, and with the
  entries its data group had or else none. \<open>fileMessage\<close> is the message of line 320.
\<close>

definition prepared :: "env \<Rightarrow> world \<Rightarrow> string \<Rightarrow> world" where
  "prepared E W g =
     putGroup W g ((groupOf W g)
       \<lparr> metaLink := Some (case metaLink (groupOf W g) of None \<Rightarrow> geometry E | Some mt \<Rightarrow> mt),
         dataLink := Some (DataGroup (entriesOf W g)) \<rparr>)"

definition fileMessage :: "measurement \<Rightarrow> string" where
  "fileMessage m = ''Could not open observable file ['' @ outfile m @ ''] for writing''"

text \<open>The messages of lines 324 and 331, and the one of line 220 in the header.\<close>

definition groupMessage :: "string \<Rightarrow> string" where
  "groupMessage g = ''Could not open obsfile group ['' @ g @ ''] for writing''"

definition dataMessage :: "string \<Rightarrow> string" where
  "dataMessage g = ''Could not open obsfile group ['' @ g @ ''/data] for writing''"

definition headerFileMessage :: "measurement \<Rightarrow> string" where
  "headerFileMessage m = ''Could not open observable file ['' @ outfile m @ ''] for writing.''"

text \<open>Whether an object of the data group stops the loop of lines 337 to 360.\<close>

fun duplicateOf :: "real \<Rightarrow> real \<Rightarrow> h5entry \<Rightarrow> bool" where
  "duplicateOf cur u OtherEntry = False"
| "duplicateOf cur u (MeasurementGroup a d) = ((case a of Some c \<Rightarrow> c | None \<Rightarrow> u) = cur)"

text \<open>A world in which nothing is at the path yet, and the path can be written.\<close>

definition freshWorld :: world where
  "freshWorld = \<lparr> disk = Absent, accessible = True, logged = [], uninitialised = 0, calculateCalls = 0 \<rparr>"

text \<open>
  The group that one write leaves in a file that did not have it: the geometry and the
  snapshot \<^verbatim>\<open>measurement_0\<close>.
\<close>

definition snapshotGroup :: "env \<Rightarrow> real \<Rightarrow> real list \<Rightarrow> obsGroup" where
  "snapshotGroup E c correlation =
     \<lparr> metaLink = Some (geometry E),
       dataLink = Some (DataGroup
         [(''measurement_0'', MeasurementGroup (Some c)
             ((length (getBasis E), length (getRangeOfBasis E 0)),
              take (length (getBasis E) * length (getRangeOfBasis E 0)) correlation))]) \<rparr>"

text \<open>
  A group is settled for a cutoff when a write at that cutoff finds everything it opens
  and then either finds the cutoff among the entries or finds the name of the new entry
  taken: such a write changes nothing in the file.
\<close>

fun noNewEntry :: "(string \<times> h5entry) list \<Rightarrow> nat option \<Rightarrow> bool" where
  "noNewEntry es None = True"
| "noNewEntry es (Some datasetId) = ((''measurement_'' @ to_string datasetId) \<in> set (map fst es))"

definition settled :: "real \<Rightarrow> world \<Rightarrow> string \<Rightarrow> bool" where
  "settled c W g \<longleftrightarrow>
     accessible W \<and> disk W = Hdf5 (contents W)
     \<and> contents W g = Some (ObsGroup (groupOf W g))
     \<and> metaLink (groupOf W g) \<noteq> None
     \<and> dataLink (groupOf W g) = Some (DataGroup (entriesOf W g))
     \<and> noNewEntry (entriesOf W g) (scanDatasets c (uninitialised W) (entriesOf W g) 0)"

subsection \<open>The flow driver\<close>

text \<open>
  Modelled from the spec: the flow driver is missing. It invokes the operation that
  takes the measurement once per step of the flow, with the flowing functional of that
  step and the flag that says whether this worker is the one that writes.
\<close>

fun runFlow ::
  "env \<Rightarrow> (effectiveAction \<times> bool) list \<Rightarrow> measurement \<Rightarrow> world \<Rightarrow> failure + (measurement \<times> world)" where
  "runFlow E [] m W = Inr (m, W)"
| "runFlow E ((state, isMasterTask) # steps) m W =
     andThen (takeMeasurement E state m W isMasterTask) (\<lambda>(m', W'). runFlow E steps m' W')"

subsection \<open>What a run of the two loops stores\<close>

text \<open>
  The flat buffer of a channel; the representative index and the component that the
  call of \<^verbatim>\<open>symmetryTransform\<close> for channel \<open>c\<close> returns in the loop body (the calls
  hand the sign on in the order X, Y, Z, None); and the entry of the susceptibility
  that the body stores for channel \<open>c\<close> and the pair \<open>(i, j)\<close>.
\<close>

fun correlations :: "SpinComponent \<Rightarrow> measurement \<Rightarrow> real list" where
  "correlations SpinX m = correlationsXX m"
| "correlations SpinY m = correlationsYY m"
| "correlations SpinZ m = correlationsZZ m"
| "correlations SpinNone m = correlationsDD m"

definition resolve :: "env \<Rightarrow> site \<Rightarrow> site \<Rightarrow> SpinComponent \<Rightarrow> nat \<times> SpinComponent" where
  "resolve E i j c =
    (let (ridX, componentX, signX) = symmetryTransform E i j SpinX 1;
         (ridY, componentY, signY) = symmetryTransform E i j SpinY signX;
         (ridZ, componentZ, signZ) = symmetryTransform E i j SpinZ signY;
         (ridD, componentD, signD) = symmetryTransform E i j SpinNone signZ
     in case c of SpinX \<Rightarrow> (ridX, componentX) | SpinY \<Rightarrow> (ridY, componentY)
                | SpinZ \<Rightarrow> (ridZ, componentZ) | SpinNone \<Rightarrow> (ridD, componentD))"

definition storedValue :: "env \<Rightarrow> superbundle \<Rightarrow> SpinComponent \<Rightarrow> site \<times> site \<Rightarrow> real" where
  "storedValue E susceptibility c p =
     susceptibility (snd (resolve E (fst p) (snd p) c)) ! fst (resolve E (fst p) (snd p) c)"

text \<open>
  The sign that the call of \<^verbatim>\<open>symmetryTransform\<close> for channel \<open>c\<close> leaves in the
  variable \<^verbatim>\<open>sign\<close> of line 192.
\<close>

definition resolveSign :: "env \<Rightarrow> site \<Rightarrow> site \<Rightarrow> SpinComponent \<Rightarrow> real" where
  "resolveSign E i j c =
    (let (ridX, componentX, signX) = symmetryTransform E i j SpinX 1;
         (ridY, componentY, signY) = symmetryTransform E i j SpinY signX;
         (ridZ, componentZ, signZ) = symmetryTransform E i j SpinZ signY;
         (ridD, componentD, signD) = symmetryTransform E i j SpinNone signZ
     in case c of SpinX \<Rightarrow> signX | SpinY \<Rightarrow> signY | SpinZ \<Rightarrow> signZ | SpinNone \<Rightarrow> signD)"

text \<open>
  The relation of Claim C6 and of the contract of the symmetry map: two pairs of sites
  are related by the symmetries the lattice declares when, channel by channel, the
  symmetry map resolves them to the same representative index and the same sign factor.
\<close>

definition spec_symmetryRelated :: "env \<Rightarrow> site \<times> site \<Rightarrow> site \<times> site \<Rightarrow> bool" where
  "spec_symmetryRelated E p q =
     list_all (\<lambda>c. fst (resolve E (fst p) (snd p) c) = fst (resolve E (fst q) (snd q) c)
                  \<and> resolveSign E (fst p) (snd p) c = resolveSign E (fst q) (snd q) c)
       [SpinX, SpinY, SpinZ, SpinNone]"

subsection \<open>The quadrature\<close>

text \<open>
  Modelled from the spec: \<^verbatim>\<open>lib/Integrator.hpp\<close> is missing. The spec describes the
  three integrators as a quadrature that integrates the integrand over the sub-interval
  without loss of accuracy, whichever end is obscure. With reals standing for floats the
  quadrature is exact: its result is, entry by entry, the difference between the two
  ends of an antiderivative of the integrand (and the zero bundle for an integrand that
  has none). Any two antiderivatives give the same difference, so the choice among them
  does not show; the definition is not executable, and the statements about it use
  \<open>integralOf_eq\<close> below.
\<close>

definition antiderivative ::
  "nat \<Rightarrow> (real \<Rightarrow> superbundle) \<Rightarrow> (real \<Rightarrow> superbundle) \<Rightarrow> real \<Rightarrow> real \<Rightarrow> bool" where
  "antiderivative n K k lo hi \<longleftrightarrow>
     (\<forall>w c. lo \<le> w \<and> w \<le> hi \<longrightarrow>
        length (k w c) = n
        \<and> (\<forall>r<n. ((\<lambda>v. K v c ! r) has_real_derivative k w c ! r) (at w)))"

definition integralOf :: "nat \<Rightarrow> real \<Rightarrow> real \<Rightarrow> (real \<Rightarrow> superbundle) \<Rightarrow> superbundle" where
  "integralOf n lo hi k =
     (if \<exists>K. antiderivative n K k lo hi
      then (let K = (SOME K. antiderivative n K k lo hi)
            in (\<lambda>c. map (\<lambda>r. K hi c ! r - K lo c ! r) [0..<n]))
      else sb_zero n)"

subsection \<open>A small instance\<close>

text \<open>
  One basis site with four sites in its range, a symmetry map that is the identity, the
  mesh bounds -2 and 2, and a one-point quadrature (the integrand at the midpoint times
  the length of the interval) standing for all three integrators. \<open>demoAction c\<close> is a
  flowing functional at cutoff \<open>c\<close> whose vertices do not depend on the frequencies.
  \<open>demoEnvFolded\<close> is the same lattice with a symmetry map that identifies the sites
  1 and 3, and the sites 0 and 2, of the range.
\<close>

definition midpointRule :: "real \<Rightarrow> real \<Rightarrow> (real \<Rightarrow> superbundle) \<Rightarrow> superbundle" where
  "midpointRule lo hi k = sb_scale (k ((lo + hi) / 2)) (hi - lo)"

definition demoEnv :: env where
  "demoEnv =
     \<lparr> lattice_size = 4, lattice_zero = 0, getBasis = [0], getRange = (\<lambda>i. [0, 1, 2, 3]),
       symmetryTransform = (\<lambda>i j c s. (j, c, s)),
       bravaisLattice = [(1, 0, 0), (0, 1, 0), (0, 0, 1)],
       getSitePosition = (\<lambda>i. (real i, 0, 0)),
       beginNegative = - 2, freq_last = 2,
       integrateWithObscureRightBoundary = midpointRule,
       integrateWithObscureBoundaries = midpointRule,
       integrateWithObscureLeftBoundary = midpointRule \<rparr>"

definition demoAction :: "real \<Rightarrow> effectiveAction" where
  "demoAction c =
     \<lparr> cutoff = c, v2_getValue = (\<lambda>w. 0),
       v4_getValueSuperbundle = (\<lambda>s t u c r. real r),
       v4_getValue = (\<lambda>i j s t u c. case c of SpinX \<Rightarrow> 1 | SpinY \<Rightarrow> 2 | SpinZ \<Rightarrow> 3 | SpinNone \<Rightarrow> 4) \<rparr>"

text \<open>
  A flowing functional at the cutoff \<open>c\<close> whose propagators are 1 at every frequency
  and whose two-particle vertex vanishes: the outer integrand is the local term, the same
  at every frequency.
\<close>

definition flatAction :: "real \<Rightarrow> effectiveAction" where
  "flatAction c =
     \<lparr> cutoff = c, v2_getValue = (\<lambda>w. 1 - w),
       v4_getValueSuperbundle = (\<lambda>s t u c r. 0),
       v4_getValue = (\<lambda>i j s t u c. 0) \<rparr>"

definition demoEnvFolded :: env where
  "demoEnvFolded = demoEnv\<lparr>symmetryTransform := (\<lambda>i j c s. (j mod 2, c, s))\<rparr>"

text \<open>
  The same lattice with a symmetry map that sends the sites 1 and 3 of the range to the
  representative index 1 with the same sign, and for the site 3 exchanges the component
  X with the density component, as a symmetry that acts on the spin does.
\<close>

definition demoEnvSwapped :: env where
  "demoEnvSwapped = demoEnv\<lparr>symmetryTransform :=
     (\<lambda>i j c s. (j mod 2,
                  (if j = 3 then (case c of SpinX \<Rightarrow> SpinNone | SpinNone \<Rightarrow> SpinX | _ \<Rightarrow> c) else c),
                  s))\<rparr>"

text \<open>The measurement object of the small instance, its buffers holding 7 everywhere.\<close>

definition demoMeasurement :: measurement where
  "demoMeasurement =
     XYZMeasurementCorrelation demoEnv ''obs.h5'' (\<lambda>k. 7) (\<lambda>k. 7) (\<lambda>k. 7) (\<lambda>k. 7)"

text \<open>
  A file that holds, in the group of the density channel, the geometry and one snapshot
  taken at the cutoff 1.
\<close>

definition demoStored :: world where
  "demoStored = putGroup freshWorld ''XYZCorDD''
     \<lparr> metaLink = Some (geometry demoEnv),
       dataLink = Some (DataGroup [(''measurement_0'', MeasurementGroup (Some 1) ((1, 4), [7, 7, 7, 7]))]) \<rparr>"

text \<open>
  The object and the world of the small instance after the first measurement at the
  cutoff 3, taken on the worker that writes.
\<close>

definition demoComputed :: measurement where
  "demoComputed = demoMeasurement\<lparr>currentCutoff := 3, correlationsXX := [0, 0, 0, 0],
        correlationsYY := [0, 0, 0, 0], correlationsZZ := [0, 0, 0, 0], correlationsDD := [0, 0, 0, 0]\<rparr>"

definition demoWritten :: world where
  "demoWritten = putGroup (putGroup (putGroup (putGroup (freshWorld\<lparr>calculateCalls := 1\<rparr>)
            ''XYZCorXX'' (snapshotGroup demoEnv 3 [0, 0, 0, 0]))
            ''XYZCorYY'' (snapshotGroup demoEnv 3 [0, 0, 0, 0]))
            ''XYZCorZZ'' (snapshotGroup demoEnv 3 [0, 0, 0, 0]))
            ''XYZCorDD'' (snapshotGroup demoEnv 3 [0, 0, 0, 0])"

text \<open>
  The scenario of the specification: the lattice of the small instance with the exact
  quadrature, at the cutoff 1, with all vertices zero.
\<close>

definition scenarioEnv :: env where
  "scenarioEnv = demoEnv
     \<lparr> integrateWithObscureRightBoundary := integralOf 4,
       integrateWithObscureBoundaries := integralOf 4,
       integrateWithObscureLeftBoundary := integralOf 4 \<rparr>"

definition scenarioAction :: effectiveAction where
  "scenarioAction =
     \<lparr> cutoff = 1, v2_getValue = (\<lambda>w. 0),
       v4_getValueSuperbundle = (\<lambda>s t u c r. 0),
       v4_getValue = (\<lambda>i j s t u c. 0) \<rparr>"

section \<open>Theorems\<close>

subsection \<open>Value bundles\<close>

lemma multSub_zero_map:
  "multSub f (replicate n 0) (map g [0..<n]) = map (\<lambda>r. - (f * g r)) [0..<n]"
  by (rule nth_equalityI) (simp_all add: multSub_def)

lemma addAt_map_zero:
  "0 < n \<Longrightarrow> addAt (map g [0..<n]) 0 v = map (\<lambda>r. g r + (if r = 0 then v else 0)) [0..<n]"
  by (rule nth_equalityI) (auto simp: addAt_def nth_list_update)

lemma addAt_replicate_zero:
  "0 < n \<Longrightarrow> addAt (replicate n 0) 0 v = map (\<lambda>r. if r = 0 then v else 0) [0..<n]"
  by (rule nth_equalityI) (auto simp: addAt_def nth_list_update)

subsection \<open>The two kernels\<close>

lemma scaled_entries:
  "0 < n \<Longrightarrow>
   map (\<lambda>x. x * N) (addAt (multSub f (replicate n 0) (map g [0..<n])) 0 v)
   = map (\<lambda>r. N * (- f * g r + (if r = 0 then v else 0))) [0..<n]"
  by (simp add: multSub_zero_map addAt_map_zero algebra_simps)

lemma innerKernel_entries:
  assumes "0 < lattice_size E"
  shows "innerKernel E S nu w wp c = map (spec_innerIntegrand E S nu w wp c) [0..<lattice_size E]"
proof -
  have fold: "1 / ((w + v2_getValue S w) * (w + nu + v2_getValue S (w + nu))
                  * (wp + v2_getValue S wp) * (wp + nu + v2_getValue S (wp + nu)) * (4 * pi * pi))
              = spec_normalization S nu w wp"
    by (simp add: spec_normalization_def)
  show ?thesis
    unfolding innerKernel_def Let_def fold
    using assms
    by (cases c) (simp_all add: sb_zero_def sb_scale_def scaled_entries spec_innerIntegrand_def)
qed

lemma local_buffer:
  assumes "0 < n"
  shows "(\<lambda>c. replicate n 0)
           (SpinX := addAt (replicate n 0) 0 (t / (4 * pi)),
            SpinY := addAt (replicate n 0) 0 (t / (4 * pi)),
            SpinZ := addAt (replicate n 0) 0 (t / (4 * pi)),
            SpinNone := addAt (replicate n 0) 0 (t / pi))
         = (\<lambda>c. map (\<lambda>r. if r = 0 then spec_localWeight c * t else 0) [0..<n])"
proof
  fix c
  show "((\<lambda>c. replicate n 0)
           (SpinX := addAt (replicate n 0) 0 (t / (4 * pi)),
            SpinY := addAt (replicate n 0) 0 (t / (4 * pi)),
            SpinZ := addAt (replicate n 0) 0 (t / (4 * pi)),
            SpinNone := addAt (replicate n 0) 0 (t / pi))) c
        = map (\<lambda>r. if r = 0 then spec_localWeight c * t else 0) [0..<n]"
    using assms by (cases c) (simp_all add: addAt_replicate_zero)
qed

lemma integralKernel_split:
  assumes "0 < lattice_size E"
  shows "integralKernel E S nu cut' w =
         foldl sb_add (\<lambda>c. map (spec_localTerm S nu w c) [0..<lattice_size E])
           (map (integrateOver E (innerKernel E S nu w)) (spec_subIntervals E nu cut'))"
proof -
  have guards: "(- (nu + cut') > beginNegative E) = (beginNegative E < - cut' - nu)"
    "(nu - cut' > cut') = (cut' - nu < - cut')"
    by auto
  have fold: "1 / ((w + v2_getValue S w) * (w + nu + v2_getValue S (w + nu))) = spec_local S nu w"
    by (simp add: spec_local_def)
  have spec: "spec_localTerm S nu w = (\<lambda>c r. if r = 0 then spec_localWeight c * spec_local S nu w else 0)"
    by (rule ext, rule ext) (simp add: spec_localTerm_def)
  show ?thesis
    unfolding integralKernel_def Let_def fold guards spec
    by (simp add: sb_zero_def local_buffer [OF assms] spec_subIntervals_def)
qed

lemma calculateSusceptibility_split:
  "calculateSusceptibility E S =
     foldl sb_add (sb_zero (lattice_size E))
       (map (integrateOver E (integralKernel E S 0 (cutoff S))) (spec_subIntervals E 0 (cutoff S)))"
  by (simp add: calculateSusceptibility_def Let_def spec_subIntervals_def)


subsection \<open>C1: the integrands\<close>

text \<open>
  Claim C1. For every frequency \<open>w\<close> and inner frequency \<open>wp\<close> (on a lattice with at
  least one site), every entry of every channel of the inner integrand is the
  specified formula: the batched vertex at \<open>(w + wp + nu, nu, w - wp)\<close> enters every
  entry with the weights -1, -1, -1, -4, the mixed pointwise values enter entry 0 only,
  and the sum is normalised by the propagators. The outer integrand is the local term,
  which has the weights \<open>1 / (4 pi)\<close> and \<open>1 / pi\<close> and is zero outside entry 0, plus the
  integrals of the inner integrand over the sub-intervals.
\<close>

theorem integrand_formula:
  assumes "0 < lattice_size E"
  shows "innerKernel E S nu w wp c = map (spec_innerIntegrand E S nu w wp c) [0..<lattice_size E]
       \<and> integralKernel E S nu cut' w =
           foldl sb_add (\<lambda>c. map (spec_localTerm S nu w c) [0..<lattice_size E])
             (map (integrateOver E (innerKernel E S nu w)) (spec_subIntervals E nu cut'))"
  using assms by (simp add: innerKernel_entries integralKernel_split)

text \<open>The theorem at the small instance, at \<open>w = 2\<close> and \<open>wp = 1\<close>.\<close>

theorem integrand_formula_witness:
  "0 < lattice_size demoEnv
   \<and> innerKernel demoEnv (demoAction 1) 0 2 1 SpinNone
       = [5 / (4 * pi\<^sup>2), - 1 / (4 * pi\<^sup>2), - 1 / (2 * pi\<^sup>2), - 3 / (4 * pi\<^sup>2)]
   \<and> innerKernel demoEnv (demoAction 1) 0 2 1 SpinZ
       = [1 / (8 * pi\<^sup>2), - 1 / (16 * pi\<^sup>2), - 1 / (8 * pi\<^sup>2), - 3 / (16 * pi\<^sup>2)]"
proof -
  have pos: "0 < lattice_size demoEnv"
    by (simp add: demoEnv_def)
  have n: "[0..<lattice_size demoEnv] = [0, 1, 2, 3]"
    by (simp add: demoEnv_def upt_rec)
  have d: "innerKernel demoEnv (demoAction 1) 0 2 1 SpinNone
           = map (spec_innerIntegrand demoEnv (demoAction 1) 0 2 1 SpinNone) [0, 1, 2, 3]"
    using integrand_formula [OF pos, of "demoAction 1" 0 2 1 SpinNone 1] n by simp
  have x: "innerKernel demoEnv (demoAction 1) 0 2 1 SpinZ
           = map (spec_innerIntegrand demoEnv (demoAction 1) 0 2 1 SpinZ) [0, 1, 2, 3]"
    using integrand_formula [OF pos, of "demoAction 1" 0 2 1 SpinZ 1] n by simp
  show ?thesis
    unfolding d x
    by (simp add: pos spec_innerIntegrand_def spec_normalization_def demoAction_def
          power2_eq_square)
qed

subsection \<open>C2: the split of the frequency axis\<close>

lemma spec_subIntervals_eq:
  "spec_subIntervals E nu cut' =
     (if beginNegative E < - cut' - nu then [(ObscureRight, beginNegative E, - cut' - nu)] else [])
     @ (if cut' - nu < - cut' then [(ObscureBoth, cut' - nu, - cut')] else [])
     @ (if cut' < freq_last E then [(ObscureLeft, cut', freq_last E)] else [])"
  by (simp add: spec_subIntervals_def)

lemma clamped_inside_mesh:
  assumes "0 \<le> cut'" and "beginNegative E \<le> 0" and "0 \<le> freq_last E"
  shows "spec_subIntervals E 0 cut' = spec_clampedIntervals E 0 cut'"
    and "\<forall>(k, lo, hi) \<in> set (spec_subIntervals E 0 cut'). beginNegative E \<le> lo \<and> hi \<le> freq_last E"
  using assms
  by (auto simp: spec_subIntervals_def spec_clampedIntervals_def spec_insideGrid_def)

lemma flat_innerKernel: "innerKernel demoEnv (flatAction c) 0 w wp = sb_zero 4"
  by (rule ext)
     (simp add: innerKernel_def Let_def sb_zero_def sb_scale_def multSub_def addAt_def
        demoEnv_def flatAction_def numeral_eq_Suc)

lemma flat_integralKernel:
  "integralKernel demoEnv (flatAction c) 0 (- 5) w
   = (\<lambda>c. case c of SpinNone \<Rightarrow> [1 / pi, 0, 0, 0] | _ \<Rightarrow> [1 / (4 * pi), 0, 0, 0])"
proof -
  have z: "integrateWithObscureRightBoundary demoEnv lo hi (innerKernel demoEnv (flatAction c) 0 w) = sb_zero 4"
    "integrateWithObscureBoundaries demoEnv lo hi (innerKernel demoEnv (flatAction c) 0 w) = sb_zero 4"
    "integrateWithObscureLeftBoundary demoEnv lo hi (innerKernel demoEnv (flatAction c) 0 w) = sb_zero 4"
    for lo hi
    unfolding flat_innerKernel
    by (simp_all add: demoEnv_def midpointRule_def sb_scale_def sb_zero_def)
  have pos: "0 < lattice_size demoEnv"
    by (simp add: demoEnv_def)
  have sub: "spec_subIntervals demoEnv 0 (- 5)
             = [(ObscureRight, - 2, 5), (ObscureBoth, - 5, 5), (ObscureLeft, - 5, 2)]"
    by (simp add: spec_subIntervals_def demoEnv_def)
  have "integralKernel demoEnv (flatAction c) 0 (- 5) w
        = sb_add (sb_add (sb_add (\<lambda>k. map (spec_localTerm (flatAction c) 0 w k) [0..<lattice_size demoEnv])
            (sb_zero 4)) (sb_zero 4)) (sb_zero 4)"
    unfolding integralKernel_split [OF pos] sub by (simp add: z)
  then show ?thesis
    by (intro ext)
       (simp add: sb_add_def sb_zero_def spec_localTerm_def spec_local_def demoEnv_def
          flatAction_def upt_rec numeral_eq_Suc split: SpinComponent.split)
qed

text \<open>
  Claim C2 says that a sub-interval is integrated only when it is not empty after
  clamping to the bounds of the mesh, and contributes nothing when a breakpoint lies
  outside them. The source compares each sub-interval's two ends and nothing else. On the
  mesh from -2 to 2, at the cutoff -5, the breakpoints 5 and -5 lie outside the mesh and
  the claim's split integrates nothing; the source integrates over the three
  sub-intervals from -2 to 5, from -5 to 5 and from -5 to 2, and the density channel of
  the constant integrand \<open>1 / pi\<close> comes out as \<open>24 / pi\<close>. At the cutoff 1, an inner
  integral at the offset 10 (a value the lambda is written for and the source never
  gives it) runs from -9 to -1, past the lowest mesh point.
\<close>

theorem domain_split_counterexample:
  "\<not> spec_insideGrid demoEnv (- cutoff (flatAction (- 5)))
   \<and> \<not> spec_insideGrid demoEnv (cutoff (flatAction (- 5)))
   \<and> spec_clampedIntervals demoEnv 0 (cutoff (flatAction (- 5))) = []
   \<and> foldl sb_add (sb_zero (lattice_size demoEnv))
       (map (integrateOver demoEnv (integralKernel demoEnv (flatAction (- 5)) 0 (cutoff (flatAction (- 5)))))
            (spec_clampedIntervals demoEnv 0 (cutoff (flatAction (- 5))))) SpinNone = [0, 0, 0, 0]
   \<and> calculateSusceptibility demoEnv (flatAction (- 5)) =
       sb_add (sb_add (sb_add (sb_zero 4)
         (midpointRule (- 2) 5 (integralKernel demoEnv (flatAction (- 5)) 0 (- 5))))
         (midpointRule (- 5) 5 (integralKernel demoEnv (flatAction (- 5)) 0 (- 5))))
         (midpointRule (- 5) 2 (integralKernel demoEnv (flatAction (- 5)) 0 (- 5)))
   \<and> calculateSusceptibility demoEnv (flatAction (- 5)) SpinNone = [24 / pi, 0, 0, 0]
   \<and> spec_clampedIntervals demoEnv 10 1 = [(ObscureLeft, 1, 2)]
   \<and> integralKernel demoEnv (demoAction 1) 10 1 3 =
       sb_add (sb_add (\<lambda>c. map (spec_localTerm (demoAction 1) 10 3 c) [0..<4])
         (midpointRule (- 9) (- 1) (innerKernel demoEnv (demoAction 1) 10 3)))
         (midpointRule 1 2 (innerKernel demoEnv (demoAction 1) 10 3))"
proof -
  have c: "cutoff (flatAction (- 5)) = - 5"
    by (simp add: flatAction_def)
  have pos: "0 < lattice_size demoEnv"
    by (simp add: demoEnv_def)
  have e10: "spec_clampedIntervals demoEnv 10 1 = [(ObscureLeft, 1, 2)]"
    by (simp add: spec_clampedIntervals_def spec_insideGrid_def demoEnv_def)
  have sub10: "spec_subIntervals demoEnv 10 1 = [(ObscureBoth, - 9, - 1), (ObscureLeft, 1, 2)]"
    by (simp add: spec_subIntervals_def demoEnv_def)
  have k10: "integralKernel demoEnv (demoAction 1) 10 1 3 =
       sb_add (sb_add (\<lambda>c. map (spec_localTerm (demoAction 1) 10 3 c) [0..<4])
         (midpointRule (- 9) (- 1) (innerKernel demoEnv (demoAction 1) 10 3)))
         (midpointRule 1 2 (innerKernel demoEnv (demoAction 1) 10 3))"
    unfolding integralKernel_split [OF pos] sub10 by (simp add: demoEnv_def)
  have e: "spec_clampedIntervals demoEnv 0 (- 5) = []"
    by (simp add: spec_clampedIntervals_def spec_insideGrid_def demoEnv_def)
  have o: "\<not> spec_insideGrid demoEnv 5" "\<not> spec_insideGrid demoEnv (- 5)"
    by (simp_all add: spec_insideGrid_def demoEnv_def)
  have s: "calculateSusceptibility demoEnv (flatAction (- 5)) =
       sb_add (sb_add (sb_add (sb_zero 4)
         (midpointRule (- 2) 5 (integralKernel demoEnv (flatAction (- 5)) 0 (- 5))))
         (midpointRule (- 5) 5 (integralKernel demoEnv (flatAction (- 5)) 0 (- 5))))
         (midpointRule (- 5) 2 (integralKernel demoEnv (flatAction (- 5)) 0 (- 5)))"
    by (simp add: calculateSusceptibility_def Let_def c) (simp add: demoEnv_def)
  have v: "calculateSusceptibility demoEnv (flatAction (- 5)) SpinNone = [24 / pi, 0, 0, 0]"
    unfolding s
    by (simp add: flat_integralKernel midpointRule_def sb_add_def sb_scale_def sb_zero_def
          numeral_eq_Suc)
  have z: "sb_zero (lattice_size demoEnv) SpinNone = [0, 0, 0, 0]"
    by (simp add: sb_zero_def demoEnv_def numeral_eq_Suc)
  show ?thesis
    using o e s v z e10 k10 by (simp add: c)
qed

text \<open>
  Claim C2 as amended. The offset frequency is the constant 0 of line 101 in the outer
  integral; the inner integral is written for any offset \<open>nu\<close>. Each of the two is
  the sum of the integrals over those of the three sub-intervals, from the lowest mesh
  point to \<open>- cutoff - nu\<close>, from \<open>cutoff - nu\<close> to \<open>- cutoff\<close> and from \<open>cutoff\<close> to the
  last mesh point, whose lower end lies below the upper end: that comparison is the only
  test, and nothing is clamped. For a cutoff that is not negative, on a mesh that
  reaches from a point that is not positive to one that is not negative, and at the
  offset 0, this is the split the claim words: every sub-interval that is integrated
  lies inside the mesh, and one with a breakpoint outside the mesh is left out. When
  moreover both \<open>- cutoff\<close> and \<open>cutoff\<close> are at or beyond the ends of the mesh, the
  outer integral is the zero bundle and the inner integral adds nothing to the local
  term. No case raises an error: the functions are total and have no failure among
  their results.
\<close>

theorem domain_split:
  "calculateSusceptibility E S =
     foldl sb_add (sb_zero (lattice_size E))
       (map (integrateOver E (integralKernel E S 0 (cutoff S))) (spec_subIntervals E 0 (cutoff S)))
   \<and> (0 < lattice_size E \<longrightarrow>
        integralKernel E S nu cut' w =
          foldl sb_add (\<lambda>c. map (spec_localTerm S nu w c) [0..<lattice_size E])
            (map (integrateOver E (innerKernel E S nu w)) (spec_subIntervals E nu cut')))
   \<and> spec_subIntervals E nu cut' =
       (if beginNegative E < - cut' - nu then [(ObscureRight, beginNegative E, - cut' - nu)] else [])
       @ (if cut' - nu < - cut' then [(ObscureBoth, cut' - nu, - cut')] else [])
       @ (if cut' < freq_last E then [(ObscureLeft, cut', freq_last E)] else [])
   \<and> (0 \<le> cut' \<and> beginNegative E \<le> 0 \<and> 0 \<le> freq_last E \<longrightarrow>
        spec_subIntervals E 0 cut' = spec_clampedIntervals E 0 cut'
        \<and> (\<forall>(k, lo, hi) \<in> set (spec_subIntervals E 0 cut').
              beginNegative E \<le> lo \<and> hi \<le> freq_last E))
   \<and> (0 \<le> cutoff S \<and> - cutoff S \<le> beginNegative E \<and> freq_last E \<le> cutoff S \<longrightarrow>
        calculateSusceptibility E S = sb_zero (lattice_size E)
        \<and> (0 < lattice_size E \<longrightarrow>
             integralKernel E S 0 (cutoff S) w = (\<lambda>c. map (spec_localTerm S 0 w c) [0..<lattice_size E])))"
proof -
  have skipped: "spec_subIntervals E 0 (cutoff S) = []"
    if "0 \<le> cutoff S" "- cutoff S \<le> beginNegative E" "freq_last E \<le> cutoff S"
    using that by (simp add: spec_subIntervals_def)
  have zero: "calculateSusceptibility E S = sb_zero (lattice_size E)
        \<and> (0 < lattice_size E \<longrightarrow>
             integralKernel E S 0 (cutoff S) w = (\<lambda>c. map (spec_localTerm S 0 w c) [0..<lattice_size E]))"
    if "0 \<le> cutoff S" "- cutoff S \<le> beginNegative E" "freq_last E \<le> cutoff S"
    using skipped [OF that] by (simp add: calculateSusceptibility_split integralKernel_split)
  show ?thesis
    using zero clamped_inside_mesh [of cut' E] spec_subIntervals_eq [of E nu cut']
      calculateSusceptibility_split [of E S] integralKernel_split [of E S nu cut' w]
    by blast
qed

text \<open>
  The theorem at the small instance, at the cutoffs 1 (inside the mesh) and 3 (outside).
\<close>

theorem domain_split_witness:
  "0 < lattice_size demoEnv \<and> beginNegative demoEnv \<le> 0 \<and> 0 \<le> freq_last demoEnv
   \<and> spec_subIntervals demoEnv 0 1 = [(ObscureRight, - 2, - 1), (ObscureLeft, 1, 2)]
   \<and> spec_clampedIntervals demoEnv 0 1 = [(ObscureRight, - 2, - 1), (ObscureLeft, 1, 2)]
   \<and> calculateSusceptibility demoEnv (demoAction 1) =
       sb_add (sb_add (sb_zero 4) (midpointRule (- 2) (- 1) (integralKernel demoEnv (demoAction 1) 0 1)))
              (midpointRule 1 2 (integralKernel demoEnv (demoAction 1) 0 1))
   \<and> - cutoff (demoAction 3) \<le> beginNegative demoEnv \<and> freq_last demoEnv \<le> cutoff (demoAction 3)
   \<and> spec_subIntervals demoEnv 0 3 = []
   \<and> calculateSusceptibility demoEnv (demoAction 3) = sb_zero 4
   \<and> integralKernel demoEnv (demoAction 3) 0 3 (3 / 2) SpinNone = [4 / (9 * pi), 0, 0, 0]"
proof -
  have pos: "0 < lattice_size demoEnv"
    by (simp add: demoEnv_def)
  have mesh: "beginNegative demoEnv \<le> 0 \<and> 0 \<le> freq_last demoEnv"
    by (simp add: demoEnv_def)
  have b: "beginNegative demoEnv = - 2" "freq_last demoEnv = 2"
    by (simp_all add: demoEnv_def)
  have three: "0 \<le> cutoff (demoAction 3) \<and> - cutoff (demoAction 3) \<le> beginNegative demoEnv
      \<and> freq_last demoEnv \<le> cutoff (demoAction 3)"
    by (simp add: demoEnv_def demoAction_def)
  have c3: "cutoff (demoAction 3) = 3" "cutoff (demoAction 1) = 1"
    by (simp_all add: demoAction_def)
  have s: "lattice_size demoEnv = 4"
    by (simp add: demoEnv_def)
  note t1 = domain_split [of demoEnv "demoAction 1" 0 1 0]
  note t3 = domain_split [of demoEnv "demoAction 3" 0 3 "3 / 2"]
  from t1 have "spec_subIntervals demoEnv 0 1 =
       (if beginNegative demoEnv < - 1 - 0 then [(ObscureRight, beginNegative demoEnv, - 1 - 0)] else [])
       @ (if (1::real) - 0 < - 1 then [(ObscureBoth, 1 - 0, - 1)] else [])
       @ (if 1 < freq_last demoEnv then [(ObscureLeft, 1, freq_last demoEnv)] else [])"
    by blast
  then have one: "spec_subIntervals demoEnv 0 1 = [(ObscureRight, - 2, - 1), (ObscureLeft, 1, 2)]"
    by (simp add: b)
  have "0 \<le> (1::real)"
    by simp
  with t1 mesh have "spec_subIntervals demoEnv 0 1 = spec_clampedIntervals demoEnv 0 1"
    by blast
  with one have cl: "spec_clampedIntervals demoEnv 0 1 = [(ObscureRight, - 2, - 1), (ObscureLeft, 1, 2)]"
    by simp
  from t1 have "calculateSusceptibility demoEnv (demoAction 1) =
     foldl sb_add (sb_zero (lattice_size demoEnv))
       (map (integrateOver demoEnv (integralKernel demoEnv (demoAction 1) 0 (cutoff (demoAction 1))))
            (spec_subIntervals demoEnv 0 (cutoff (demoAction 1))))"
    by blast
  then have r1: "calculateSusceptibility demoEnv (demoAction 1) =
       sb_add (sb_add (sb_zero 4) (midpointRule (- 2) (- 1) (integralKernel demoEnv (demoAction 1) 0 1)))
              (midpointRule 1 2 (integralKernel demoEnv (demoAction 1) 0 1))"
    unfolding c3 one by (simp add: demoEnv_def)
  from t3 have "spec_subIntervals demoEnv 0 3 =
       (if beginNegative demoEnv < - 3 - 0 then [(ObscureRight, beginNegative demoEnv, - 3 - 0)] else [])
       @ (if (3::real) - 0 < - 3 then [(ObscureBoth, 3 - 0, - 3)] else [])
       @ (if 3 < freq_last demoEnv then [(ObscureLeft, 3, freq_last demoEnv)] else [])"
    by blast
  then have e3: "spec_subIntervals demoEnv 0 3 = []"
    by (simp add: b)
  have "calculateSusceptibility demoEnv (demoAction 3) = sb_zero (lattice_size demoEnv)"
    using t3 three by blast
  then have r3: "calculateSusceptibility demoEnv (demoAction 3) = sb_zero 4"
    by (simp add: s)
  have "integralKernel demoEnv (demoAction 3) 0 (cutoff (demoAction 3)) (3 / 2)
        = (\<lambda>c. map (spec_localTerm (demoAction 3) 0 (3 / 2) c) [0..<lattice_size demoEnv])"
    using t3 three pos by blast
  then have k3: "integralKernel demoEnv (demoAction 3) 0 3 (3 / 2) SpinNone = [4 / (9 * pi), 0, 0, 0]"
    by (simp add: c3 s spec_localTerm_def spec_local_def demoAction_def upt_rec)
  show ?thesis
    using pos mesh one cl r1 three e3 r3 k3 by simp
qed


subsection \<open>The two loops over the pairs of sites\<close>

text \<open>
  What one pass of the loop body and the whole loop do to the buffer of a channel, and
  when they run to their end.
\<close>

lemma storePair_Some:
  assumes "storePair E susc i j off m = Some m'"
  shows "m' = m\<lparr>correlationsXX := (correlationsXX m)[off := storedValue E susc SpinX (i, j)],
                correlationsYY := (correlationsYY m)[off := storedValue E susc SpinY (i, j)],
                correlationsZZ := (correlationsZZ m)[off := storedValue E susc SpinZ (i, j)],
                correlationsDD := (correlationsDD m)[off := storedValue E susc SpinNone (i, j)]\<rparr>
         \<and> off < length (correlationsXX m) \<and> off < length (correlationsYY m)
         \<and> off < length (correlationsZZ m) \<and> off < length (correlationsDD m)"
  using assms
  by (auto simp: storePair_def resolve_def storedValue_def readAt_def storeAt_def Let_def
           split: prod.splits if_splits Option.bind_splits)

lemma storePair_channel:
  assumes "storePair E susc i j off m = Some m'"
  shows "correlations c m' = (correlations c m)[off := storedValue E susc c (i, j)]
         \<and> off < length (correlations c m)
         \<and> outfile m' = outfile m \<and> currentCutoff m' = currentCutoff m
         \<and> memoryStepLattice m' = memoryStepLattice m"
  using storePair_Some [OF assms] by (cases c) simp_all

lemma storeLoop_channel:
  assumes "storeLoop E susc ps off m = Some m'"
  shows "length (correlations c m') = length (correlations c m)
         \<and> (\<forall>k. k < off \<or> off + length ps \<le> k \<longrightarrow> correlations c m' ! k = correlations c m ! k)
         \<and> (\<forall>n < length ps. correlations c m' ! (off + n) = storedValue E susc c (ps ! n))
         \<and> (ps \<noteq> [] \<longrightarrow> off + length ps \<le> length (correlations c m))
         \<and> outfile m' = outfile m \<and> currentCutoff m' = currentCutoff m
         \<and> memoryStepLattice m' = memoryStepLattice m"
  using assms
proof (induction ps arbitrary: off m)
  case Nil
  then show ?case by simp
next
  case (Cons p ps)
  obtain i j where p: "p = (i, j)" by (cases p)
  from Cons.prems p obtain m1 where
    one: "storePair E susc i j off m = Some m1" and rest: "storeLoop E susc ps (Suc off) m1 = Some m'"
    by (auto split: option.splits)
  note a = storePair_channel [OF one, of c]
  note b = Cons.IH [OF rest]
  show ?case
  proof (intro conjI allI impI)
    show "length (correlations c m') = length (correlations c m)" using a b by simp
    show "correlations c m' ! k = correlations c m ! k" if "k < off \<or> off + length (p # ps) \<le> k" for k
      using a b that by auto
    show "correlations c m' ! (off + n) = storedValue E susc c ((p # ps) ! n)" if "n < length (p # ps)" for n
    proof (cases n)
      case 0
      then show ?thesis using a b p by simp
    next
      case (Suc n')
      then show ?thesis using b that by simp
    qed
    show "off + length (p # ps) \<le> length (correlations c m)"
      using a b by (cases ps) auto
  qed (use a b in simp_all)
qed

lemma storePair_returns:
  assumes "\<And>c. fst (resolve E i j c) < length (susc (snd (resolve E i j c)))"
      and "\<And>c. off < length (correlations c m)"
  shows "\<exists>m'. storePair E susc i j off m = Some m'"
proof -
  obtain rX cX sX where X: "symmetryTransform E i j SpinX 1 = (rX, cX, sX)"
    by (cases "symmetryTransform E i j SpinX 1")
  obtain rY cY sY where Y: "symmetryTransform E i j SpinY sX = (rY, cY, sY)"
    by (cases "symmetryTransform E i j SpinY sX")
  obtain rZ cZ sZ where Z: "symmetryTransform E i j SpinZ sY = (rZ, cZ, sZ)"
    by (cases "symmetryTransform E i j SpinZ sY")
  obtain rD cD sD where D: "symmetryTransform E i j SpinNone sZ = (rD, cD, sD)"
    by (cases "symmetryTransform E i j SpinNone sZ")
  have r: "rX < length (susc cX)" "rY < length (susc cY)" "rZ < length (susc cZ)" "rD < length (susc cD)"
    using assms(1) [of SpinX] assms(1) [of SpinY] assms(1) [of SpinZ] assms(1) [of SpinNone]
    by (simp_all add: resolve_def X Y Z D)
  have l: "off < length (correlationsXX m)" "off < length (correlationsYY m)"
    "off < length (correlationsZZ m)" "off < length (correlationsDD m)"
    using assms(2) [of SpinX] assms(2) [of SpinY] assms(2) [of SpinZ] assms(2) [of SpinNone]
    by simp_all
  show ?thesis
    by (simp add: storePair_def X Y Z D r l readAt_def storeAt_def)
qed

lemma storeLoop_returns:
  assumes "\<And>p c. p \<in> set ps \<Longrightarrow>
              fst (resolve E (fst p) (snd p) c) < length (susc (snd (resolve E (fst p) (snd p) c)))"
      and "\<And>c. off + length ps \<le> length (correlations c m)"
  shows "\<exists>m'. storeLoop E susc ps off m = Some m'"
  using assms
proof (induction ps arbitrary: off m)
  case Nil
  then show ?case by simp
next
  case (Cons p ps)
  obtain i j where p: "p = (i, j)" by (cases p)
  have "\<exists>m1. storePair E susc i j off m = Some m1"
  proof (rule storePair_returns)
    show "fst (resolve E i j c) < length (susc (snd (resolve E i j c)))" for c
      using Cons.prems(1) [of p c] p by simp
    show "off < length (correlations c m)" for c
      using Cons.prems(2) [of c] by simp
  qed
  then obtain m1 where one: "storePair E susc i j off m = Some m1" ..
  have len: "length (correlations c m1) = length (correlations c m)" for c
    using storePair_channel [OF one, of c] by simp
  have "\<exists>m'. storeLoop E susc ps (Suc off) m1 = Some m'"
  proof (rule Cons.IH)
    show "fst (resolve E (fst q) (snd q) c) < length (susc (snd (resolve E (fst q) (snd q) c)))"
      if "q \<in> set ps" for q c
      using Cons.prems(1) [of q c] that by simp
    show "Suc off + length ps \<le> length (correlations c m1)" for c
      using Cons.prems(2) [of c] len [of c] by simp
  qed
  then show ?case using one p by simp
qed

text \<open>The small instance, evaluated.\<close>

lemma demoPairs: "latticePairs demoEnv = [(0, 0), (0, 1), (0, 2), (0, 3)]"
  by (simp add: latticePairs_def demoEnv_def)

lemma demoMeasurement_eq:
  "demoMeasurement = \<lparr> outfile = ''obs.h5'', currentCutoff = - 1, memoryStepLattice = 4,
      correlationsXX = [7, 7, 7, 7], correlationsYY = [7, 7, 7, 7],
      correlationsZZ = [7, 7, 7, 7], correlationsDD = [7, 7, 7, 7] \<rparr>"
  by (simp add: demoMeasurement_def XYZMeasurementCorrelation_def getRangeOfBasis_def demoEnv_def upt_rec)

lemma demoSusceptibility3: "calculateSusceptibility demoEnv (demoAction 3) = (\<lambda>c. [0, 0, 0, 0])"
  by (simp add: calculateSusceptibility_def demoEnv_def demoAction_def sb_zero_def numeral_eq_Suc)

lemma demoCorrelation3:
  "calculateCorrelation demoEnv (demoAction 3) demoMeasurement 0
   = Some (demoMeasurement\<lparr>correlationsXX := [0, 0, 0, 0], correlationsYY := [0, 0, 0, 0],
                            correlationsZZ := [0, 0, 0, 0], correlationsDD := [0, 0, 0, 0]\<rparr>)"
  unfolding calculateCorrelation_def Let_def demoSusceptibility3 demoPairs
  by (simp add: demoMeasurement_eq storePair_def readAt_def storeAt_def demoEnv_def)

lemma length_innerKernel: "length (innerKernel E S nu w wp c) = lattice_size E"
  by (cases c) (simp_all add: innerKernel_def Let_def sb_zero_def sb_scale_def multSub_def addAt_def)

lemma innerKernel_symmetry_free:
  "innerKernel (E\<lparr>symmetryTransform := f\<rparr>) S nu w = innerKernel E S nu w"
  by (rule ext) (simp add: innerKernel_def Let_def)

lemma integralKernel_symmetry_free:
  "integralKernel (E\<lparr>symmetryTransform := f\<rparr>) S nu cut' = integralKernel E S nu cut'"
  by (rule ext) (simp add: integralKernel_def Let_def innerKernel_symmetry_free cong: if_cong)

lemma susceptibility_symmetry_free:
  "calculateSusceptibility (E\<lparr>symmetryTransform := f\<rparr>) S = calculateSusceptibility E S"
  by (simp add: calculateSusceptibility_def Let_def integralKernel_symmetry_free cong: if_cong)

text \<open>The susceptibility of the small instance at the cutoff 1.\<close>

lemma demoInner:
  "innerKernel demoEnv (demoAction 1) 0 w wp c =
     map (\<lambda>r. (spec_bundleWeight c * real r + (if r = 0 then spec_mix c 1 2 3 4 else 0))
               / (w * w * wp * wp * (4 * pi * pi)))
       [0, 1, 2, 3]"
proof -
  have pos: "0 < lattice_size demoEnv"
    by (simp add: demoEnv_def)
  show ?thesis
    unfolding innerKernel_entries [OF pos]
    by (simp add: spec_innerIntegrand_def spec_normalization_def demoEnv_def demoAction_def upt_rec)
qed

lemma demoIntegral:
  "integralKernel demoEnv (demoAction 1) 0 1 w c =
     map (\<lambda>r. (if r = 0 then spec_localWeight c / (w * w) else 0)
               + 2 * ((spec_bundleWeight c * real r + (if r = 0 then spec_mix c 1 2 3 4 else 0))
                      / (w * w * (9 / 4) * (4 * pi * pi))))
       [0, 1, 2, 3]"
proof -
  have pos: "0 < lattice_size demoEnv"
    by (simp add: demoEnv_def)
  have sub: "spec_subIntervals demoEnv 0 1 = [(ObscureRight, - 2, - 1), (ObscureLeft, 1, 2)]"
    by (simp add: spec_subIntervals_def demoEnv_def)
  have i: "integrateWithObscureRightBoundary demoEnv = midpointRule"
    "integrateWithObscureLeftBoundary demoEnv = midpointRule"
    by (simp_all add: demoEnv_def)
  have l: "[0..<lattice_size demoEnv] = [0, 1, 2, 3]"
    by (simp add: demoEnv_def upt_rec)
  have loc: "spec_localTerm (demoAction 1) 0 w c r
             = (if r = 0 then spec_localWeight c / (w * w) else 0)" for r
    by (simp add: spec_localTerm_def spec_local_def demoAction_def)
  show ?thesis
    unfolding integralKernel_split [OF pos] sub
    by (simp add: i l loc midpointRule_def sb_scale_def sb_add_def demoInner field_simps)
qed

lemma demoSusceptibility1:
  "calculateSusceptibility demoEnv (demoAction 1) c =
     map (\<lambda>r. 2 * ((if r = 0 then spec_localWeight c / (9 / 4) else 0)
               + 2 * ((spec_bundleWeight c * real r + (if r = 0 then spec_mix c 1 2 3 4 else 0))
                      / ((9 / 4) * (9 / 4) * (4 * pi * pi)))))
       [0, 1, 2, 3]"
proof -
  have sub: "spec_subIntervals demoEnv 0 1 = [(ObscureRight, - 2, - 1), (ObscureLeft, 1, 2)]"
    by (simp add: spec_subIntervals_def demoEnv_def)
  have i: "integrateWithObscureRightBoundary demoEnv = midpointRule"
    "integrateWithObscureLeftBoundary demoEnv = midpointRule"
    by (simp_all add: demoEnv_def)
  have c: "cutoff (demoAction 1) = 1"
    by (simp add: demoAction_def)
  have z: "sb_zero (lattice_size demoEnv) c = [0, 0, 0, 0]"
    by (simp add: sb_zero_def demoEnv_def numeral_eq_Suc)
  show ?thesis
    unfolding calculateSusceptibility_split c sub
    by (simp add: i z midpointRule_def sb_scale_def sb_add_def demoIntegral)
qed

lemma demoValues:
  "calculateSusceptibility demoEnv (demoAction 1) SpinX
     = [2 / (9 * pi), - (16 / (81 * pi\<^sup>2)), - (32 / (81 * pi\<^sup>2)), - (16 / (27 * pi\<^sup>2))]"
  "calculateSusceptibility demoEnv (demoAction 1) SpinNone
     = [8 / (9 * pi) + 320 / (81 * pi\<^sup>2), - (64 / (81 * pi\<^sup>2)), - (128 / (81 * pi\<^sup>2)),
        - (64 / (27 * pi\<^sup>2))]"
  by (simp_all add: demoSusceptibility1 power2_eq_square field_simps)

lemma length_demoSusceptibility1: "length (calculateSusceptibility demoEnv (demoAction 1) c) = 4"
  by (simp add: demoSusceptibility1)

lemma length_demoSusceptibility:
  "length (calculateSusceptibility demoEnvFolded (demoAction 1) c) = 4"
  by (simp add: demoEnvFolded_def susceptibility_symmetry_free length_demoSusceptibility1)

lemma demoPairsFolded: "latticePairs demoEnvFolded = [(0, 0), (0, 1), (0, 2), (0, 3)]"
  by (simp add: latticePairs_def demoEnvFolded_def demoEnv_def)

lemma resolve_demoEnvFolded: "resolve demoEnvFolded i j c = (j mod 2, c)"
  by (cases c) (simp_all add: resolve_def demoEnvFolded_def demoEnv_def)

lemma resolve_demoEnv: "resolve demoEnv i j c = (j, c)"
  by (cases c) (simp_all add: resolve_def demoEnv_def)

text \<open>When a call of the callback returns, and when it cannot.\<close>

lemma callback_returns:
  assumes "\<And>p c. p \<in> set (latticePairs E) \<Longrightarrow>
              fst (resolve E (fst p) (snd p) c)
              < length (calculateSusceptibility E S (snd (resolve E (fst p) (snd p) c)))"
      and "\<And>c. it * memoryStepLattice m + length (latticePairs E) \<le> length (correlations c m)"
  shows "\<exists>m'. calculateCorrelation E S m it = Some m'"
  unfolding calculateCorrelation_def Let_def
  using assms by (rule storeLoop_returns)

lemma iterator_past_end:
  assumes "latticePairs E \<noteq> []" and "0 < it"
      and "length (correlations c m) \<le> memoryStepLattice m"
  shows "calculateCorrelation E S m it = None"
proof (cases "calculateCorrelation E S m it")
  case None
  then show ?thesis .
next
  case (Some m')
  then have loop: "storeLoop E (calculateSusceptibility E S) (latticePairs E) (it * memoryStepLattice m) m = Some m'"
    by (simp add: calculateCorrelation_def Let_def)
  have inside: "it * memoryStepLattice m + length (latticePairs E) \<le> length (correlations c m)"
    using storeLoop_channel [OF loop, of c] assms(1) by blast
  have "0 < length (latticePairs E)"
    using assms(1) by simp
  moreover have "memoryStepLattice m \<le> it * memoryStepLattice m"
    using assms(2) by simp
  ultimately have False
    using inside assms(3) by linarith
  then show ?thesis ..
qed

lemma constructed_lengths:
  "length (correlations c (XYZMeasurementCorrelation E file gXX gYY gZZ gDD))
   = memoryStepLattice (XYZMeasurementCorrelation E file gXX gYY gZZ gDD)"
  by (cases c) (simp_all add: XYZMeasurementCorrelation_def Let_def)

subsection \<open>C3: what one call of the callback writes\<close>

text \<open>
  Claim C3 says that one call of the callback for the index \<open>it\<close> changes exactly the
  entries at offset \<open>it\<close> of the four buffers, and that the calls for different indices
  are independent of each other. The source starts at the offset
  \<open>it * _memoryStepLattice\<close> and stores one entry for every pair of a basis site and a
  site in its range: at the small instance, the call for index 0 overwrites the entry
  at offset 1 (and those at 2 and 3) of every buffer, and a call for index 1 would start
  behind the last entry of the buffers, so it does not return.
\<close>

theorem callback_single_entry_counterexample:
  "calculateCorrelation demoEnv (demoAction 3) demoMeasurement 0
     = Some (demoMeasurement\<lparr>correlationsXX := [0, 0, 0, 0], correlationsYY := [0, 0, 0, 0],
                              correlationsZZ := [0, 0, 0, 0], correlationsDD := [0, 0, 0, 0]\<rparr>)
   \<and> correlationsXX demoMeasurement ! 1 = 7
   \<and> correlationsXX (demoMeasurement\<lparr>correlationsXX := [0, 0, 0, 0], correlationsYY := [0, 0, 0, 0],
                              correlationsZZ := [0, 0, 0, 0], correlationsDD := [0, 0, 0, 0]\<rparr>) ! 1 = 0
   \<and> calculateCorrelation demoEnv (demoAction 3) demoMeasurement 1 = None"
proof -
  have "calculateCorrelation demoEnv (demoAction 3) demoMeasurement 1 = None"
    by (rule iterator_past_end [where c = SpinX]) (simp_all add: demoPairs demoMeasurement_eq)
  then show ?thesis
    using demoCorrelation3 by (simp add: demoMeasurement_eq)
qed

text \<open>
  Claim C3 as amended. A call of the callback for the iterator \<open>it\<close> that returns leaves
  the length of every buffer and the other fields of the object as they were, leaves
  every entry outside the block from \<open>it * memoryStepLattice\<close> of as many entries as
  there are pairs as it was, and stores in the \<open>n\<close>-th entry of the block the entry of
  the susceptibility that the symmetry map names for the \<open>n\<close>-th pair, a value that does
  not depend on what the buffers held; the block lies inside the buffer. The call
  returns when the block lies inside every buffer and the symmetry map names entries
  that the susceptibility has. It does not return (it stores past the end of a buffer)
  for an iterator other than 0 when there is a pair of sites and the buffer is no longer
  than the memory step, as the buffers of every constructed object are: the one call for
  the iterator 0 stores the entries of all pairs, and there is no call for another
  iterator.
\<close>

theorem callback_block_frame:
  "(calculateCorrelation E S m it = Some m' \<longrightarrow>
       length (correlations c m') = length (correlations c m)
     \<and> (\<forall>k. k < it * memoryStepLattice m \<or> it * memoryStepLattice m + length (latticePairs E) \<le> k
            \<longrightarrow> correlations c m' ! k = correlations c m ! k)
     \<and> (\<forall>n < length (latticePairs E).
            correlations c m' ! (it * memoryStepLattice m + n)
            = storedValue E (calculateSusceptibility E S) c (latticePairs E ! n))
     \<and> (latticePairs E \<noteq> [] \<longrightarrow>
            it * memoryStepLattice m + length (latticePairs E) \<le> length (correlations c m))
     \<and> outfile m' = outfile m \<and> currentCutoff m' = currentCutoff m
     \<and> memoryStepLattice m' = memoryStepLattice m)
   \<and> ((\<forall>p \<in> set (latticePairs E). \<forall>k.
          fst (resolve E (fst p) (snd p) k)
          < length (calculateSusceptibility E S (snd (resolve E (fst p) (snd p) k))))
      \<and> (\<forall>k. it * memoryStepLattice m + length (latticePairs E) \<le> length (correlations k m))
      \<longrightarrow> calculateCorrelation E S m it \<noteq> None)
   \<and> (latticePairs E \<noteq> [] \<and> 0 < it \<and> length (correlations c m) \<le> memoryStepLattice m
      \<longrightarrow> calculateCorrelation E S m it = None)
   \<and> length (correlations c (XYZMeasurementCorrelation E file gXX gYY gZZ gDD))
     = memoryStepLattice (XYZMeasurementCorrelation E file gXX gYY gZZ gDD)
   \<and> (latticePairs E \<noteq> [] \<and> 0 < it
      \<longrightarrow> calculateCorrelation E S (XYZMeasurementCorrelation E file gXX gYY gZZ gDD) it = None)"
proof -
  have frame: "length (correlations c m') = length (correlations c m)
     \<and> (\<forall>k. k < it * memoryStepLattice m \<or> it * memoryStepLattice m + length (latticePairs E) \<le> k
            \<longrightarrow> correlations c m' ! k = correlations c m ! k)
     \<and> (\<forall>n < length (latticePairs E).
            correlations c m' ! (it * memoryStepLattice m + n)
            = storedValue E (calculateSusceptibility E S) c (latticePairs E ! n))
     \<and> (latticePairs E \<noteq> [] \<longrightarrow>
            it * memoryStepLattice m + length (latticePairs E) \<le> length (correlations c m))
     \<and> outfile m' = outfile m \<and> currentCutoff m' = currentCutoff m
     \<and> memoryStepLattice m' = memoryStepLattice m"
    if "calculateCorrelation E S m it = Some m'"
  proof -
    have loop: "storeLoop E (calculateSusceptibility E S) (latticePairs E) (it * memoryStepLattice m) m = Some m'"
      using that by (simp add: calculateCorrelation_def Let_def)
    show ?thesis
      using storeLoop_channel [OF loop, of c] by blast
  qed
  have returns: "calculateCorrelation E S m it \<noteq> None"
    if "\<forall>p \<in> set (latticePairs E). \<forall>k.
          fst (resolve E (fst p) (snd p) k)
          < length (calculateSusceptibility E S (snd (resolve E (fst p) (snd p) k)))"
      and "\<forall>k. it * memoryStepLattice m + length (latticePairs E) \<le> length (correlations k m)"
  proof -
    have "\<exists>m'. calculateCorrelation E S m it = Some m'"
      by (rule callback_returns) (use that in blast)+
    then show ?thesis by auto
  qed
  have past: "calculateCorrelation E S m it = None"
    if "latticePairs E \<noteq> []" "0 < it" "length (correlations c m) \<le> memoryStepLattice m"
    using that by (rule iterator_past_end)
  have constructed: "calculateCorrelation E S (XYZMeasurementCorrelation E file gXX gYY gZZ gDD) it = None"
    if "latticePairs E \<noteq> []" "0 < it"
    using that by (rule iterator_past_end [where c = c]) (simp add: constructed_lengths)
  have len: "length (correlations c (XYZMeasurementCorrelation E file gXX gYY gZZ gDD))
     = memoryStepLattice (XYZMeasurementCorrelation E file gXX gYY gZZ gDD)"
    by (rule constructed_lengths)
  show ?thesis
    using frame returns past constructed len by blast
qed

text \<open>
  The theorem at the small instance, at the cutoff 1, where the susceptibility does not
  vanish: the call for the iterator 0 returns and stores the entry of the third pair at
  offset 2, and the call for the iterator 1 does not return.
\<close>

theorem callback_block_frame_witness:
  "latticePairs demoEnv \<noteq> [] \<and> length (latticePairs demoEnv) = 4
   \<and> memoryStepLattice demoMeasurement = 4
   \<and> calculateCorrelation demoEnv (demoAction 1) demoMeasurement 0 \<noteq> None
   \<and> length (correlations SpinX (the (calculateCorrelation demoEnv (demoAction 1) demoMeasurement 0))) = 4
   \<and> correlations SpinX (the (calculateCorrelation demoEnv (demoAction 1) demoMeasurement 0)) ! 2
     = - (32 / (81 * pi\<^sup>2))
   \<and> calculateCorrelation demoEnv (demoAction 1) demoMeasurement 1 = None"
proof -
  have pairs: "latticePairs demoEnv \<noteq> []" "length (latticePairs demoEnv) = 4"
    by (simp_all add: demoPairs)
  have m: "memoryStepLattice demoMeasurement = 4"
    by (simp add: demoMeasurement_eq)
  have len: "length (correlations k demoMeasurement) = 4" for k
    by (cases k) (simp_all add: demoMeasurement_eq)
  have inside: "\<forall>p \<in> set (latticePairs demoEnv). \<forall>k.
          fst (resolve demoEnv (fst p) (snd p) k)
          < length (calculateSusceptibility demoEnv (demoAction 1) (snd (resolve demoEnv (fst p) (snd p) k)))"
    by (simp add: resolve_demoEnv length_demoSusceptibility1 demoPairs)
  have fits: "\<forall>k. 0 * memoryStepLattice demoMeasurement + length (latticePairs demoEnv)
                   \<le> length (correlations k demoMeasurement)"
    by (simp add: len pairs)
  note t0 = callback_block_frame [of demoEnv "demoAction 1" demoMeasurement 0 _ SpinX]
  from t0 inside fits have r: "calculateCorrelation demoEnv (demoAction 1) demoMeasurement 0 \<noteq> None"
    by blast
  then obtain m' where m': "calculateCorrelation demoEnv (demoAction 1) demoMeasurement 0 = Some m'"
    by auto
  note t = callback_block_frame [of demoEnv "demoAction 1" demoMeasurement 0 m' SpinX]
  from t m' have l: "length (correlations SpinX m') = length (correlations SpinX demoMeasurement)"
    by blast
  have "2 < length (latticePairs demoEnv)"
    by (simp add: pairs)
  with t m' have "correlations SpinX m' ! (0 * memoryStepLattice demoMeasurement + 2)
        = storedValue demoEnv (calculateSusceptibility demoEnv (demoAction 1)) SpinX (latticePairs demoEnv ! 2)"
    by blast
  moreover have "storedValue demoEnv (calculateSusceptibility demoEnv (demoAction 1)) SpinX (latticePairs demoEnv ! 2)
        = - (32 / (81 * pi\<^sup>2))"
    by (simp add: storedValue_def resolve_demoEnv demoPairs demoValues)
  ultimately have v: "correlations SpinX m' ! 2 = - (32 / (81 * pi\<^sup>2))"
    by (simp only: mult_0 add_0)
  have d: "demoMeasurement = XYZMeasurementCorrelation demoEnv ''obs.h5'' (\<lambda>k. 7) (\<lambda>k. 7) (\<lambda>k. 7) (\<lambda>k. 7)"
    by (simp add: demoMeasurement_def)
  note t1 = callback_block_frame [of demoEnv "demoAction 1" _ 1 _ SpinX "''obs.h5''"
      "\<lambda>k. 7" "\<lambda>k. 7" "\<lambda>k. 7" "\<lambda>k. 7"]
  have "(0::nat) < 1"
    by simp
  with t1 pairs(1) have
    "calculateCorrelation demoEnv (demoAction 1)
       (XYZMeasurementCorrelation demoEnv ''obs.h5'' (\<lambda>k. 7) (\<lambda>k. 7) (\<lambda>k. 7) (\<lambda>k. 7)) 1 = None"
    by blast
  then have n: "calculateCorrelation demoEnv (demoAction 1) demoMeasurement 1 = None"
    by (simp add: d)
  have l4: "length (correlations SpinX m') = 4"
    using l len [of SpinX] by simp
  show ?thesis
    using pairs m r l4 v n by (simp add: m')
qed

subsection \<open>C6: pairs of sites related by symmetry\<close>

lemma demoPairsSwapped: "latticePairs demoEnvSwapped = [(0, 0), (0, 1), (0, 2), (0, 3)]"
  by (simp add: latticePairs_def demoEnvSwapped_def demoEnv_def)

lemma resolve_demoEnvSwapped:
  "resolve demoEnvSwapped i j c
   = (j mod 2, if j = 3 then (case c of SpinX \<Rightarrow> SpinNone | SpinNone \<Rightarrow> SpinX | _ \<Rightarrow> c) else c)"
  by (cases c) (simp_all add: resolve_def demoEnvSwapped_def demoEnv_def)

lemma resolveSign_demoEnvSwapped: "resolveSign demoEnvSwapped i j c = 1"
  by (cases c) (simp_all add: resolveSign_def demoEnvSwapped_def demoEnv_def)

lemma resolveSign_demoEnvFolded: "resolveSign demoEnvFolded i j c = 1"
  by (cases c) (simp_all add: resolveSign_def demoEnvFolded_def demoEnv_def)

lemma demoSusceptibilitySwapped:
  "calculateSusceptibility demoEnvSwapped S = calculateSusceptibility demoEnv S"
  by (simp add: demoEnvSwapped_def susceptibility_symmetry_free)

lemma demoSusceptibilityFolded:
  "calculateSusceptibility demoEnvFolded S = calculateSusceptibility demoEnv S"
  by (simp add: demoEnvFolded_def susceptibility_symmetry_free)

lemma demoSwapped_returns:
  "\<exists>m'. calculateCorrelation demoEnvSwapped (demoAction 1) demoMeasurement 0 = Some m'"
proof (rule callback_returns)
  fix p c
  show "fst (resolve demoEnvSwapped (fst p) (snd p) c)
        < length (calculateSusceptibility demoEnvSwapped (demoAction 1)
                    (snd (resolve demoEnvSwapped (fst p) (snd p) c)))"
    by (simp add: resolve_demoEnvSwapped demoSusceptibilitySwapped length_demoSusceptibility1)
next
  fix c
  show "0 * memoryStepLattice demoMeasurement + length (latticePairs demoEnvSwapped)
        \<le> length (correlations c demoMeasurement)"
    by (cases c) (simp_all add: demoPairsSwapped demoMeasurement_eq)
qed

lemma stored_entry:
  assumes "calculateCorrelation E S m it = Some m'" and "n < length (latticePairs E)"
  shows "correlations c m' ! (it * memoryStepLattice m + n)
         = calculateSusceptibility E S
             (snd (resolve E (fst (latticePairs E ! n)) (snd (latticePairs E ! n)) c))
           ! fst (resolve E (fst (latticePairs E ! n)) (snd (latticePairs E ! n)) c)"
proof -
  have loop: "storeLoop E (calculateSusceptibility E S) (latticePairs E) (it * memoryStepLattice m) m = Some m'"
    using assms(1) by (simp add: calculateCorrelation_def Let_def)
  show ?thesis
    using storeLoop_channel [OF loop, of c] assms(2) by (simp add: storedValue_def)
qed

text \<open>
  Claim C6 says that two pairs of sites that the symmetry map resolves to the same
  representative index and sign in every channel have identical stored values in every
  channel. The source stores the entry at the representative index of the bundle of the
  component that the symmetry map hands back, which need not be the component of the
  channel. On the lattice whose symmetry map sends the sites 1 and 3 to the index 1 with
  the sign 1, and for the site 3 exchanges X with the density component, the two pairs
  are related as the claim says, and the values stored for them in the channel X differ.
\<close>

theorem symmetry_closure_counterexample:
  "spec_symmetryRelated demoEnvSwapped (latticePairs demoEnvSwapped ! 1) (latticePairs demoEnvSwapped ! 3)
   \<and> calculateCorrelation demoEnvSwapped (demoAction 1) demoMeasurement 0 \<noteq> None
   \<and> correlations SpinX (the (calculateCorrelation demoEnvSwapped (demoAction 1) demoMeasurement 0)) ! 1
     = - (16 / (81 * pi\<^sup>2))
   \<and> correlations SpinX (the (calculateCorrelation demoEnvSwapped (demoAction 1) demoMeasurement 0)) ! 3
     = - (64 / (81 * pi\<^sup>2))
   \<and> correlations SpinX (the (calculateCorrelation demoEnvSwapped (demoAction 1) demoMeasurement 0)) ! 1
     \<noteq> correlations SpinX (the (calculateCorrelation demoEnvSwapped (demoAction 1) demoMeasurement 0)) ! 3"
proof -
  obtain m' where m': "calculateCorrelation demoEnvSwapped (demoAction 1) demoMeasurement 0 = Some m'"
    using demoSwapped_returns by blast
  have rel: "spec_symmetryRelated demoEnvSwapped (latticePairs demoEnvSwapped ! 1) (latticePairs demoEnvSwapped ! 3)"
    by (simp add: spec_symmetryRelated_def resolve_demoEnvSwapped resolveSign_demoEnvSwapped
          demoPairsSwapped)
  note s = demoSusceptibilitySwapped [of "demoAction 1"]
  have "correlations SpinX m' ! (0 * memoryStepLattice demoMeasurement + 1)
        = calculateSusceptibility demoEnvSwapped (demoAction 1)
             (snd (resolve demoEnvSwapped (fst (latticePairs demoEnvSwapped ! 1))
                     (snd (latticePairs demoEnvSwapped ! 1)) SpinX))
           ! fst (resolve demoEnvSwapped (fst (latticePairs demoEnvSwapped ! 1))
                     (snd (latticePairs demoEnvSwapped ! 1)) SpinX)"
    by (rule stored_entry [OF m']) (simp add: demoPairsSwapped)
  then have v1: "correlations SpinX m' ! 1 = - (16 / (81 * pi\<^sup>2))"
    by (simp add: s resolve_demoEnvSwapped demoPairsSwapped demoValues)
  have "correlations SpinX m' ! (0 * memoryStepLattice demoMeasurement + 3)
        = calculateSusceptibility demoEnvSwapped (demoAction 1)
             (snd (resolve demoEnvSwapped (fst (latticePairs demoEnvSwapped ! 3))
                     (snd (latticePairs demoEnvSwapped ! 3)) SpinX))
           ! fst (resolve demoEnvSwapped (fst (latticePairs demoEnvSwapped ! 3))
                     (snd (latticePairs demoEnvSwapped ! 3)) SpinX)"
    by (rule stored_entry [OF m']) (simp add: demoPairsSwapped)
  then have v3: "correlations SpinX m' ! 3 = - (64 / (81 * pi\<^sup>2))"
    by (simp add: s resolve_demoEnvSwapped demoPairsSwapped demoValues)
  have ne: "correlations SpinX m' ! 1 \<noteq> correlations SpinX m' ! 3"
    unfolding v1 v3 by (simp add: field_simps)
  show ?thesis
    using rel v1 v3 ne by (simp add: m')
qed

text \<open>
  Claim C6 as amended. The entry that a call of the callback stores for a pair of sites
  in a channel is the entry of the susceptibility at the representative index, in the
  bundle of the component, that the symmetry map returns for the pair and the channel;
  the sign that it returns is not used by any store. So two pairs that the symmetry map
  resolves, in a channel, to the same representative index and the same component have
  identical stored values in that channel; and two pairs that it resolves to the same
  representative index and sign in every channel, as the claim words it, have identical
  stored values in every channel when it also returns the same component for both.
\<close>

theorem symmetry_closure:
  assumes "calculateCorrelation E S m it = Some m'"
      and "n1 < length (latticePairs E)" and "n2 < length (latticePairs E)"
  shows "correlations c m' ! (it * memoryStepLattice m + n1)
         = calculateSusceptibility E S
             (snd (resolve E (fst (latticePairs E ! n1)) (snd (latticePairs E ! n1)) c))
           ! fst (resolve E (fst (latticePairs E ! n1)) (snd (latticePairs E ! n1)) c)
       \<and> (fst (resolve E (fst (latticePairs E ! n1)) (snd (latticePairs E ! n1)) c)
            = fst (resolve E (fst (latticePairs E ! n2)) (snd (latticePairs E ! n2)) c)
          \<and> snd (resolve E (fst (latticePairs E ! n1)) (snd (latticePairs E ! n1)) c)
            = snd (resolve E (fst (latticePairs E ! n2)) (snd (latticePairs E ! n2)) c)
          \<longrightarrow> correlations c m' ! (it * memoryStepLattice m + n1)
              = correlations c m' ! (it * memoryStepLattice m + n2))
       \<and> (spec_symmetryRelated E (latticePairs E ! n1) (latticePairs E ! n2)
          \<and> (\<forall>k. snd (resolve E (fst (latticePairs E ! n1)) (snd (latticePairs E ! n1)) k)
                 = snd (resolve E (fst (latticePairs E ! n2)) (snd (latticePairs E ! n2)) k))
          \<longrightarrow> (\<forall>k. correlations k m' ! (it * memoryStepLattice m + n1)
                   = correlations k m' ! (it * memoryStepLattice m + n2)))"
proof -
  note e1 = stored_entry [OF assms(1) assms(2)]
  note e2 = stored_entry [OF assms(1) assms(3)]
  have same: "fst (resolve E (fst (latticePairs E ! n1)) (snd (latticePairs E ! n1)) k)
            = fst (resolve E (fst (latticePairs E ! n2)) (snd (latticePairs E ! n2)) k)"
    if "spec_symmetryRelated E (latticePairs E ! n1) (latticePairs E ! n2)" for k
    using that by (cases k) (simp_all add: spec_symmetryRelated_def)
  have one: "correlations k m' ! (it * memoryStepLattice m + n1)
              = correlations k m' ! (it * memoryStepLattice m + n2)"
    if "fst (resolve E (fst (latticePairs E ! n1)) (snd (latticePairs E ! n1)) k)
            = fst (resolve E (fst (latticePairs E ! n2)) (snd (latticePairs E ! n2)) k)"
       "snd (resolve E (fst (latticePairs E ! n1)) (snd (latticePairs E ! n1)) k)
            = snd (resolve E (fst (latticePairs E ! n2)) (snd (latticePairs E ! n2)) k)" for k
    using e1 [of k] e2 [of k] that by simp
  show ?thesis
    using e1 [of c] one same by blast
qed

text \<open>
  The theorem on the lattice whose symmetry map identifies the sites 1 and 3 and leaves
  the components as they are, at the cutoff 1, where the susceptibility is not constant.
\<close>

theorem symmetry_closure_witness:
  "calculateCorrelation demoEnvFolded (demoAction 1) demoMeasurement 0 \<noteq> None
   \<and> latticePairs demoEnvFolded ! 1 = (0, 1) \<and> latticePairs demoEnvFolded ! 3 = (0, 3)
   \<and> spec_symmetryRelated demoEnvFolded (0, 1) (0, 3)
   \<and> (\<forall>k. snd (resolve demoEnvFolded 0 1 k) = snd (resolve demoEnvFolded 0 3 k))
   \<and> correlations SpinNone (the (calculateCorrelation demoEnvFolded (demoAction 1) demoMeasurement 0)) ! 1
     = - (64 / (81 * pi\<^sup>2))
   \<and> (\<forall>k. correlations k (the (calculateCorrelation demoEnvFolded (demoAction 1) demoMeasurement 0)) ! 1
          = correlations k (the (calculateCorrelation demoEnvFolded (demoAction 1) demoMeasurement 0)) ! 3)"
proof -
  have "\<exists>m'. calculateCorrelation demoEnvFolded (demoAction 1) demoMeasurement 0 = Some m'"
  proof (rule callback_returns)
    fix p c
    show "fst (resolve demoEnvFolded (fst p) (snd p) c)
          < length (calculateSusceptibility demoEnvFolded (demoAction 1)
                      (snd (resolve demoEnvFolded (fst p) (snd p) c)))"
      by (simp add: resolve_demoEnvFolded length_demoSusceptibility)
  next
    fix c
    show "0 * memoryStepLattice demoMeasurement + length (latticePairs demoEnvFolded)
          \<le> length (correlations c demoMeasurement)"
      by (cases c) (simp_all add: demoPairsFolded demoMeasurement_eq)
  qed
  then obtain m' where m': "calculateCorrelation demoEnvFolded (demoAction 1) demoMeasurement 0 = Some m'"
    by blast
  have n: "(1::nat) < length (latticePairs demoEnvFolded)" "(3::nat) < length (latticePairs demoEnvFolded)"
    by (simp_all add: demoPairsFolded)
  have p: "latticePairs demoEnvFolded ! 1 = (0, 1)" "latticePairs demoEnvFolded ! 3 = (0, 3)"
    by (simp_all add: demoPairsFolded)
  have rel: "spec_symmetryRelated demoEnvFolded (latticePairs demoEnvFolded ! 1) (latticePairs demoEnvFolded ! 3)"
    by (simp add: spec_symmetryRelated_def resolve_demoEnvFolded resolveSign_demoEnvFolded
          demoPairsFolded)
  have comp: "\<forall>k. snd (resolve demoEnvFolded (fst (latticePairs demoEnvFolded ! 1)) (snd (latticePairs demoEnvFolded ! 1)) k)
                 = snd (resolve demoEnvFolded (fst (latticePairs demoEnvFolded ! 3)) (snd (latticePairs demoEnvFolded ! 3)) k)"
    by (simp add: resolve_demoEnvFolded)
  note s = demoSusceptibilityFolded [of "demoAction 1"]
  note t = symmetry_closure [OF m' n, of SpinNone]
  from t have "correlations SpinNone m' ! (0 * memoryStepLattice demoMeasurement + 1)
         = calculateSusceptibility demoEnvFolded (demoAction 1)
             (snd (resolve demoEnvFolded (fst (latticePairs demoEnvFolded ! 1)) (snd (latticePairs demoEnvFolded ! 1)) SpinNone))
           ! fst (resolve demoEnvFolded (fst (latticePairs demoEnvFolded ! 1)) (snd (latticePairs demoEnvFolded ! 1)) SpinNone)"
    by blast
  then have v: "correlations SpinNone m' ! 1 = - (64 / (81 * pi\<^sup>2))"
    by (simp add: s demoPairsFolded resolve_demoEnvFolded demoValues)
  from t rel comp have "\<forall>k. correlations k m' ! (0 * memoryStepLattice demoMeasurement + 1)
                   = correlations k m' ! (0 * memoryStepLattice demoMeasurement + 3)"
    by blast
  then have a: "\<forall>k. correlations k m' ! 1 = correlations k m' ! 3"
    by simp
  show ?thesis
    using p rel comp v a by (simp add: m')
qed


subsection \<open>The calls on the output file\<close>

text \<open>
  The steps of \<^verbatim>\<open>_writeOutfileCorrelation\<close> one by one, and the function as a whole:
  which of its three errors it raises, and what it leaves in the file otherwise.
\<close>

lemma contents_putGroup [simp]: "contents (putGroup W g grp) = (contents W)(g \<mapsto> ObsGroup grp)"
  by (simp add: putGroup_def contents_def)

lemma groupOf_putGroup [simp]:
  "groupOf (putGroup W g grp) g' = (if g' = g then grp else groupOf W g')"
  by (simp add: groupOf_def)

lemma entriesOf_putGroup_same:
  "entriesOf (putGroup W g grp) g = (case dataLink grp of Some (DataGroup es) \<Rightarrow> es | _ \<Rightarrow> [])"
  by (simp add: entriesOf_def)

lemma fields_putGroup [simp]:
  "accessible (putGroup W g grp) = accessible W"
  "logged (putGroup W g grp) = logged W"
  "uninitialised (putGroup W g grp) = uninitialised W"
  "calculateCalls (putGroup W g grp) = calculateCalls W"
  "disk (putGroup W g grp) = Hdf5 ((contents W)(g \<mapsto> ObsGroup grp))"
  by (simp_all add: putGroup_def)

lemma putGroup_putGroup [simp]: "putGroup (putGroup W g a) g b = putGroup W g b"
  by (simp add: putGroup_def contents_def)

lemma putGroup_same:
  "disk W = Hdf5 f \<Longrightarrow> f g = Some (ObsGroup grp) \<Longrightarrow> putGroup W g grp = W"
  by (simp add: putGroup_def contents_def map_upd_triv)

lemma H5_putGroup [simp]:
  "H5Fis_hdf5 (putGroup W g grp)"
  "H5Fopen (putGroup W g grp) = (if accessible W then Some (putGroup W g grp) else None)"
  "H5Lexists (putGroup W g grp) g"
  "H5Gopen (putGroup W g grp) g = Some (putGroup W g grp)"
  by (simp_all add: H5Fis_hdf5_def H5Fopen_def H5Lexists_def H5Gopen_def)

lemma open_file_and_group:
  assumes "accessible W" and "contents W g \<noteq> Some RootOther"
  shows "andThen (orThrow (if H5Fis_hdf5 W then H5Fopen W else H5Fcreate W) e1)
           (\<lambda>W. andThen (orThrow (if H5Lexists W g then H5Gopen W g else H5Gcreate W g) e2) F)
         = F (putGroup W g (groupOf W g))"
proof (cases "disk W")
  case Absent
  then have "putGroup (W\<lparr>disk := Hdf5 Map.empty\<rparr>) g emptyGroup = putGroup W g (groupOf W g)"
    by (simp add: putGroup_def contents_def groupOf_def)
  with Absent assms show ?thesis
    by (simp add: andThen_def orThrow_def H5Fis_hdf5_def H5Fcreate_def H5Lexists_def H5Gcreate_def
          contents_def)
next
  case (NotHdf5 bs)
  then have "putGroup (W\<lparr>disk := Hdf5 Map.empty\<rparr>) g emptyGroup = putGroup W g (groupOf W g)"
    by (simp add: putGroup_def contents_def groupOf_def)
  with NotHdf5 assms show ?thesis
    by (simp add: andThen_def orThrow_def H5Fis_hdf5_def H5Fcreate_def H5Lexists_def H5Gcreate_def
          contents_def)
next
  case (Hdf5 f)
  show ?thesis
  proof (cases "f g")
    case None
    with Hdf5 assms show ?thesis
      by (simp add: andThen_def orThrow_def H5Fis_hdf5_def H5Fopen_def H5Lexists_def H5Gcreate_def
            contents_def groupOf_def)
  next
    case (Some node)
    with Hdf5 assms obtain grp where grp: "f g = Some (ObsGroup grp)"
      by (cases node) (simp_all add: contents_def)
    with Hdf5 have "putGroup W g (groupOf W g) = W"
      by (simp add: putGroup_same groupOf_def contents_def)
    with Hdf5 grp assms show ?thesis
      by (simp add: andThen_def orThrow_def H5Fis_hdf5_def H5Fopen_def H5Lexists_def H5Gopen_def
            contents_def)
  qed
qed

lemma write_meta:
  assumes "accessible W"
  shows "(if metaLink grp = None
          then writeOutfileHeader E m (putGroup W g grp) g else Inr (putGroup W g grp))
         = Inr (putGroup W g (grp\<lparr>metaLink :=
                 Some (case metaLink grp of None \<Rightarrow> geometry E | Some mt \<Rightarrow> mt)\<rparr>))"
proof (cases "metaLink grp")
  case None
  with assms show ?thesis
    by (simp add: writeOutfileHeader_def andThen_def orThrow_def)
next
  case (Some mt)
  then have eq: "grp\<lparr>metaLink := Some mt\<rparr> = grp" by simp
  show ?thesis by (simp add: Some eq)
qed

lemma open_data:
  assumes "dataLink grp \<noteq> Some DataOther"
  shows "(if H5Lexists_data (putGroup W g grp) g then H5Gopen_data (putGroup W g grp) g
          else H5Gcreate_data (putGroup W g grp) g)
         = Some (putGroup W g (grp\<lparr>dataLink :=
                   Some (DataGroup (case dataLink grp of Some (DataGroup es) \<Rightarrow> es | _ \<Rightarrow> []))\<rparr>))"
proof (cases "dataLink grp")
  case None
  then show ?thesis
    by (simp add: H5Lexists_data_def H5Gcreate_data_def)
next
  case (Some node)
  with assms obtain es where es: "dataLink grp = Some (DataGroup es)"
    by (cases node) simp_all
  then have eq: "grp\<lparr>dataLink := Some (DataGroup es)\<rparr> = grp" by simp
  show ?thesis
    by (simp add: es eq H5Lexists_data_def H5Gopen_data_def)
qed


lemma andThen_Inr [simp]: "andThen (Inr a) f = f a"
  by (simp add: andThen_def)

lemma andThen_Inl [simp]: "andThen (Inl e) f = Inl e"
  by (simp add: andThen_def)

lemma orThrow_simps [simp]: "orThrow None e = Inl e" "orThrow (Some a) e = Inr a"
  by (simp_all add: orThrow_def)

lemma open_file_fails:
  assumes "\<not> accessible W"
  shows "(if H5Fis_hdf5 W then H5Fopen W else H5Fcreate W) = None"
  using assms by (cases "disk W") (simp_all add: H5Fis_hdf5_def H5Fopen_def H5Fcreate_def)

lemma open_group_fails:
  assumes "accessible W" and "contents W g = Some RootOther"
  shows "andThen (orThrow (if H5Fis_hdf5 W then H5Fopen W else H5Fcreate W) e1)
           (\<lambda>W. andThen (orThrow (if H5Lexists W g then H5Gopen W g else H5Gcreate W g) e2) F)
         = Inl e2"
proof (cases "disk W")
  case (Hdf5 f)
  with assms show ?thesis
    by (simp add: H5Fis_hdf5_def H5Fopen_def H5Lexists_def H5Gopen_def)
qed (use assms in \<open>simp_all add: contents_def\<close>)

lemma open_data_fails:
  assumes "dataLink grp = Some DataOther"
  shows "(if H5Lexists_data (putGroup W g grp) g then H5Gopen_data (putGroup W g grp) g
          else H5Gcreate_data (putGroup W g grp) g) = None"
  using assms by (simp add: H5Lexists_data_def H5Gopen_data_def)

lemma messages_differ:
  "fileMessage m \<noteq> groupMessage g" "groupMessage g \<noteq> fileMessage m"
  "fileMessage m \<noteq> dataMessage g" "dataMessage g \<noteq> fileMessage m"
  "fileMessage m \<noteq> headerFileMessage m" "headerFileMessage m \<noteq> fileMessage m"
  "headerFileMessage m \<noteq> groupMessage g" "groupMessage g \<noteq> headerFileMessage m"
  "headerFileMessage m \<noteq> dataMessage g" "dataMessage g \<noteq> headerFileMessage m"
  by (simp_all add: fileMessage_def groupMessage_def dataMessage_def headerFileMessage_def)

lemma writeOutfileCorrelation_eq:
  "writeOutfileCorrelation E m W g corr =
    (if \<not> accessible W then Inl (IOError (fileMessage m))
     else if contents W g = Some RootOther then Inl (IOError (groupMessage g))
     else if dataLink (groupOf W g) = Some DataOther then Inl (IOError (dataMessage g))
     else (case scanDatasets (currentCutoff m) (uninitialised W) (entriesOf W g) 0 of
             None \<Rightarrow> Inr ((prepared E W g)\<lparr>logged := logged W @ [WarnDuplicate (currentCutoff m)]\<rparr>)
           | Some datasetId \<Rightarrow>
               Inr (createMeasurement (prepared E W g) g (''measurement_'' @ to_string datasetId)
                      (currentCutoff m) (length (getBasis E), length (getRangeOfBasis E 0)) corr)))"
proof (cases "accessible W")
  case False
  then show ?thesis
    by (simp add: writeOutfileCorrelation_def open_file_fails fileMessage_def)
next
  case acc: True
  show ?thesis
  proof (cases "contents W g = Some RootOther")
    case True
    with acc show ?thesis
      unfolding writeOutfileCorrelation_def by (simp add: open_group_fails groupMessage_def)
  next
    case grp: False
    show ?thesis
    proof (cases "dataLink (groupOf W g) = Some DataOther")
      case True
      with acc grp show ?thesis
        unfolding writeOutfileCorrelation_def
        by (simp add: open_file_and_group write_meta open_data_fails dataMessage_def)
    next
      case False
      have es: "entriesOf W g = (case dataLink (groupOf W g) of Some (DataGroup es) \<Rightarrow> es | _ \<Rightarrow> [])"
        by (simp add: entriesOf_def)
      from acc grp False show ?thesis
        unfolding writeOutfileCorrelation_def
        by (simp add: open_file_and_group write_meta open_data entriesOf_putGroup_same
              prepared_def es [symmetric] split: option.split)
    qed
  qed
qed


lemma scanDatasets_None_iff:
  "scanDatasets cur u es n = None \<longleftrightarrow> (\<exists>e \<in> set es. duplicateOf cur u (snd e))"
proof (induction es arbitrary: n)
  case Nil
  then show ?case by simp
next
  case (Cons e es)
  obtain name x where e: "e = (name, x)" by (cases e)
  show ?case
    using Cons.IH by (cases x) (simp_all add: e Let_def)
qed

lemma scanDatasets_append:
  "scanDatasets cur u es n = Some k \<Longrightarrow>
   scanDatasets cur u (es @ [(name, MeasurementGroup (Some c) d)]) n
   = (if c = cur then None else Some (Suc k))"
proof (induction es arbitrary: n)
  case Nil
  then show ?case by (simp add: Let_def)
next
  case (Cons e es)
  obtain nm x where e: "e = (nm, x)" by (cases e)
  show ?case
    using Cons by (cases x) (auto simp: e Let_def split: if_splits)
qed

lemma entriesOf_nonempty:
  assumes "e \<in> set (entriesOf W g)"
  shows "contents W g \<noteq> Some RootOther \<and> dataLink (groupOf W g) \<noteq> Some DataOther
         \<and> dataLink (groupOf W g) = Some (DataGroup (entriesOf W g))
         \<and> contents W g = Some (ObsGroup (groupOf W g))
         \<and> disk W = Hdf5 (contents W)"
  using assms
  by (auto simp: entriesOf_def groupOf_def contents_def emptyGroup_def
           split: option.splits rootNode.splits dataNode.splits fileState.splits)

lemma prepared_fields [simp]:
  "accessible (prepared E W g) = accessible W"
  "logged (prepared E W g) = logged W"
  "uninitialised (prepared E W g) = uninitialised W"
  "calculateCalls (prepared E W g) = calculateCalls W"
  by (simp_all add: prepared_def)

lemma contents_prepared_other: "g' \<noteq> g \<Longrightarrow> contents (prepared E W g) g' = contents W g'"
  by (simp add: prepared_def)

lemma groupOf_prepared_other: "g' \<noteq> g \<Longrightarrow> groupOf (prepared E W g) g' = groupOf W g'"
  by (simp add: prepared_def)

lemma groupOf_prepared:
  "groupOf (prepared E W g) g = (groupOf W g)
       \<lparr> metaLink := Some (case metaLink (groupOf W g) of None \<Rightarrow> geometry E | Some mt \<Rightarrow> mt),
         dataLink := Some (DataGroup (entriesOf W g)) \<rparr>"
  by (simp add: prepared_def)

lemma entriesOf_prepared [simp]: "entriesOf (prepared E W g) g = entriesOf W g"
  by (simp add: entriesOf_def groupOf_prepared)

lemma entriesOf_prepared_other: "g' \<noteq> g \<Longrightarrow> entriesOf (prepared E W g) g' = entriesOf W g'"
  by (simp add: entriesOf_def groupOf_prepared_other)

lemma prepared_same:
  assumes "disk W = Hdf5 (contents W)" and "contents W g = Some (ObsGroup (groupOf W g))"
      and "metaLink (groupOf W g) \<noteq> None"
      and "dataLink (groupOf W g) = Some (DataGroup (entriesOf W g))"
  shows "prepared E W g = W"
proof -
  from assms(3) obtain mt where mt: "metaLink (groupOf W g) = Some mt" by auto
  have "(groupOf W g)\<lparr>metaLink := Some mt, dataLink := Some (DataGroup (entriesOf W g))\<rparr> = groupOf W g"
    using mt assms(4) by simp
  then show ?thesis
    using assms(1,2) mt by (simp add: prepared_def putGroup_same)
qed

lemma duplicate_found:
  assumes "accessible W"
      and "(name, MeasurementGroup (Some (currentCutoff m)) d) \<in> set (entriesOf W g)"
  shows "writeOutfileCorrelation E m W g corr
           = Inr ((prepared E W g)\<lparr>logged := logged W @ [WarnDuplicate (currentCutoff m)]\<rparr>)
       \<and> entriesOf (prepared E W g) g = entriesOf W g
       \<and> (\<forall>g'. g' \<noteq> g \<longrightarrow> contents (prepared E W g) g' = contents W g')
       \<and> (metaLink (groupOf W g) \<noteq> None \<longrightarrow> prepared E W g = W)"
proof -
  note e = entriesOf_nonempty [OF assms(2)]
  have "\<exists>e \<in> set (entriesOf W g). duplicateOf (currentCutoff m) (uninitialised W) (snd e)"
    using assms(2) by force
  then have "scanDatasets (currentCutoff m) (uninitialised W) (entriesOf W g) 0 = None"
    by (simp add: scanDatasets_None_iff)
  then have "writeOutfileCorrelation E m W g corr
           = Inr ((prepared E W g)\<lparr>logged := logged W @ [WarnDuplicate (currentCutoff m)]\<rparr>)"
    using assms(1) e by (simp add: writeOutfileCorrelation_eq)
  moreover have "metaLink (groupOf W g) \<noteq> None \<longrightarrow> prepared E W g = W"
    using e by (simp add: prepared_same)
  ultimately show ?thesis
    by (simp add: contents_prepared_other)
qed


lemma logged_update_accessors [simp]:
  "contents (W\<lparr>logged := l\<rparr>) = contents W"
  "groupOf (W\<lparr>logged := l\<rparr>) g = groupOf W g"
  "entriesOf (W\<lparr>logged := l\<rparr>) g = entriesOf W g"
  "putGroup (W\<lparr>logged := l\<rparr>) g grp = (putGroup W g grp)\<lparr>logged := l\<rparr>"
  by (simp_all add: contents_def groupOf_def entriesOf_def putGroup_def)

lemma calls_update_accessors [simp]:
  "contents (W\<lparr>calculateCalls := n\<rparr>) = contents W"
  "groupOf (W\<lparr>calculateCalls := n\<rparr>) g = groupOf W g"
  "entriesOf (W\<lparr>calculateCalls := n\<rparr>) g = entriesOf W g"
  "putGroup (W\<lparr>calculateCalls := n\<rparr>) g grp = (putGroup W g grp)\<lparr>calculateCalls := n\<rparr>"
  by (simp_all add: contents_def groupOf_def entriesOf_def putGroup_def)

lemma entriesOf_putGroup [simp]:
  "entriesOf (putGroup W g grp) g' =
     (if g' = g then (case dataLink grp of Some (DataGroup es) \<Rightarrow> es | _ \<Rightarrow> []) else entriesOf W g')"
  by (simp add: entriesOf_def)

lemma freshWorld_accessors [simp]:
  "contents freshWorld = Map.empty" "groupOf freshWorld g = emptyGroup" "entriesOf freshWorld g = []"
  "accessible freshWorld" "logged freshWorld = []"
  by (simp_all add: freshWorld_def contents_def groupOf_def entriesOf_def emptyGroup_def)

lemma to_string_digits [simp]: "to_string 0 = ''0''" "to_string (Suc 0) = ''1''"
  by (simp_all add: to_string.simps)

lemma dedup_scenario:
  "map_sum id (\<lambda>W. (entriesOf W g, logged W))
     (andThen (writeOutfileCorrelation E (m\<lparr>currentCutoff := 1\<rparr>) freshWorld g corr1) (\<lambda>W.
      andThen (writeOutfileCorrelation E (m\<lparr>currentCutoff := 1\<rparr>) W g corr2) (\<lambda>W.
               writeOutfileCorrelation E (m\<lparr>currentCutoff := 1 / 2\<rparr>) W g corr3)))
   = Inr ([(''measurement_0'', MeasurementGroup (Some 1)
              ((length (getBasis E), length (getRangeOfBasis E 0)),
               take (length (getBasis E) * length (getRangeOfBasis E 0)) corr1)),
           (''measurement_1'', MeasurementGroup (Some (1 / 2))
              ((length (getBasis E), length (getRangeOfBasis E 0)),
               take (length (getBasis E) * length (getRangeOfBasis E 0)) corr3))],
          [WarnDuplicate 1])"
  by (simp add: writeOutfileCorrelation_eq prepared_def createMeasurement_def emptyGroup_def Let_def)

subsection \<open>C5: a snapshot at a cutoff that is already stored\<close>

text \<open>
  Claim C5. When the data group of the observable group holds an entry whose cutoff
  attribute equals the current cutoff, the write raises nothing, appends exactly one
  warning to the log and leaves the entries of the data group, and every other object
  of the file, as they are; in a group that has its \<^verbatim>\<open>meta\<close> link, as every group has
  that this function wrote to, the file is not changed at all. Consequently three
  writes into one group of a new file, at the cutoffs 1, 1 and 1/2, leave exactly the
  two snapshots \<^verbatim>\<open>measurement_0\<close> at 1 and \<^verbatim>\<open>measurement_1\<close> at 1/2 and exactly one
  warning.
\<close>

theorem duplicate_snapshot_discarded:
  "(accessible W \<and> (name, MeasurementGroup (Some (currentCutoff m)) d) \<in> set (entriesOf W g) \<longrightarrow>
      writeOutfileCorrelation E m W g corr
        = Inr ((prepared E W g)\<lparr>logged := logged W @ [WarnDuplicate (currentCutoff m)]\<rparr>)
      \<and> entriesOf (prepared E W g) g = entriesOf W g
      \<and> (\<forall>g'. g' \<noteq> g \<longrightarrow> contents (prepared E W g) g' = contents W g')
      \<and> (metaLink (groupOf W g) \<noteq> None \<longrightarrow> prepared E W g = W))
   \<and> map_sum id (\<lambda>W. (entriesOf W g, logged W))
       (andThen (writeOutfileCorrelation E (m\<lparr>currentCutoff := 1\<rparr>) freshWorld g corr1) (\<lambda>W.
        andThen (writeOutfileCorrelation E (m\<lparr>currentCutoff := 1\<rparr>) W g corr2) (\<lambda>W.
                 writeOutfileCorrelation E (m\<lparr>currentCutoff := 1 / 2\<rparr>) W g corr3)))
     = Inr ([(''measurement_0'', MeasurementGroup (Some 1)
                ((length (getBasis E), length (getRangeOfBasis E 0)),
                 take (length (getBasis E) * length (getRangeOfBasis E 0)) corr1)),
             (''measurement_1'', MeasurementGroup (Some (1 / 2))
                ((length (getBasis E), length (getRangeOfBasis E 0)),
                 take (length (getBasis E) * length (getRangeOfBasis E 0)) corr3))],
            [WarnDuplicate 1])"
  using duplicate_found [of W name m d g E corr] dedup_scenario [of g E m corr1 corr2 corr3]
  by blast

text \<open>The first part of the theorem at a file that holds a snapshot at the cutoff 1.\<close>

theorem duplicate_snapshot_discarded_witness:
  "accessible demoStored
   \<and> (''measurement_0'', MeasurementGroup (Some (currentCutoff (demoMeasurement\<lparr>currentCutoff := 1\<rparr>))) ((1, 4), [7, 7, 7, 7]))
       \<in> set (entriesOf demoStored ''XYZCorDD'')
   \<and> metaLink (groupOf demoStored ''XYZCorDD'') \<noteq> None
   \<and> writeOutfileCorrelation demoEnv (demoMeasurement\<lparr>currentCutoff := 1\<rparr>) demoStored ''XYZCorDD'' [1, 2, 3, 4]
       = Inr (demoStored\<lparr>logged := [WarnDuplicate 1]\<rparr>)"
proof -
  have a: "accessible demoStored"
    by (simp add: demoStored_def)
  have b: "(''measurement_0'', MeasurementGroup (Some (currentCutoff (demoMeasurement\<lparr>currentCutoff := 1\<rparr>))) ((1, 4), [7, 7, 7, 7]))
       \<in> set (entriesOf demoStored ''XYZCorDD'')"
    by (simp add: demoStored_def)
  have c: "metaLink (groupOf demoStored ''XYZCorDD'') \<noteq> None"
    by (simp add: demoStored_def)
  have l: "logged demoStored = []"
    by (simp add: demoStored_def)
  from duplicate_snapshot_discarded [of demoStored "''measurement_0''" "demoMeasurement\<lparr>currentCutoff := 1\<rparr>" "((1, 4), [7, 7, 7, 7])"
      "''XYZCorDD''" demoEnv "[1, 2, 3, 4]"] a b c
  have "writeOutfileCorrelation demoEnv (demoMeasurement\<lparr>currentCutoff := 1\<rparr>) demoStored ''XYZCorDD'' [1, 2, 3, 4]
        = Inr ((prepared demoEnv demoStored ''XYZCorDD'')
                \<lparr>logged := logged demoStored @ [WarnDuplicate (currentCutoff (demoMeasurement\<lparr>currentCutoff := 1\<rparr>))]\<rparr>)"
    and "prepared demoEnv demoStored ''XYZCorDD'' = demoStored"
    by blast+
  then show ?thesis
    using a b c l by simp
qed


lemma createMeasurement_fields [simp]:
  "accessible (createMeasurement W g nm c sh corr) = accessible W"
  "logged (createMeasurement W g nm c sh corr) = logged W"
  "uninitialised (createMeasurement W g nm c sh corr) = uninitialised W"
  "calculateCalls (createMeasurement W g nm c sh corr) = calculateCalls W"
  by (simp_all add: createMeasurement_def)

lemma groupOf_createMeasurement_other:
  "g' \<noteq> g \<Longrightarrow> groupOf (createMeasurement W g nm c sh corr) g' = groupOf W g'"
  by (simp add: createMeasurement_def)

lemma metaLink_createMeasurement [simp]:
  "metaLink (groupOf (createMeasurement W g nm c sh corr) g) = metaLink (groupOf W g)"
  by (simp add: createMeasurement_def)

lemma write_success:
  assumes "writeOutfileCorrelation E m W g corr = Inr W'"
  shows "accessible W"
    and "contents W g \<noteq> Some RootOther"
    and "dataLink (groupOf W g) \<noteq> Some DataOther"
    and "W' = (case scanDatasets (currentCutoff m) (uninitialised W) (entriesOf W g) 0 of
                 None \<Rightarrow> (prepared E W g)\<lparr>logged := logged W @ [WarnDuplicate (currentCutoff m)]\<rparr>
               | Some datasetId \<Rightarrow>
                   createMeasurement (prepared E W g) g (''measurement_'' @ to_string datasetId)
                     (currentCutoff m) (length (getBasis E), length (getRangeOfBasis E 0)) corr)"
proof -
  show a: "accessible W"
    using assms by (cases "accessible W") (simp_all add: writeOutfileCorrelation_eq)
  show b: "contents W g \<noteq> Some RootOther"
    using assms a by (cases "contents W g = Some RootOther") (simp_all add: writeOutfileCorrelation_eq)
  show c: "dataLink (groupOf W g) \<noteq> Some DataOther"
    using assms a b
    by (cases "dataLink (groupOf W g) = Some DataOther") (simp_all add: writeOutfileCorrelation_eq)
  show "W' = (case scanDatasets (currentCutoff m) (uninitialised W) (entriesOf W g) 0 of
                 None \<Rightarrow> (prepared E W g)\<lparr>logged := logged W @ [WarnDuplicate (currentCutoff m)]\<rparr>
               | Some datasetId \<Rightarrow>
                   createMeasurement (prepared E W g) g (''measurement_'' @ to_string datasetId)
                     (currentCutoff m) (length (getBasis E), length (getRangeOfBasis E 0)) corr)"
    using assms a b c
    by (cases "scanDatasets (currentCutoff m) (uninitialised W) (entriesOf W g) 0")
       (simp_all add: writeOutfileCorrelation_eq)
qed

lemma write_meta_result:
  assumes "writeOutfileCorrelation E m W g corr = Inr W'"
  shows "metaLink (groupOf W' g)
         = Some (case metaLink (groupOf W g) of None \<Rightarrow> geometry E | Some mt \<Rightarrow> mt)"
    and "g' \<noteq> g \<Longrightarrow> groupOf W' g' = groupOf W g'"
  using write_success(4) [OF assms]
  by (simp_all add: groupOf_prepared groupOf_prepared_other groupOf_createMeasurement_other
        split: option.splits)

lemma header_skips:
  assumes "H5Fopen W \<noteq> None" and "H5Gopen W g \<noteq> None"
  shows "writeOutfileHeader E m W g =
           (if metaLink (groupOf W g) = None
            then Inr (putGroup W g ((groupOf W g)\<lparr>metaLink := Some (geometry E)\<rparr>))
            else Inr (W\<lparr>logged := logged W @ [WarnMetaExists (outfile m) g]\<rparr>))"
proof -
  from assms(1) have "H5Fopen W = Some W"
    by (auto simp: H5Fopen_def split: fileState.splits if_splits)
  moreover from assms(2) have "H5Gopen W g = Some W"
    by (auto simp: H5Gopen_def split: option.splits rootNode.splits)
  ultimately show ?thesis
    by (simp add: writeOutfileHeader_def)
qed

lemma meta_scenario:
  "map_sum id (\<lambda>W. (metaLink (groupOf W g), map fst (entriesOf W g)))
     (andThen (writeOutfileCorrelation E1 (m\<lparr>currentCutoff := 1\<rparr>) freshWorld g corr1) (\<lambda>W.
               writeOutfileCorrelation E2 (m\<lparr>currentCutoff := 1 / 2\<rparr>) W g corr2))
   = Inr (Some (geometry E1), [''measurement_0'', ''measurement_1''])"
  by (simp add: writeOutfileCorrelation_eq prepared_def createMeasurement_def emptyGroup_def Let_def)

lemma open_or_create_fails_iff:
  "(if H5Fis_hdf5 W then H5Fopen W else H5Fcreate W) = None \<longleftrightarrow> \<not> accessible W"
  by (cases "disk W") (simp_all add: H5Fis_hdf5_def H5Fopen_def H5Fcreate_def)

lemma file_error_iff:
  "writeOutfileCorrelation E m W g corr = Inl (IOError (fileMessage m)) \<longleftrightarrow> \<not> accessible W"
  by (simp add: writeOutfileCorrelation_eq messages_differ split: option.splits)

lemma header_error_never:
  "writeOutfileCorrelation E m W g corr \<noteq> Inl (IOError (headerFileMessage m))"
  by (simp add: writeOutfileCorrelation_eq messages_differ split: option.splits)

lemma empty_written:
  assumes "contents W = Map.empty" and "accessible W"
  shows "writeOutfileCorrelation E m W g corr =
     Inr (W\<lparr>disk := Hdf5 [g \<mapsto> ObsGroup
            \<lparr> metaLink = Some (geometry E),
              dataLink = Some (DataGroup
                [(''measurement_0'', MeasurementGroup (Some (currentCutoff m))
                    ((length (getBasis E), length (getRangeOfBasis E 0)),
                     take (length (getBasis E) * length (getRangeOfBasis E 0)) corr))]) \<rparr>]\<rparr>)"
proof -
  note c = assms(1)
  then have g: "groupOf W g = emptyGroup" "entriesOf W g = []"
    by (simp_all add: groupOf_def entriesOf_def emptyGroup_def)
  have "writeOutfileCorrelation E m W g corr =
     Inr (putGroup W g
            \<lparr> metaLink = Some (geometry E),
              dataLink = Some (DataGroup
                [(''measurement_0'', MeasurementGroup (Some (currentCutoff m))
                    ((length (getBasis E), length (getRangeOfBasis E 0)),
                     take (length (getBasis E) * length (getRangeOfBasis E 0)) corr))]) \<rparr>)"
    using assms(2) c g
    by (simp add: writeOutfileCorrelation_eq prepared_def createMeasurement_def emptyGroup_def)
  then show ?thesis
    by (simp add: putGroup_def c)
qed

lemma not_hdf5_written:
  assumes "disk W = NotHdf5 bs" and "accessible W"
  shows "writeOutfileCorrelation E m W g corr =
     Inr (W\<lparr>disk := Hdf5 [g \<mapsto> ObsGroup
            \<lparr> metaLink = Some (geometry E),
              dataLink = Some (DataGroup
                [(''measurement_0'', MeasurementGroup (Some (currentCutoff m))
                    ((length (getBasis E), length (getRangeOfBasis E 0)),
                     take (length (getBasis E) * length (getRangeOfBasis E 0)) corr))]) \<rparr>]\<rparr>)"
  using assms by (intro empty_written) (simp_all add: contents_def)

lemma not_hdf5_steps:
  assumes "disk W = NotHdf5 bs" and "accessible W"
  shows "\<not> H5Fis_hdf5 W"
    and "H5Fcreate W = Some (W\<lparr>disk := Hdf5 Map.empty\<rparr>)"
    and "(if H5Lexists W g then H5Gopen W g else H5Gcreate W g) = None"
    and "(if H5Lexists (W\<lparr>disk := Hdf5 Map.empty\<rparr>) g then H5Gopen (W\<lparr>disk := Hdf5 Map.empty\<rparr>) g
          else H5Gcreate (W\<lparr>disk := Hdf5 Map.empty\<rparr>) g)
         = Some (W\<lparr>disk := Hdf5 [g \<mapsto> ObsGroup emptyGroup]\<rparr>)"
  using assms
  by (simp_all add: H5Fis_hdf5_def H5Fcreate_def H5Lexists_def H5Gopen_def H5Gcreate_def
        contents_def putGroup_def)

lemma truncated_same:
  assumes "disk W = NotHdf5 bs"
  shows "writeOutfileCorrelation E m W g corr
         = writeOutfileCorrelation E m (W\<lparr>disk := Absent\<rparr>) g corr"
proof (cases "accessible W")
  case True
  have "writeOutfileCorrelation E m (W\<lparr>disk := Absent\<rparr>) g corr =
     Inr (W\<lparr>disk := Absent\<rparr>\<lparr>disk := Hdf5 [g \<mapsto> ObsGroup
            \<lparr> metaLink = Some (geometry E),
              dataLink = Some (DataGroup
                [(''measurement_0'', MeasurementGroup (Some (currentCutoff m))
                    ((length (getBasis E), length (getRangeOfBasis E 0)),
                     take (length (getBasis E) * length (getRangeOfBasis E 0)) corr))]) \<rparr>]\<rparr>)"
    using True by (intro empty_written) (simp_all add: contents_def)
  then show ?thesis
    using not_hdf5_written [OF assms True, of E m g corr] by simp
next
  case False
  then show ?thesis
    by (simp add: writeOutfileCorrelation_eq)
qed

lemma demoShape: "length (getBasis demoEnv) = 1" "length (getRangeOfBasis demoEnv 0) = 4"
  by (simp_all add: demoEnv_def getRangeOfBasis_def)

subsection \<open>C8: the geometry is written once\<close>

text \<open>
  Claim C8. After a write of a snapshot that did not raise, the \<^verbatim>\<open>meta\<close> link of the
  observable group holds the geometry it held before when there was one, and the
  geometry of the lattice when there was none; the \<^verbatim>\<open>meta\<close> links of the other groups
  are as before. \<^verbatim>\<open>_writeOutfileHeader\<close> itself writes the geometry when the link is
  absent and otherwise only logs a warning. Two snapshots at the cutoffs 1 and 1/2 into
  one group of a new file leave one \<^verbatim>\<open>meta\<close> group, the one of the first write, even
  when the lattice of the second write is another one.
\<close>

theorem metadata_written_once:
  "(writeOutfileCorrelation E m W g corr = Inr W' \<longrightarrow>
      metaLink (groupOf W' g)
        = Some (case metaLink (groupOf W g) of None \<Rightarrow> geometry E | Some mt \<Rightarrow> mt)
      \<and> (\<forall>g'. g' \<noteq> g \<longrightarrow> metaLink (groupOf W' g') = metaLink (groupOf W g')))
   \<and> (H5Fopen W \<noteq> None \<and> H5Gopen W g \<noteq> None \<longrightarrow>
        writeOutfileHeader E m W g =
          (if metaLink (groupOf W g) = None
           then Inr (putGroup W g ((groupOf W g)\<lparr>metaLink := Some (geometry E)\<rparr>))
           else Inr (W\<lparr>logged := logged W @ [WarnMetaExists (outfile m) g]\<rparr>)))
   \<and> map_sum id (\<lambda>W. (metaLink (groupOf W g), map fst (entriesOf W g)))
        (andThen (writeOutfileCorrelation E1 (m\<lparr>currentCutoff := 1\<rparr>) freshWorld g corr1) (\<lambda>W.
                  writeOutfileCorrelation E2 (m\<lparr>currentCutoff := 1 / 2\<rparr>) W g corr2))
      = Inr (Some (geometry E1), [''measurement_0'', ''measurement_1''])"
  using write_meta_result [of E m W g corr W'] header_skips [of W g E m]
    meta_scenario [of g E1 m corr1 E2 corr2]
  by simp

text \<open>
  The theorem at the file that holds a snapshot at the cutoff 1, for a write at the
  cutoff 1/2 with a lattice whose geometry differs.
\<close>

theorem metadata_written_once_witness:
  "writeOutfileCorrelation (demoEnv\<lparr>bravaisLattice := []\<rparr>) (demoMeasurement\<lparr>currentCutoff := 1 / 2\<rparr>)
       demoStored ''XYZCorDD'' [1, 2, 3, 4]
     = Inr (putGroup freshWorld ''XYZCorDD''
             \<lparr> metaLink = Some (geometry demoEnv),
               dataLink = Some (DataGroup
                 [(''measurement_0'', MeasurementGroup (Some 1) ((1, 4), [7, 7, 7, 7])),
                  (''measurement_1'', MeasurementGroup (Some (1 / 2)) ((1, 4), [1, 2, 3, 4]))]) \<rparr>)
   \<and> metaLink (groupOf demoStored ''XYZCorDD'') = Some (geometry demoEnv)
   \<and> geometry (demoEnv\<lparr>bravaisLattice := []\<rparr>) \<noteq> geometry demoEnv
   \<and> H5Fopen demoStored \<noteq> None \<and> H5Gopen demoStored ''XYZCorDD'' \<noteq> None
   \<and> writeOutfileHeader (demoEnv\<lparr>bravaisLattice := []\<rparr>) demoMeasurement demoStored ''XYZCorDD''
       = Inr (demoStored\<lparr>logged := [WarnMetaExists ''obs.h5'' ''XYZCorDD'']\<rparr>)"
proof -
  let ?E = "demoEnv\<lparr>bravaisLattice := []\<rparr>"
  let ?m = "demoMeasurement\<lparr>currentCutoff := 1 / 2\<rparr>"
  let ?W' = "putGroup freshWorld ''XYZCorDD''
             \<lparr> metaLink = Some (geometry demoEnv),
               dataLink = Some (DataGroup
                 [(''measurement_0'', MeasurementGroup (Some 1) ((1, 4), [7, 7, 7, 7])),
                  (''measurement_1'', MeasurementGroup (Some (1 / 2)) ((1, 4), [1, 2, 3, 4]))]) \<rparr>"
  have shape: "length (getBasis ?E) = 1" "length (getRangeOfBasis ?E 0) = 4"
    by (simp_all add: demoEnv_def getRangeOfBasis_def)
  have w: "writeOutfileCorrelation ?E ?m demoStored ''XYZCorDD'' [1, 2, 3, 4] = Inr ?W'"
    by (simp add: writeOutfileCorrelation_eq demoStored_def prepared_def createMeasurement_def
          Let_def shape demoShape)
  have o: "H5Fopen demoStored \<noteq> None \<and> H5Gopen demoStored ''XYZCorDD'' \<noteq> None"
    by (simp add: demoStored_def)
  have ne: "geometry ?E \<noteq> geometry demoEnv"
    by (simp add: geometry_def demoEnv_def)
  note t = metadata_written_once [of ?E ?m demoStored "''XYZCorDD''" "[1, 2, 3, 4]" ?W']
  from t w have m: "metaLink (groupOf ?W' ''XYZCorDD'')
        = Some (case metaLink (groupOf demoStored ''XYZCorDD'') of None \<Rightarrow> geometry ?E | Some mt \<Rightarrow> mt)"
    by blast
  then have m': "metaLink (groupOf demoStored ''XYZCorDD'') = Some (geometry demoEnv)"
    by (simp add: demoStored_def)
  from metadata_written_once [of ?E demoMeasurement demoStored "''XYZCorDD''"] o
  have "writeOutfileHeader ?E demoMeasurement demoStored ''XYZCorDD'' =
          (if metaLink (groupOf demoStored ''XYZCorDD'') = None
           then Inr (putGroup demoStored ''XYZCorDD''
                      ((groupOf demoStored ''XYZCorDD'')\<lparr>metaLink := Some (geometry ?E)\<rparr>))
           else Inr (demoStored\<lparr>logged := logged demoStored @ [WarnMetaExists (outfile demoMeasurement) ''XYZCorDD'']\<rparr>))"
    by blast
  then have h: "writeOutfileHeader ?E demoMeasurement demoStored ''XYZCorDD''
       = Inr (demoStored\<lparr>logged := [WarnMetaExists ''obs.h5'' ''XYZCorDD'']\<rparr>)"
    by (simp add: m' demoMeasurement_eq) (simp add: demoStored_def)
  show ?thesis
    using w m' ne o h by simp
qed

subsection \<open>C10: a file that is not an HDF5 file\<close>

text \<open>
  Claim C10. When the path holds a file that is not an HDF5 file and can be written,
  \<^verbatim>\<open>H5Fis_hdf5\<close> is not positive, so the step of line 319 is the call of
  \<^verbatim>\<open>H5Fcreate\<close>, which puts an empty HDF5 file in the place of what was there. On the
  file as it was, the next step could neither open nor create the observable group; on
  the new one it creates it. The write raises nothing and ends as it does at a path that
  holds no file: afterwards the file is an HDF5 file that holds the observable group with
  its geometry and the snapshot \<^verbatim>\<open>measurement_0\<close>, and nothing of its former bytes.
  The error with the message of line 320, which carries the path, is the result exactly
  when the step that opens or creates the file fails, which is when the path cannot be
  written; the error of line 220 in the header, which carries the path too, is never the
  result.
\<close>

theorem not_hdf5_file_replaced:
  "(disk W = NotHdf5 bs \<and> accessible W \<longrightarrow>
      \<not> H5Fis_hdf5 W
      \<and> H5Fcreate W = Some (W\<lparr>disk := Hdf5 Map.empty\<rparr>)
      \<and> (if H5Lexists W g then H5Gopen W g else H5Gcreate W g) = None
      \<and> (if H5Lexists (W\<lparr>disk := Hdf5 Map.empty\<rparr>) g then H5Gopen (W\<lparr>disk := Hdf5 Map.empty\<rparr>) g
          else H5Gcreate (W\<lparr>disk := Hdf5 Map.empty\<rparr>) g)
         = Some (W\<lparr>disk := Hdf5 [g \<mapsto> ObsGroup emptyGroup]\<rparr>)
      \<and> writeOutfileCorrelation E m W g corr
         = writeOutfileCorrelation E m (W\<lparr>disk := Absent\<rparr>) g corr
      \<and> writeOutfileCorrelation E m W g corr =
        Inr (W\<lparr>disk := Hdf5 [g \<mapsto> ObsGroup
               \<lparr> metaLink = Some (geometry E),
                 dataLink = Some (DataGroup
                   [(''measurement_0'', MeasurementGroup (Some (currentCutoff m))
                       ((length (getBasis E), length (getRangeOfBasis E 0)),
                        take (length (getBasis E) * length (getRangeOfBasis E 0)) corr))]) \<rparr>]\<rparr>))
   \<and> ((writeOutfileCorrelation E m W g corr = Inl (IOError (fileMessage m)))
        = ((if H5Fis_hdf5 W then H5Fopen W else H5Fcreate W) = None))
   \<and> (((if H5Fis_hdf5 W then H5Fopen W else H5Fcreate W) = None) = (\<not> accessible W))
   \<and> writeOutfileCorrelation E m W g corr \<noteq> Inl (IOError (headerFileMessage m))"
proof -
  have "\<not> H5Fis_hdf5 W
      \<and> H5Fcreate W = Some (W\<lparr>disk := Hdf5 Map.empty\<rparr>)
      \<and> (if H5Lexists W g then H5Gopen W g else H5Gcreate W g) = None
      \<and> (if H5Lexists (W\<lparr>disk := Hdf5 Map.empty\<rparr>) g then H5Gopen (W\<lparr>disk := Hdf5 Map.empty\<rparr>) g
          else H5Gcreate (W\<lparr>disk := Hdf5 Map.empty\<rparr>) g)
         = Some (W\<lparr>disk := Hdf5 [g \<mapsto> ObsGroup emptyGroup]\<rparr>)"
    if "disk W = NotHdf5 bs" "accessible W"
    using not_hdf5_steps [OF that] by blast
  then show ?thesis
    using not_hdf5_written [of W bs E m g corr]
      truncated_same [of W bs E m g corr] file_error_iff [of E m W g corr]
      open_or_create_fails_iff [of W] header_error_never [of E m W g corr]
    by simp
qed

text \<open>
  The theorem at a path that holds a text file: the write succeeds, the bytes are gone,
  and at the same path without the permission to write the error of line 320 is raised.
\<close>

theorem not_hdf5_file_replaced_witness:
  "disk (freshWorld\<lparr>disk := NotHdf5 ''plain text''\<rparr>) = NotHdf5 ''plain text''
   \<and> accessible (freshWorld\<lparr>disk := NotHdf5 ''plain text''\<rparr>)
   \<and> H5Fcreate (freshWorld\<lparr>disk := NotHdf5 ''plain text''\<rparr>) = Some (freshWorld\<lparr>disk := Hdf5 Map.empty\<rparr>)
   \<and> writeOutfileCorrelation demoEnv demoMeasurement (freshWorld\<lparr>disk := NotHdf5 ''plain text''\<rparr>)
         ''XYZCorXX'' [1, 2, 3, 4]
       = Inr (freshWorld\<lparr>disk := Hdf5 [''XYZCorXX'' \<mapsto> ObsGroup
               \<lparr> metaLink = Some (geometry demoEnv),
                 dataLink = Some (DataGroup
                   [(''measurement_0'', MeasurementGroup (Some (- 1)) ((1, 4), [1, 2, 3, 4]))]) \<rparr>]\<rparr>)
   \<and> writeOutfileCorrelation demoEnv demoMeasurement
         (freshWorld\<lparr>disk := NotHdf5 ''plain text'', accessible := False\<rparr>) ''XYZCorXX'' [1, 2, 3, 4]
       = Inl (IOError (fileMessage demoMeasurement))"
proof -
  let ?W = "freshWorld\<lparr>disk := NotHdf5 ''plain text''\<rparr>"
  let ?V = "freshWorld\<lparr>disk := NotHdf5 ''plain text'', accessible := False\<rparr>"
  have h: "disk ?W = NotHdf5 ''plain text'' \<and> accessible ?W"
    by (simp add: freshWorld_def)
  have c: "currentCutoff demoMeasurement = - 1"
    by (simp add: demoMeasurement_eq)
  note t = not_hdf5_file_replaced [of ?W "''plain text''" "''XYZCorXX''" demoEnv demoMeasurement "[1, 2, 3, 4]"]
  from t h have "H5Fcreate ?W = Some (?W\<lparr>disk := Hdf5 Map.empty\<rparr>)"
    by blast
  then have f: "H5Fcreate ?W = Some (freshWorld\<lparr>disk := Hdf5 Map.empty\<rparr>)"
    by simp
  from t h
  have "writeOutfileCorrelation demoEnv demoMeasurement ?W ''XYZCorXX'' [1, 2, 3, 4]
        = Inr (?W\<lparr>disk := Hdf5 [''XYZCorXX'' \<mapsto> ObsGroup
               \<lparr> metaLink = Some (geometry demoEnv),
                 dataLink = Some (DataGroup
                   [(''measurement_0'', MeasurementGroup (Some (currentCutoff demoMeasurement))
                       ((length (getBasis demoEnv), length (getRangeOfBasis demoEnv 0)),
                        take (length (getBasis demoEnv) * length (getRangeOfBasis demoEnv 0)) [1, 2, 3, 4]))]) \<rparr>]\<rparr>)"
    by blast
  then have w: "writeOutfileCorrelation demoEnv demoMeasurement ?W ''XYZCorXX'' [1, 2, 3, 4]
       = Inr (freshWorld\<lparr>disk := Hdf5 [''XYZCorXX'' \<mapsto> ObsGroup
               \<lparr> metaLink = Some (geometry demoEnv),
                 dataLink = Some (DataGroup
                   [(''measurement_0'', MeasurementGroup (Some (- 1)) ((1, 4), [1, 2, 3, 4]))]) \<rparr>]\<rparr>)"
    by (simp add: c demoShape)
  have n: "\<not> accessible ?V"
    by (simp add: freshWorld_def)
  note t' = not_hdf5_file_replaced [of ?V "''plain text''" "''XYZCorXX''" demoEnv demoMeasurement "[1, 2, 3, 4]"]
  from t' have "(writeOutfileCorrelation demoEnv demoMeasurement ?V ''XYZCorXX'' [1, 2, 3, 4]
                 = Inl (IOError (fileMessage demoMeasurement)))
              = ((if H5Fis_hdf5 ?V then H5Fopen ?V else H5Fcreate ?V) = None)"
    and "((if H5Fis_hdf5 ?V then H5Fopen ?V else H5Fcreate ?V) = None) = (\<not> accessible ?V)"
    by blast+
  with n have e: "writeOutfileCorrelation demoEnv demoMeasurement ?V ''XYZCorXX'' [1, 2, 3, 4]
       = Inl (IOError (fileMessage demoMeasurement))"
    by metis
  show ?thesis
    using h f w e by simp
qed


subsection \<open>Taking a measurement\<close>

text \<open>
  A write settles its group and leaves the settled groups settled; a measurement at the
  cached cutoff is four writes and nothing else.
\<close>

lemma disk_prepared: "disk (prepared E W g) = Hdf5 (contents (prepared E W g))"
  by (simp add: prepared_def)

lemma contents_prepared_same:
  "contents (prepared E W g) g = Some (ObsGroup (groupOf (prepared E W g) g))"
  by (simp add: prepared_def)

lemma settled_prepared_dup:
  assumes "accessible W"
      and "scanDatasets c (uninitialised W) (entriesOf W g) 0 = None"
  shows "settled c ((prepared E W g)\<lparr>logged := l\<rparr>) g"
  using assms
  by (simp add: settled_def prepared_def contents_def)

lemma createMeasurement_taken:
  "nm \<in> set (map fst (entriesOf W g)) \<Longrightarrow> createMeasurement W g nm c sh corr = W"
  by (simp add: createMeasurement_def)

lemma createMeasurement_new:
  "nm \<notin> set (map fst (entriesOf W g)) \<Longrightarrow>
   createMeasurement W g nm c sh corr =
     putGroup W g ((groupOf W g)\<lparr>dataLink := Some (DataGroup (entriesOf W g @
        [(nm, MeasurementGroup (Some c) (sh, take (fst sh * snd sh) corr))]))\<rparr>)"
  by (simp add: createMeasurement_def)

lemma settled_created:
  assumes "accessible W"
      and "scanDatasets c (uninitialised W) (entriesOf W g) 0 = Some k"
  shows "settled c (createMeasurement (prepared E W g) g (''measurement_'' @ to_string k) c sh corr) g"
proof (cases "(''measurement_'' @ to_string k) \<in> set (map fst (entriesOf W g))")
  case True
  then have "createMeasurement (prepared E W g) g (''measurement_'' @ to_string k) c sh corr
             = prepared E W g"
    by (simp add: createMeasurement_taken)
  with assms True show ?thesis
    by (simp add: settled_def disk_prepared contents_prepared_same groupOf_prepared)
next
  case False
  with assms show ?thesis
    by (simp add: settled_def createMeasurement_new groupOf_prepared scanDatasets_append)
qed

lemma write_settles:
  assumes "writeOutfileCorrelation E m W g corr = Inr W'"
  shows "settled (currentCutoff m) W' g"
proof (cases "scanDatasets (currentCutoff m) (uninitialised W) (entriesOf W g) 0")
  case None
  with write_success [OF assms] show ?thesis
    by (simp add: settled_prepared_dup)
next
  case (Some k)
  have W': "W' = createMeasurement (prepared E W g) g (''measurement_'' @ to_string k)
                   (currentCutoff m) (length (getBasis E), length (getRangeOfBasis E 0)) corr"
    using write_success(4) [OF assms] Some by simp
  show ?thesis
    unfolding W' by (rule settled_created [OF write_success(1) [OF assms] Some])
qed


lemma settled_logged [simp]: "settled c (W\<lparr>logged := l\<rparr>) g = settled c W g"
  by (simp add: settled_def contents_def)

lemma settled_write_unchanged:
  assumes "settled (currentCutoff m) W g"
  shows "\<exists>l. writeOutfileCorrelation E m W g corr = Inr (W\<lparr>logged := l\<rparr>)"
proof -
  from assms have a: "accessible W" and d: "disk W = Hdf5 (contents W)"
    and c: "contents W g = Some (ObsGroup (groupOf W g))"
    and ml: "metaLink (groupOf W g) \<noteq> None"
    and dl: "dataLink (groupOf W g) = Some (DataGroup (entriesOf W g))"
    by (simp_all add: settled_def)
  have p: "prepared E W g = W"
    using d c ml dl by (rule prepared_same)
  show ?thesis
  proof (cases "scanDatasets (currentCutoff m) (uninitialised W) (entriesOf W g) 0")
    case None
    then have "writeOutfileCorrelation E m W g corr
               = Inr (W\<lparr>logged := logged W @ [WarnDuplicate (currentCutoff m)]\<rparr>)"
      using a c dl by (simp add: writeOutfileCorrelation_eq p)
    then show ?thesis by blast
  next
    case (Some k)
    with assms have "(''measurement_'' @ to_string k) \<in> set (map fst (entriesOf W g))"
      by (simp add: settled_def)
    then have "createMeasurement W g (''measurement_'' @ to_string k) (currentCutoff m)
                 (length (getBasis E), length (getRangeOfBasis E 0)) corr = W"
      by (rule createMeasurement_taken)
    then have "writeOutfileCorrelation E m W g corr = Inr W"
      using a c dl Some by (simp add: writeOutfileCorrelation_eq p)
    then have "writeOutfileCorrelation E m W g corr = Inr (W\<lparr>logged := logged W\<rparr>)"
      by simp
    then show ?thesis by blast
  qed
qed

lemma settled_other_group:
  assumes "settled c W g" and "g' \<noteq> g" and "writeOutfileCorrelation E m W g' corr = Inr W'"
  shows "settled c W' g"
proof -
  have s: "settled c (prepared E W g') g"
    using assms(1,2)
    by (simp add: settled_def disk_prepared contents_prepared_other groupOf_prepared_other
          entriesOf_prepared_other)
  show ?thesis
  proof (cases "scanDatasets (currentCutoff m) (uninitialised W) (entriesOf W g') 0")
    case None
    with write_success(4) [OF assms(3)] s show ?thesis by simp
  next
    case (Some k)
    have W': "W' = createMeasurement (prepared E W g') g' (''measurement_'' @ to_string k)
                   (currentCutoff m) (length (getBasis E), length (getRangeOfBasis E 0)) corr"
      using write_success(4) [OF assms(3)] Some by simp
    show ?thesis
    proof (cases "(''measurement_'' @ to_string k) \<in> set (map fst (entriesOf (prepared E W g') g'))")
      case True
      then show ?thesis
        unfolding W' using s by (simp only: createMeasurement_taken)
    next
      case False
      then show ?thesis
        unfolding W' using s assms(2)
        by (simp add: createMeasurement_new settled_def del: entriesOf_prepared)
    qed
  qed
qed


lemma andThen_eq_Inr: "andThen x f = Inr r \<longleftrightarrow> (\<exists>a. x = Inr a \<and> f a = Inr r)"
  by (cases x) simp_all

lemma write_keeps_fields:
  assumes "writeOutfileCorrelation E m W g corr = Inr W'"
  shows "calculateCalls W' = calculateCalls W" and "accessible W' = accessible W"
    and "uninitialised W' = uninitialised W"
  using write_success(4) [OF assms] by (simp_all split: option.splits)

lemma calculate_fields:
  assumes "calculate E S m = Some m'"
  shows "currentCutoff m' = cutoff S" and "outfile m' = outfile m"
    and "memoryStepLattice m' = memoryStepLattice m"
proof -
  have "[0..<1] = [0::nat]" by (simp add: upt_rec)
  with assms have "calculateCorrelation E S (m\<lparr>currentCutoff := cutoff S\<rparr>) 0 = Some m'"
    by (simp add: calculate_def split: option.splits)
  then have "storeLoop E (calculateSusceptibility E S) (latticePairs E) 0 (m\<lparr>currentCutoff := cutoff S\<rparr>)
             = Some m'"
    by (simp add: calculateCorrelation_def Let_def)
  from storeLoop_channel [OF this, of SpinX]
  show "currentCutoff m' = cutoff S" and "outfile m' = outfile m"
    and "memoryStepLattice m' = memoryStepLattice m"
    by simp_all
qed

lemma takeMeasurement_cached:
  assumes "currentCutoff m = cutoff S"
  shows "takeMeasurement E S m W b =
     (if b
      then andThen (writeOutfileCorrelation E m W ''XYZCorXX'' (correlationsXX m)) (\<lambda>W.
           andThen (writeOutfileCorrelation E m W ''XYZCorYY'' (correlationsYY m)) (\<lambda>W.
           andThen (writeOutfileCorrelation E m W ''XYZCorZZ'' (correlationsZZ m)) (\<lambda>W.
           andThen (writeOutfileCorrelation E m W ''XYZCorDD'' (correlationsDD m)) (\<lambda>W.
             Inr (m, W)))))
      else Inr (m, W))"
  using assms by (simp add: takeMeasurement_def)

lemma takeMeasurement_recomputes:
  assumes "currentCutoff m \<noteq> cutoff S"
  shows "takeMeasurement E S m W b =
     (case calculate E S m of
        None \<Rightarrow> Inl UndefinedBehaviour
      | Some m' \<Rightarrow> takeMeasurement E S m' (W\<lparr>calculateCalls := Suc (calculateCalls W)\<rparr>) b)"
proof (cases "calculate E S m")
  case None
  with assms show ?thesis by (simp add: takeMeasurement_def)
next
  case (Some m')
  then have "currentCutoff m' = cutoff S" by (rule calculate_fields)
  with assms Some show ?thesis by (simp add: takeMeasurement_def)
qed

lemma four_writes:
  assumes "andThen (writeOutfileCorrelation E m W ''XYZCorXX'' cx) (\<lambda>W.
           andThen (writeOutfileCorrelation E m W ''XYZCorYY'' cy) (\<lambda>W.
           andThen (writeOutfileCorrelation E m W ''XYZCorZZ'' cz) (\<lambda>W.
           andThen (writeOutfileCorrelation E m W ''XYZCorDD'' cd) (\<lambda>W.
             Inr (m, W))))) = Inr (m', W')"
  shows "m' = m" and "calculateCalls W' = calculateCalls W"
    and "settled (currentCutoff m) W' ''XYZCorXX''" and "settled (currentCutoff m) W' ''XYZCorYY''"
    and "settled (currentCutoff m) W' ''XYZCorZZ''" and "settled (currentCutoff m) W' ''XYZCorDD''"
proof -
  from assms obtain W1 W2 W3 where
    x: "writeOutfileCorrelation E m W ''XYZCorXX'' cx = Inr W1" and
    y: "writeOutfileCorrelation E m W1 ''XYZCorYY'' cy = Inr W2" and
    z: "writeOutfileCorrelation E m W2 ''XYZCorZZ'' cz = Inr W3" and
    d: "writeOutfileCorrelation E m W3 ''XYZCorDD'' cd = Inr W'" and
    m: "m' = m"
    by (auto simp: andThen_eq_Inr)
  show "m' = m" by (rule m)
  show "calculateCalls W' = calculateCalls W"
    using write_keeps_fields(1) [OF x] write_keeps_fields(1) [OF y]
      write_keeps_fields(1) [OF z] write_keeps_fields(1) [OF d] by simp
  have "settled (currentCutoff m) W1 ''XYZCorXX''" by (rule write_settles [OF x])
  then have "settled (currentCutoff m) W2 ''XYZCorXX''" by (rule settled_other_group [OF _ _ y]) simp
  then have "settled (currentCutoff m) W3 ''XYZCorXX''" by (rule settled_other_group [OF _ _ z]) simp
  then show "settled (currentCutoff m) W' ''XYZCorXX''" by (rule settled_other_group [OF _ _ d]) simp
  have "settled (currentCutoff m) W2 ''XYZCorYY''" by (rule write_settles [OF y])
  then have "settled (currentCutoff m) W3 ''XYZCorYY''" by (rule settled_other_group [OF _ _ z]) simp
  then show "settled (currentCutoff m) W' ''XYZCorYY''" by (rule settled_other_group [OF _ _ d]) simp
  have "settled (currentCutoff m) W3 ''XYZCorZZ''" by (rule write_settles [OF z])
  then show "settled (currentCutoff m) W' ''XYZCorZZ''" by (rule settled_other_group [OF _ _ d]) simp
  show "settled (currentCutoff m) W' ''XYZCorDD''" by (rule write_settles [OF d])
qed

lemma four_writes_settled:
  assumes "settled (currentCutoff m) W ''XYZCorXX''" and "settled (currentCutoff m) W ''XYZCorYY''"
      and "settled (currentCutoff m) W ''XYZCorZZ''" and "settled (currentCutoff m) W ''XYZCorDD''"
  shows "\<exists>l. andThen (writeOutfileCorrelation E m W ''XYZCorXX'' cx) (\<lambda>W.
              andThen (writeOutfileCorrelation E m W ''XYZCorYY'' cy) (\<lambda>W.
              andThen (writeOutfileCorrelation E m W ''XYZCorZZ'' cz) (\<lambda>W.
              andThen (writeOutfileCorrelation E m W ''XYZCorDD'' cd) (\<lambda>W.
                Inr (m, W))))) = Inr (m, W\<lparr>logged := l\<rparr>)"
proof -
  from settled_write_unchanged [OF assms(1)] obtain l1 where
    x: "writeOutfileCorrelation E m W ''XYZCorXX'' cx = Inr (W\<lparr>logged := l1\<rparr>)" by blast
  have "settled (currentCutoff m) (W\<lparr>logged := l1\<rparr>) ''XYZCorYY''" using assms(2) by simp
  from settled_write_unchanged [OF this] obtain l2 where
    y: "writeOutfileCorrelation E m (W\<lparr>logged := l1\<rparr>) ''XYZCorYY'' cy = Inr (W\<lparr>logged := l2\<rparr>)"
    by auto
  have "settled (currentCutoff m) (W\<lparr>logged := l2\<rparr>) ''XYZCorZZ''" using assms(3) by simp
  from settled_write_unchanged [OF this] obtain l3 where
    z: "writeOutfileCorrelation E m (W\<lparr>logged := l2\<rparr>) ''XYZCorZZ'' cz = Inr (W\<lparr>logged := l3\<rparr>)"
    by auto
  have "settled (currentCutoff m) (W\<lparr>logged := l3\<rparr>) ''XYZCorDD''" using assms(4) by simp
  from settled_write_unchanged [OF this] obtain l4 where
    d: "writeOutfileCorrelation E m (W\<lparr>logged := l3\<rparr>) ''XYZCorDD'' cd = Inr (W\<lparr>logged := l4\<rparr>)"
    by auto
  have "andThen (writeOutfileCorrelation E m W ''XYZCorXX'' cx) (\<lambda>W.
              andThen (writeOutfileCorrelation E m W ''XYZCorYY'' cy) (\<lambda>W.
              andThen (writeOutfileCorrelation E m W ''XYZCorZZ'' cz) (\<lambda>W.
              andThen (writeOutfileCorrelation E m W ''XYZCorDD'' cd) (\<lambda>W.
                Inr (m, W))))) = Inr (m, W\<lparr>logged := l4\<rparr>)"
    using x y z d by simp
  then show ?thesis by blast
qed


lemma takeMeasurement_result:
  assumes "takeMeasurement E S m W b = Inr (m', W')"
  shows "currentCutoff m' = cutoff S"
    and "calculateCalls W' = calculateCalls W + (if currentCutoff m = cutoff S then 0 else 1)"
    and "currentCutoff m = cutoff S \<Longrightarrow> m' = m"
    and "b \<Longrightarrow> settled (cutoff S) W' ''XYZCorXX'' \<and> settled (cutoff S) W' ''XYZCorYY''
              \<and> settled (cutoff S) W' ''XYZCorZZ'' \<and> settled (cutoff S) W' ''XYZCorDD''"
proof -
  have cached: "currentCutoff m' = cutoff S \<and> calculateCalls W' = calculateCalls W0 \<and> m' = m0
      \<and> (b \<longrightarrow> settled (cutoff S) W' ''XYZCorXX'' \<and> settled (cutoff S) W' ''XYZCorYY''
              \<and> settled (cutoff S) W' ''XYZCorZZ'' \<and> settled (cutoff S) W' ''XYZCorDD'')"
    if c: "currentCutoff m0 = cutoff S" and t: "takeMeasurement E S m0 W0 b = Inr (m', W')"
    for m0 W0
  proof (cases b)
    case True
    with t c have "andThen (writeOutfileCorrelation E m0 W0 ''XYZCorXX'' (correlationsXX m0)) (\<lambda>W.
           andThen (writeOutfileCorrelation E m0 W ''XYZCorYY'' (correlationsYY m0)) (\<lambda>W.
           andThen (writeOutfileCorrelation E m0 W ''XYZCorZZ'' (correlationsZZ m0)) (\<lambda>W.
           andThen (writeOutfileCorrelation E m0 W ''XYZCorDD'' (correlationsDD m0)) (\<lambda>W.
             Inr (m0, W))))) = Inr (m', W')"
      by (simp add: takeMeasurement_cached)
    from four_writes [OF this] c show ?thesis by simp
  next
    case False
    with t c show ?thesis by (simp add: takeMeasurement_cached)
  qed
  have all: "currentCutoff m' = cutoff S
      \<and> calculateCalls W' = calculateCalls W + (if currentCutoff m = cutoff S then 0 else 1)
      \<and> (currentCutoff m = cutoff S \<longrightarrow> m' = m)
      \<and> (b \<longrightarrow> settled (cutoff S) W' ''XYZCorXX'' \<and> settled (cutoff S) W' ''XYZCorYY''
              \<and> settled (cutoff S) W' ''XYZCorZZ'' \<and> settled (cutoff S) W' ''XYZCorDD'')"
  proof (cases "currentCutoff m = cutoff S")
    case True
    from cached [OF True assms] True show ?thesis by simp
  next
    case False
    with assms obtain m1 where c1: "calculate E S m = Some m1"
      and t1: "takeMeasurement E S m1 (W\<lparr>calculateCalls := Suc (calculateCalls W)\<rparr>) b = Inr (m', W')"
      by (auto simp: takeMeasurement_recomputes split: option.splits)
    have c: "currentCutoff m1 = cutoff S" using c1 by (rule calculate_fields)
    from cached [OF c t1] False c show ?thesis by auto
  qed
  from all show "currentCutoff m' = cutoff S"
    and "calculateCalls W' = calculateCalls W + (if currentCutoff m = cutoff S then 0 else 1)"
    and "currentCutoff m = cutoff S \<Longrightarrow> m' = m"
    and "b \<Longrightarrow> settled (cutoff S) W' ''XYZCorXX'' \<and> settled (cutoff S) W' ''XYZCorYY''
              \<and> settled (cutoff S) W' ''XYZCorZZ'' \<and> settled (cutoff S) W' ''XYZCorDD''"
    by simp_all
qed

lemma takeMeasurement_again:
  assumes "takeMeasurement E S m W True = Inr (m1, W1)" and "cutoff S' = cutoff S"
  shows "\<exists>l. takeMeasurement E' S' m1 W1 b = Inr (m1, W1\<lparr>logged := l\<rparr>)"
proof -
  have c: "currentCutoff m1 = cutoff S'"
    using takeMeasurement_result(1) [OF assms(1)] assms(2) by simp
  show ?thesis
  proof (cases b)
    case True
    from takeMeasurement_result(4) [OF assms(1)] c assms(2)
    have s: "settled (currentCutoff m1) W1 ''XYZCorXX''" "settled (currentCutoff m1) W1 ''XYZCorYY''"
      "settled (currentCutoff m1) W1 ''XYZCorZZ''" "settled (currentCutoff m1) W1 ''XYZCorDD''"
      by simp_all
    from four_writes_settled [OF s] True c show ?thesis
      by (simp add: takeMeasurement_cached)
  next
    case False
    have "W1\<lparr>logged := logged W1\<rparr> = W1" by simp
    with False c show ?thesis
      by (metis takeMeasurement_cached)
  qed
qed

lemma takeMeasurement_cached_safe:
  assumes "currentCutoff m = cutoff S"
  shows "takeMeasurement E S m W b \<noteq> Inl UndefinedBehaviour"
proof -
  have w: "writeOutfileCorrelation E m V g corr \<noteq> Inl UndefinedBehaviour" for V g corr
    by (simp add: writeOutfileCorrelation_eq split: option.splits)
  have "andThen x f \<noteq> Inl UndefinedBehaviour"
    if "x \<noteq> Inl UndefinedBehaviour" "\<And>a. f a \<noteq> Inl UndefinedBehaviour"
    for x :: "failure + world" and f :: "world \<Rightarrow> failure + (measurement \<times> world)"
    using that by (cases x) simp_all
  then show ?thesis
    using assms w by (simp add: takeMeasurement_cached)
qed

lemma write_fresh_group:
  assumes "accessible W" and "contents W g = None"
  shows "writeOutfileCorrelation E m W g corr = Inr (putGroup W g (snapshotGroup E (currentCutoff m) corr))"
proof -
  have g: "groupOf W g = emptyGroup" "entriesOf W g = []"
    using assms(2) by (simp_all add: groupOf_def entriesOf_def emptyGroup_def)
  show ?thesis
    using assms g
    by (simp add: writeOutfileCorrelation_eq prepared_def createMeasurement_def emptyGroup_def
          snapshotGroup_def)
qed

lemma takeMeasurement_fresh:
  assumes "currentCutoff m = cutoff S"
  shows "takeMeasurement E S m freshWorld True =
     Inr (m, putGroup (putGroup (putGroup (putGroup freshWorld
            ''XYZCorXX'' (snapshotGroup E (currentCutoff m) (correlationsXX m)))
            ''XYZCorYY'' (snapshotGroup E (currentCutoff m) (correlationsYY m)))
            ''XYZCorZZ'' (snapshotGroup E (currentCutoff m) (correlationsZZ m)))
            ''XYZCorDD'' (snapshotGroup E (currentCutoff m) (correlationsDD m)))"
  using assms by (simp add: takeMeasurement_cached write_fresh_group)

lemma constructed_fields:
  "currentCutoff (XYZMeasurementCorrelation E file gXX gYY gZZ gDD) = - 1"
  "correlationsXX (XYZMeasurementCorrelation E file gXX gYY gZZ gDD)
     = map gXX [0..<length (getBasis E) * length (getRangeOfBasis E 0)]"
  "correlationsYY (XYZMeasurementCorrelation E file gXX gYY gZZ gDD)
     = map gYY [0..<length (getBasis E) * length (getRangeOfBasis E 0)]"
  "correlationsZZ (XYZMeasurementCorrelation E file gXX gYY gZZ gDD)
     = map gZZ [0..<length (getBasis E) * length (getRangeOfBasis E 0)]"
  "correlationsDD (XYZMeasurementCorrelation E file gXX gYY gZZ gDD)
     = map gDD [0..<length (getBasis E) * length (getRangeOfBasis E 0)]"
  by (simp_all add: XYZMeasurementCorrelation_def Let_def)

lemma length_remdups_adj_Cons: "length (remdups_adj (x # xs)) \<le> Suc (length (remdups_adj xs))"
  by (simp add: remdups_adj_Cons split: list.split)

lemma distinct_remdups_adj_sorted:
  fixes xs :: "real list"
  shows "sorted xs \<Longrightarrow> distinct (remdups_adj xs)"
proof (induction xs rule: remdups_adj.induct)
  case (3 x y xs)
  then show ?case by (auto split: if_splits)
qed simp_all

lemma runs_of_monotone_flow:
  fixes cs :: "real list"
  assumes "sorted (rev cs)"
  shows "length (remdups_adj cs) = card (set cs)"
proof -
  have "distinct (remdups_adj (rev cs))"
    using assms by (rule distinct_remdups_adj_sorted)
  then have "distinct (remdups_adj cs)"
    by simp
  then have "card (set (remdups_adj cs)) = length (remdups_adj cs)"
    by (rule distinct_card)
  then show ?thesis by simp
qed

lemma runFlow_calls:
  assumes "runFlow E steps m W = Inr (m', W')"
  shows "Suc (calculateCalls W')
         = calculateCalls W + length (remdups_adj (currentCutoff m # map (cutoff \<circ> fst) steps))"
  using assms
proof (induction steps arbitrary: m W)
  case Nil
  then show ?case by simp
next
  case (Cons step steps)
  obtain S b where step: "step = (S, b)" by (cases step)
  from Cons.prems step obtain m1 W1 where
    one: "takeMeasurement E S m W b = Inr (m1, W1)" and rest: "runFlow E steps m1 W1 = Inr (m', W')"
    by (auto simp: andThen_eq_Inr)
  note r = takeMeasurement_result(1,2) [OF one]
  from Cons.IH [OF rest] r show ?case
    by (simp add: step)
qed

lemma demoCorrelation3_at:
  "calculateCorrelation demoEnv (demoAction 3) (demoMeasurement\<lparr>currentCutoff := c\<rparr>) 0
   = Some (demoMeasurement\<lparr>currentCutoff := c, correlationsXX := [0, 0, 0, 0],
        correlationsYY := [0, 0, 0, 0], correlationsZZ := [0, 0, 0, 0], correlationsDD := [0, 0, 0, 0]\<rparr>)"
  unfolding calculateCorrelation_def Let_def demoSusceptibility3 demoPairs
  by (simp add: demoMeasurement_eq storePair_def readAt_def storeAt_def demoEnv_def)

lemma demoCalculate3:
  "calculate demoEnv (demoAction 3) demoMeasurement
   = Some (demoMeasurement\<lparr>currentCutoff := 3, correlationsXX := [0, 0, 0, 0],
        correlationsYY := [0, 0, 0, 0], correlationsZZ := [0, 0, 0, 0], correlationsDD := [0, 0, 0, 0]\<rparr>)"
proof -
  have u: "[0..<1] = [0::nat]" by (simp add: upt_rec)
  have c: "cutoff (demoAction 3) = 3" by (simp add: demoAction_def)
  show ?thesis
    unfolding calculate_def u c by (simp add: demoCorrelation3_at)
qed

lemma demoTake3:
  "takeMeasurement demoEnv (demoAction 3) demoMeasurement freshWorld True = Inr (demoComputed, demoWritten)"
proof -
  have c: "cutoff (demoAction 3) = 3" "currentCutoff demoMeasurement \<noteq> cutoff (demoAction 3)"
    by (simp_all add: demoAction_def demoMeasurement_eq)
  have f: "accessible (freshWorld\<lparr>calculateCalls := Suc 0\<rparr>)"
    by (simp add: freshWorld_def)
  have k: "currentCutoff demoComputed = cutoff (demoAction 3)" "currentCutoff demoComputed = 3"
    "correlationsXX demoComputed = [0, 0, 0, 0]" "correlationsYY demoComputed = [0, 0, 0, 0]"
    "correlationsZZ demoComputed = [0, 0, 0, 0]" "correlationsDD demoComputed = [0, 0, 0, 0]"
    by (simp_all add: demoComputed_def c)
  have "takeMeasurement demoEnv (demoAction 3) demoMeasurement freshWorld True
        = takeMeasurement demoEnv (demoAction 3) demoComputed (freshWorld\<lparr>calculateCalls := Suc 0\<rparr>) True"
    using c(2) by (simp add: takeMeasurement_recomputes demoCalculate3 demoComputed_def freshWorld_def)
  also have "\<dots> = Inr (demoComputed, demoWritten)"
    using k(1) by (simp add: takeMeasurement_cached write_fresh_group f k(2-) c(1) demoWritten_def)
  finally show ?thesis .
qed

subsection \<open>C4: no recomputation at an unchanged cutoff\<close>

text \<open>
  Claim C4. When the cutoff of the flow equals the cached cutoff, taking the measurement
  does not call the load manager's \<open>calculate\<close>: the call counter and the measurement
  object, buffers included, are as before, and no access past a buffer can happen. After
  a measurement that was taken and written, a measurement at the same cutoff returns
  without raising and leaves the object and the world as they are but for the log: no
  snapshot is added to the file and nothing is recomputed. Over the steps of a flow the
  number of calls of \<open>calculate\<close> is the number of steps whose cutoff differs from the
  cutoff of the step before (for the first step, from the cached cutoff); in a flow whose
  cutoff never increases this is at most the number of distinct cutoffs.
\<close>

theorem measurement_memoized:
  "(currentCutoff m = cutoff S \<longrightarrow>
      takeMeasurement E S m W b \<noteq> Inl UndefinedBehaviour
      \<and> (takeMeasurement E S m W b = Inr (m', W') \<longrightarrow> m' = m \<and> calculateCalls W' = calculateCalls W))
   \<and> (takeMeasurement E S m W True = Inr (m1, W1) \<and> cutoff S' = cutoff S \<longrightarrow>
        (\<exists>l. takeMeasurement E' S' m1 W1 b = Inr (m1, W1\<lparr>logged := l\<rparr>)))
   \<and> (runFlow E steps m W = Inr (m2, W2) \<longrightarrow>
        Suc (calculateCalls W2)
          = calculateCalls W + length (remdups_adj (currentCutoff m # map (cutoff \<circ> fst) steps))
        \<and> (sorted (rev (map (cutoff \<circ> fst) steps)) \<longrightarrow>
             calculateCalls W2 \<le> calculateCalls W + card (set (map (cutoff \<circ> fst) steps))))"
proof -
  have a: "takeMeasurement E S m W b \<noteq> Inl UndefinedBehaviour" if "currentCutoff m = cutoff S"
    using that by (rule takeMeasurement_cached_safe)
  have b: "m' = m \<and> calculateCalls W' = calculateCalls W"
    if "currentCutoff m = cutoff S" "takeMeasurement E S m W b = Inr (m', W')"
    using takeMeasurement_result(2,3) [OF that(2)] that(1) by simp
  have c: "\<exists>l. takeMeasurement E' S' m1 W1 b = Inr (m1, W1\<lparr>logged := l\<rparr>)"
    if "takeMeasurement E S m W True = Inr (m1, W1)" "cutoff S' = cutoff S"
    using that by (rule takeMeasurement_again)
  have d: "Suc (calculateCalls W2)
          = calculateCalls W + length (remdups_adj (currentCutoff m # map (cutoff \<circ> fst) steps))"
    if "runFlow E steps m W = Inr (m2, W2)"
    using that by (rule runFlow_calls)
  have e: "calculateCalls W2 \<le> calculateCalls W + card (set (map (cutoff \<circ> fst) steps))"
    if "runFlow E steps m W = Inr (m2, W2)" "sorted (rev (map (cutoff \<circ> fst) steps))"
  proof -
    have l1: "length (remdups_adj (currentCutoff m # map (cutoff \<circ> fst) steps))
          \<le> Suc (length (remdups_adj (map (cutoff \<circ> fst) steps)))"
      by (rule length_remdups_adj_Cons)
    have l2: "length (remdups_adj (map (cutoff \<circ> fst) steps)) = card (set (map (cutoff \<circ> fst) steps))"
      using that(2) by (rule runs_of_monotone_flow)
    from d [OF that(1)] l1 l2 show ?thesis
      by linarith
  qed
  from a b c d e show ?thesis
    by blast
qed

text \<open>
  The theorem at the small instance: a first measurement at the cutoff 3 that computes
  and writes, and a second one at the same cutoff.
\<close>

theorem measurement_memoized_witness:
  "takeMeasurement demoEnv (demoAction 3) demoMeasurement freshWorld True = Inr (demoComputed, demoWritten)
   \<and> currentCutoff demoComputed = cutoff (demoAction 3)
   \<and> calculateCalls demoWritten = 1
   \<and> takeMeasurement demoEnv (demoAction 3) demoComputed demoWritten True \<noteq> Inl UndefinedBehaviour
   \<and> (\<exists>l. takeMeasurement demoEnv (demoAction 3) demoComputed demoWritten True
            = Inr (demoComputed, demoWritten\<lparr>logged := l\<rparr>))
   \<and> runFlow demoEnv [(demoAction 3, True), (demoAction 3, False)] demoMeasurement freshWorld
       = Inr (demoComputed, demoWritten)
   \<and> sorted (rev (map (cutoff \<circ> fst) [(demoAction 3, True), (demoAction 3, False)]))
   \<and> card (set (map (cutoff \<circ> fst) [(demoAction 3, True), (demoAction 3, False)])) = 1"
proof -
  have c: "currentCutoff demoComputed = cutoff (demoAction 3)"
    by (simp add: demoComputed_def demoAction_def)
  have n: "calculateCalls demoWritten = 1"
    by (simp add: demoWritten_def)
  note t = measurement_memoized [where m = demoMeasurement and S = "demoAction 3" and E = demoEnv and W = freshWorld
      and ?m1.0 = demoComputed and ?W1.0 = demoWritten and S' = "demoAction 3" and E' = demoEnv
      and b = True and steps = "[(demoAction 3, True), (demoAction 3, False)]"
      and ?m2.0 = demoComputed and ?W2.0 = demoWritten]
  have again: "\<exists>l. takeMeasurement demoEnv (demoAction 3) demoComputed demoWritten True
            = Inr (demoComputed, demoWritten\<lparr>logged := l\<rparr>)"
    using t demoTake3 by blast
  have safe: "takeMeasurement demoEnv (demoAction 3) demoComputed demoWritten True \<noteq> Inl UndefinedBehaviour"
    using measurement_memoized [where m = demoComputed and S = "demoAction 3" and E = demoEnv
        and W = demoWritten and b = True] c
    by blast
  have second: "takeMeasurement demoEnv (demoAction 3) demoComputed demoWritten False
                = Inr (demoComputed, demoWritten)"
    using c by (simp add: takeMeasurement_cached)
  have flow: "runFlow demoEnv [(demoAction 3, True), (demoAction 3, False)] demoMeasurement freshWorld
       = Inr (demoComputed, demoWritten)"
    by (simp add: demoTake3 second)
  have s: "sorted (rev (map (cutoff \<circ> fst) [(demoAction 3, True), (demoAction 3, False)]))"
    by (simp add: demoAction_def)
  have "calculateCalls demoWritten
        \<le> calculateCalls freshWorld + card (set (map (cutoff \<circ> fst) [(demoAction 3, True), (demoAction 3, False)]))"
    using t flow s by blast
  have k: "card (set (map (cutoff \<circ> fst) [(demoAction 3, True), (demoAction 3, False)])) = 1"
    by (simp add: demoAction_def)
  show ?thesis
    using demoTake3 c n safe again flow s k by blast
qed

subsection \<open>C9: the cutoff -1 before anything is computed\<close>

text \<open>
  Claim C9. The constructor sets the cached cutoff to -1. A first measurement at a flow
  cutoff of exactly -1 therefore does not call \<open>calculate\<close> (the call counter and the
  object stay as they are, on every world), and on the worker that writes, with nothing
  at the path yet, it stores the four buffers as the constructor left them, which is
  whatever the memory held, as the snapshot \<^verbatim>\<open>measurement_0\<close> with the cutoff
  attribute -1 in each of the four groups.
\<close>

theorem sentinel_cutoff_persists_buffers:
  "currentCutoff (XYZMeasurementCorrelation E file gXX gYY gZZ gDD) = - 1
   \<and> (cutoff S = - 1 \<longrightarrow>
        takeMeasurement E S (XYZMeasurementCorrelation E file gXX gYY gZZ gDD) W b \<noteq> Inl UndefinedBehaviour
        \<and> (takeMeasurement E S (XYZMeasurementCorrelation E file gXX gYY gZZ gDD) W b = Inr (m', W') \<longrightarrow>
             m' = XYZMeasurementCorrelation E file gXX gYY gZZ gDD
             \<and> calculateCalls W' = calculateCalls W)
        \<and> map_sum id (\<lambda>(m', W'). (calculateCalls W',
              entriesOf W' ''XYZCorXX'', entriesOf W' ''XYZCorYY'',
              entriesOf W' ''XYZCorZZ'', entriesOf W' ''XYZCorDD''))
            (takeMeasurement E S (XYZMeasurementCorrelation E file gXX gYY gZZ gDD) freshWorld True)
          = Inr (0,
              [(''measurement_0'', MeasurementGroup (Some (- 1))
                 ((length (getBasis E), length (getRangeOfBasis E 0)),
                  map gXX [0..<length (getBasis E) * length (getRangeOfBasis E 0)]))],
              [(''measurement_0'', MeasurementGroup (Some (- 1))
                 ((length (getBasis E), length (getRangeOfBasis E 0)),
                  map gYY [0..<length (getBasis E) * length (getRangeOfBasis E 0)]))],
              [(''measurement_0'', MeasurementGroup (Some (- 1))
                 ((length (getBasis E), length (getRangeOfBasis E 0)),
                  map gZZ [0..<length (getBasis E) * length (getRangeOfBasis E 0)]))],
              [(''measurement_0'', MeasurementGroup (Some (- 1))
                 ((length (getBasis E), length (getRangeOfBasis E 0)),
                  map gDD [0..<length (getBasis E) * length (getRangeOfBasis E 0)]))]))"
proof -
  let ?m = "XYZMeasurementCorrelation E file gXX gYY gZZ gDD"
  have c: "currentCutoff ?m = - 1" by (rule constructed_fields)
  have "takeMeasurement E S ?m W b \<noteq> Inl UndefinedBehaviour" if "cutoff S = - 1"
    using that c by (simp add: takeMeasurement_cached_safe)
  moreover have "m' = ?m \<and> calculateCalls W' = calculateCalls W"
    if "cutoff S = - 1" "takeMeasurement E S ?m W b = Inr (m', W')"
    using takeMeasurement_result(2,3) [OF that(2)] that(1) c by simp
  moreover have "map_sum id (\<lambda>(m', W'). (calculateCalls W',
              entriesOf W' ''XYZCorXX'', entriesOf W' ''XYZCorYY'',
              entriesOf W' ''XYZCorZZ'', entriesOf W' ''XYZCorDD''))
            (takeMeasurement E S ?m freshWorld True)
          = Inr (0,
              [(''measurement_0'', MeasurementGroup (Some (- 1))
                 ((length (getBasis E), length (getRangeOfBasis E 0)),
                  map gXX [0..<length (getBasis E) * length (getRangeOfBasis E 0)]))],
              [(''measurement_0'', MeasurementGroup (Some (- 1))
                 ((length (getBasis E), length (getRangeOfBasis E 0)),
                  map gYY [0..<length (getBasis E) * length (getRangeOfBasis E 0)]))],
              [(''measurement_0'', MeasurementGroup (Some (- 1))
                 ((length (getBasis E), length (getRangeOfBasis E 0)),
                  map gZZ [0..<length (getBasis E) * length (getRangeOfBasis E 0)]))],
              [(''measurement_0'', MeasurementGroup (Some (- 1))
                 ((length (getBasis E), length (getRangeOfBasis E 0)),
                  map gDD [0..<length (getBasis E) * length (getRangeOfBasis E 0)]))])"
    if "cutoff S = - 1"
  proof -
    have z: "calculateCalls freshWorld = 0" by (simp add: freshWorld_def)
    show ?thesis
      using that c by (simp add: takeMeasurement_fresh constructed_fields snapshotGroup_def z)
  qed
  ultimately show ?thesis
    using c by blast
qed

text \<open>The theorem at the small instance, whose buffers hold 7 everywhere.\<close>

theorem sentinel_cutoff_persists_buffers_witness:
  "cutoff (demoAction (- 1)) = - 1
   \<and> map_sum id (\<lambda>(m', W'). (calculateCalls W',
              entriesOf W' ''XYZCorXX'', entriesOf W' ''XYZCorYY'',
              entriesOf W' ''XYZCorZZ'', entriesOf W' ''XYZCorDD''))
       (takeMeasurement demoEnv (demoAction (- 1)) demoMeasurement freshWorld True)
     = Inr (0,
         [(''measurement_0'', MeasurementGroup (Some (- 1)) ((1, 4), [7, 7, 7, 7]))],
         [(''measurement_0'', MeasurementGroup (Some (- 1)) ((1, 4), [7, 7, 7, 7]))],
         [(''measurement_0'', MeasurementGroup (Some (- 1)) ((1, 4), [7, 7, 7, 7]))],
         [(''measurement_0'', MeasurementGroup (Some (- 1)) ((1, 4), [7, 7, 7, 7]))])"
proof -
  have c: "cutoff (demoAction (- 1)) = - 1"
    by (simp add: demoAction_def)
  have u: "[0..<4] = [0, 1, 2, 3::nat]"
    by (simp add: upt_rec)
  from sentinel_cutoff_persists_buffers [of demoEnv "''obs.h5''" "\<lambda>k. 7" "\<lambda>k. 7" "\<lambda>k. 7" "\<lambda>k. 7" "demoAction (- 1)"] c
  have "map_sum id (\<lambda>(m', W'). (calculateCalls W',
              entriesOf W' ''XYZCorXX'', entriesOf W' ''XYZCorYY'',
              entriesOf W' ''XYZCorZZ'', entriesOf W' ''XYZCorDD''))
            (takeMeasurement demoEnv (demoAction (- 1))
               (XYZMeasurementCorrelation demoEnv ''obs.h5'' (\<lambda>k. 7) (\<lambda>k. 7) (\<lambda>k. 7) (\<lambda>k. 7))
               freshWorld True)
          = Inr (0,
              [(''measurement_0'', MeasurementGroup (Some (- 1))
                 ((length (getBasis demoEnv), length (getRangeOfBasis demoEnv 0)),
                  map (\<lambda>k. 7) [0..<length (getBasis demoEnv) * length (getRangeOfBasis demoEnv 0)]))],
              [(''measurement_0'', MeasurementGroup (Some (- 1))
                 ((length (getBasis demoEnv), length (getRangeOfBasis demoEnv 0)),
                  map (\<lambda>k. 7) [0..<length (getBasis demoEnv) * length (getRangeOfBasis demoEnv 0)]))],
              [(''measurement_0'', MeasurementGroup (Some (- 1))
                 ((length (getBasis demoEnv), length (getRangeOfBasis demoEnv 0)),
                  map (\<lambda>k. 7) [0..<length (getBasis demoEnv) * length (getRangeOfBasis demoEnv 0)]))],
              [(''measurement_0'', MeasurementGroup (Some (- 1))
                 ((length (getBasis demoEnv), length (getRangeOfBasis demoEnv 0)),
                  map (\<lambda>k. 7) [0..<length (getBasis demoEnv) * length (getRangeOfBasis demoEnv 0)]))])"
    by blast
  then show ?thesis
    using c by (simp add: demoShape u demoMeasurement_def [symmetric])
qed


subsection \<open>The scenario with vanishing vertices\<close>

lemma antiderivative_unique:
  assumes "antiderivative n K1 k lo hi" and "antiderivative n K2 k lo hi" and "lo < hi" and "r < n"
  shows "K1 hi c ! r - K1 lo c ! r = K2 hi c ! r - K2 lo c ! r"
proof -
  let ?f = "\<lambda>v. K1 v c ! r - K2 v c ! r"
  have d: "(?f has_real_derivative 0) (at w)" if "lo \<le> w" "w \<le> hi" for w
  proof -
    have "((\<lambda>v. K1 v c ! r) has_real_derivative k w c ! r) (at w)"
      and "((\<lambda>v. K2 v c ! r) has_real_derivative k w c ! r) (at w)"
      using assms(1,2,4) that by (simp_all add: antiderivative_def)
    from DERIV_diff [OF this] show ?thesis by simp
  qed
  have cont: "continuous_on {lo..hi} ?f"
    by (rule DERIV_atLeastAtMost_imp_continuous_on) (use d in blast)
  have "?f hi = ?f lo"
  proof (rule DERIV_isconst_end [OF assms(3) cont])
    show "(?f has_real_derivative 0) (at x)" if "lo < x" "x < hi" for x
      using d [of x] that by simp
  qed
  then show ?thesis by simp
qed

lemma integralOf_eq:
  assumes "antiderivative n K k lo hi" and "lo < hi"
  shows "integralOf n lo hi k = (\<lambda>c. map (\<lambda>r. K hi c ! r - K lo c ! r) [0..<n])"
proof -
  have ex: "\<exists>K. antiderivative n K k lo hi" using assms(1) by blast
  then have some: "antiderivative n (SOME K. antiderivative n K k lo hi) k lo hi"
    by (rule someI_ex)
  have "(\<lambda>c. map (\<lambda>r. (SOME K. antiderivative n K k lo hi) hi c ! r
                 - (SOME K. antiderivative n K k lo hi) lo c ! r) [0..<n])
        = (\<lambda>c. map (\<lambda>r. K hi c ! r - K lo c ! r) [0..<n])"
    using antiderivative_unique [OF some assms(1) assms(2)] by (intro ext map_cong) simp_all
  then show ?thesis
    using ex by (simp add: integralOf_def Let_def)
qed


lemma scenario_fields:
  "lattice_size scenarioEnv = 4" "beginNegative scenarioEnv = - 2" "freq_last scenarioEnv = 2"
  "integrateWithObscureRightBoundary scenarioEnv = integralOf 4"
  "integrateWithObscureBoundaries scenarioEnv = integralOf 4"
  "integrateWithObscureLeftBoundary scenarioEnv = integralOf 4"
  "cutoff scenarioAction = 1" "v2_getValue scenarioAction = (\<lambda>w. 0)"
  by (simp_all add: scenarioEnv_def demoEnv_def scenarioAction_def)

lemma upt_4: "[0..<4] = [0, 1, 2, 3::nat]"
  by (simp add: upt_rec)

lemma scenario_innerKernel: "innerKernel scenarioEnv scenarioAction nu w wp = sb_zero 4"
proof
  fix c
  have "innerKernel scenarioEnv scenarioAction nu w wp c
        = map (spec_innerIntegrand scenarioEnv scenarioAction nu w wp c) [0..<lattice_size scenarioEnv]"
    by (rule innerKernel_entries) (simp add: scenario_fields)
  also have "\<dots> = sb_zero 4 c"
    by (cases c) (simp_all add: scenario_fields upt_4 spec_innerIntegrand_def scenarioAction_def
          sb_zero_def numeral_eq_Suc)
  finally show "innerKernel scenarioEnv scenarioAction nu w wp c = sb_zero 4 c" .
qed

lemma integralOf_zero:
  assumes "lo < hi"
  shows "integralOf n lo hi (\<lambda>w. sb_zero n) = sb_zero n"
proof -
  have "antiderivative n (\<lambda>w. sb_zero n) (\<lambda>w. sb_zero n) lo hi"
    by (simp add: antiderivative_def sb_zero_def)
  from integralOf_eq [OF this assms] show ?thesis
    by (simp add: sb_zero_def map_replicate_const)
qed

lemma sb_add_zero: "(\<And>c. length (a c) = n) \<Longrightarrow> sb_add a (sb_zero n) = a"
  by (rule ext) (auto simp: sb_add_def sb_zero_def intro: nth_equalityI)

lemma scenario_subIntervals:
  "spec_subIntervals scenarioEnv 0 1 = [(ObscureRight, - 2, - 1), (ObscureLeft, 1, 2)]"
  by (simp add: spec_subIntervals_def scenario_fields)

lemma scenario_integralKernel:
  "integralKernel scenarioEnv scenarioAction 0 1 w
   = (\<lambda>c. map (\<lambda>r. if r = 0 then spec_localWeight c * (1 / (w * w)) else 0) [0..<4])"
proof -
  have "integralKernel scenarioEnv scenarioAction 0 1 w =
         foldl sb_add (\<lambda>c. map (spec_localTerm scenarioAction 0 w c) [0..<lattice_size scenarioEnv])
           (map (integrateOver scenarioEnv (innerKernel scenarioEnv scenarioAction 0 w))
                (spec_subIntervals scenarioEnv 0 1))"
    by (rule integralKernel_split) (simp add: scenario_fields)
  also have "\<dots> = (\<lambda>c. map (spec_localTerm scenarioAction 0 w c) [0..<4])"
    unfolding scenario_subIntervals
    by (simp add: scenario_fields scenario_innerKernel [abs_def] integralOf_zero sb_add_zero)
  also have "\<dots> = (\<lambda>c. map (\<lambda>r. if r = 0 then spec_localWeight c * (1 / (w * w)) else 0) [0..<4])"
    by (intro ext map_cong) (simp_all add: spec_localTerm_def spec_local_def scenario_fields)
  finally show ?thesis .
qed


lemma scenario_outer_integral:
  assumes "lo < hi" and "0 \<notin> {lo..hi}"
  shows "integralOf 4 lo hi (integralKernel scenarioEnv scenarioAction 0 1)
         = (\<lambda>c. map (\<lambda>r. if r = 0 then spec_localWeight c * (1 / lo - 1 / hi) else 0) [0..<4])"
proof -
  let ?K = "\<lambda>w c. map (\<lambda>r. if r = 0 then spec_localWeight c * (- (1 / w)) else 0) [0..<4::nat]"
  have d: "((\<lambda>v. spec_localWeight c * (- (1 / v))) has_real_derivative
             spec_localWeight c * (1 / (w * w))) (at w)" if "w \<noteq> 0" for w c
    using that by (auto intro!: derivative_eq_intros simp: power2_eq_square)
  have "antiderivative 4 ?K (integralKernel scenarioEnv scenarioAction 0 1) lo hi"
    unfolding antiderivative_def scenario_integralKernel
  proof (intro allI impI conjI)
    fix w c r
    assume w: "lo \<le> w \<and> w \<le> hi" and r: "r < (4::nat)"
    from w assms(2) have w0: "w \<noteq> 0" by auto
    show "((\<lambda>v. map (\<lambda>r. if r = 0 then spec_localWeight c * (- (1 / v)) else 0) [0..<4] ! r)
            has_real_derivative
            map (\<lambda>r. if r = 0 then spec_localWeight c * (1 / (w * w)) else 0) [0..<4] ! r) (at w)"
      using r d [OF w0, of c] by (cases "r = 0") simp_all
  qed simp
  from integralOf_eq [OF this assms(1)] show ?thesis
    by (intro ext) (simp add: algebra_simps)
qed

lemma scenario_susceptibility:
  "calculateSusceptibility scenarioEnv scenarioAction
   = (\<lambda>c. [spec_localWeight c, 0, 0, 0])"
proof -
  have "calculateSusceptibility scenarioEnv scenarioAction =
     foldl sb_add (sb_zero (lattice_size scenarioEnv))
       (map (integrateOver scenarioEnv (integralKernel scenarioEnv scenarioAction 0 (cutoff scenarioAction)))
            (spec_subIntervals scenarioEnv 0 (cutoff scenarioAction)))"
    by (rule calculateSusceptibility_split)
  also have "\<dots> = sb_add (sb_add (sb_zero 4)
                 (integralOf 4 (- 2) (- 1) (integralKernel scenarioEnv scenarioAction 0 1)))
                 (integralOf 4 1 2 (integralKernel scenarioEnv scenarioAction 0 1))"
    by (simp add: scenario_fields scenario_subIntervals)
  also have "\<dots> = (\<lambda>c. [spec_localWeight c, 0, 0, 0])"
  proof
    fix c
    have z: "sb_zero 4 c = [0, 0, 0, 0]"
      by (simp add: sb_zero_def numeral_eq_Suc)
    have l: "integralOf 4 (- 2) (- 1) (integralKernel scenarioEnv scenarioAction 0 1) c
             = [spec_localWeight c * (1 / 2), 0, 0, 0]"
      by (simp add: scenario_outer_integral upt_4)
    have r: "integralOf 4 1 2 (integralKernel scenarioEnv scenarioAction 0 1) c
             = [spec_localWeight c * (1 / 2), 0, 0, 0]"
      by (simp add: scenario_outer_integral upt_4)
    show "sb_add (sb_add (sb_zero 4)
                 (integralOf 4 (- 2) (- 1) (integralKernel scenarioEnv scenarioAction 0 1)))
                 (integralOf 4 1 2 (integralKernel scenarioEnv scenarioAction 0 1)) c
          = [spec_localWeight c, 0, 0, 0]"
      by (simp add: sb_add_def z l r)
  qed
  finally show ?thesis .
qed


lemma scenarioPairs: "latticePairs scenarioEnv = [(0, 0), (0, 1), (0, 2), (0, 3)]"
  by (simp add: latticePairs_def scenarioEnv_def demoEnv_def)

lemma scenario_symmetry: "symmetryTransform scenarioEnv = (\<lambda>i j c s. (j, c, s))"
  by (simp add: scenarioEnv_def demoEnv_def)

subsection \<open>C7: the values of the scenario\<close>

text \<open>
  Claim C7. On the lattice with one basis site and four sites in its range, with the
  single-particle vertex and both readings of the two-particle vertex zero, the mesh
  from -2 to 2 and the cutoff 1, the density channel of the susceptibility is
  \<open>1 / (1 * 1) / pi\<close> at separation 0 and zero at the other separations, and the
  callback stores \<open>1 / (4 pi)\<close> (spin channels) and \<open>1 / pi\<close> (density) at separation 0
  and zero at every other separation of the four flat buffers. The quadrature is the
  exact one.
\<close>

theorem scenario_values:
  "calculateSusceptibility scenarioEnv scenarioAction SpinNone = [1 / (1 * 1) / pi, 0, 0, 0]
   \<and> map_option (\<lambda>m. (correlationsXX m, correlationsYY m, correlationsZZ m, correlationsDD m))
        (calculateCorrelation scenarioEnv scenarioAction demoMeasurement 0)
     = Some ([1 / (4 * pi), 0, 0, 0], [1 / (4 * pi), 0, 0, 0], [1 / (4 * pi), 0, 0, 0],
             [1 / (1 * 1) / pi, 0, 0, 0])"
  unfolding calculateCorrelation_def Let_def scenario_susceptibility scenarioPairs
  by (simp add: demoMeasurement_eq storePair_def readAt_def storeAt_def scenario_symmetry)

text \<open>The value of the density channel at separation 0, read off the theorem.\<close>

theorem scenario_values_witness:
  "calculateSusceptibility scenarioEnv scenarioAction SpinNone ! 0 = 1 / pi"
  using scenario_values by simp

end
